(* ===== verification/Prelude.thy ===== *)
theory Prelude
  imports Main
begin

text \<open>
  Shared vocabulary of the development: the error monad used for Python exceptions
  (a computation that raises is \<open>Inl e\<close>, one that returns is \<open>Inr v\<close>), the
  output streams the programs write to, and generic lemmas on lists and sums that the
  component theories use.  The collection \<open>model_simps\<close> gathers the equations of
  the model's small helpers so that component proofs can say \<open>simp add: model_simps\<close>.
\<close>

named_theorems model_simps "unfolding rules of the model's small helper definitions"

type_synonym log = "string list"

subsection \<open>Exceptions as sums\<close>

definition ebind :: "'e + 'a \<Rightarrow> ('a \<Rightarrow> 'e + 'b) \<Rightarrow> 'e + 'b" where
  "ebind r f = (case r of Inl e \<Rightarrow> Inl e | Inr a \<Rightarrow> f a)"

definition is_raise :: "'e + 'a \<Rightarrow> bool" where
  "is_raise r = (case r of Inl _ \<Rightarrow> True | Inr _ \<Rightarrow> False)"

lemma ebind_Inl [simp]: "ebind (Inl e) f = Inl e"
  by (simp add: ebind_def)

lemma ebind_Inr [simp]: "ebind (Inr a) f = f a"
  by (simp add: ebind_def)

lemma ebind_eq_Inr:
  "ebind r f = Inr b \<longleftrightarrow> (\<exists>a. r = Inr a \<and> f a = Inr b)"
  by (cases r) simp_all

lemma ebind_eq_Inl:
  "ebind r f = Inl e \<longleftrightarrow> r = Inl e \<or> (\<exists>a. r = Inr a \<and> f a = Inl e)"
  by (cases r) simp_all

lemma is_raise_simps [simp]: "is_raise (Inl e)" "\<not> is_raise (Inr a)"
  by (simp_all add: is_raise_def)

subsection \<open>Lists updated at an index\<close>

lemma length_filter_list_update:
  "i < length xs \<Longrightarrow>
   length (filter P (xs[i := x])) + (if P (xs ! i) then 1 else 0) =
   length (filter P xs) + (if P x then 1 else 0)"
proof (induction xs arbitrary: i)
  case Nil
  then show ?case by simp
next
  case (Cons y ys)
  then show ?case by (cases i) auto
qed

lemma set_list_update_cases:
  "p \<in> set (xs[i := x]) \<Longrightarrow> p = x \<or> p \<in> set xs"
  using set_update_subset_insert by fastforce

lemma sum_list_list_update:
  "i < length xs \<Longrightarrow> sum_list (xs[i := x]) + xs ! i = sum_list xs + (x :: nat)"
proof (induction xs arbitrary: i)
  case Nil
  then show ?case by simp
next
  case (Cons y ys)
  then show ?case by (cases i) auto
qed

end
