(* ===== verification/GlueService.thy ===== *)
theory GlueService
  imports Prelude
begin

text \<open>
  The AWS Glue API as the handler sees it through \<open>boto3.client('glue')\<close>.  The
  service is not code of this repository; it is the environment the handler runs in.
  It is given here in two layers:
  \<^item> the interface \<open>'s glue_client\<close>: the two calls the handler makes,
    \<open>get_crawler\<close> (answering the crawler's description or raising) and
    \<open>start_crawler\<close> (changing the service state or raising), over an arbitrary
    service state \<open>'s\<close>.  The handler's lemmas (theory \<open>Handler\<close>) hold for every
    client;
  \<^item> one implementation, \<open>glue_service\<close>, over the state \<open>glue_svc\<close>: a map from
    crawler names to the crawler state enumeration of the Glue API
    (\<open>READY | RUNNING | STOPPING\<close>), plus the faults the service may answer with
    (throttling, access denied, timeouts), following the documented behaviour of
    \<open>GetCrawler\<close> and \<open>StartCrawler\<close>: an unknown name raises
    \<open>EntityNotFoundException\<close>, and starting a crawler that is not \<open>READY\<close>
    raises \<open>CrawlerRunningException\<close>.
  The crawler's own lifecycle (a run ends: \<open>RUNNING \<rightarrow> STOPPING \<rightarrow> READY\<close>) is the
  environment step \<open>crawl_progress\<close>.
\<close>

datatype crawler_state = READY | RUNNING | STOPPING

datatype glue_error =
    EntityNotFoundException
  | CrawlerRunningException
  | OperationTimeoutException
  | ClientError string

record crawler_info =
  crawler_Name :: string
  crawler_State :: crawler_state

record 's glue_client =
  get_crawler :: "string \<Rightarrow> 's \<Rightarrow> glue_error + crawler_info"
  start_crawler :: "string \<Rightarrow> 's \<Rightarrow> glue_error + 's"

record glue_svc =
  crawlers :: "string \<rightharpoonup> crawler_state"
  get_fault :: "glue_error option"
  start_fault :: "glue_error option"

definition svc_get_crawler :: "string \<Rightarrow> glue_svc \<Rightarrow> glue_error + crawler_info" where
  "svc_get_crawler n s =
     (case get_fault s of
        Some e \<Rightarrow> Inl e
      | None \<Rightarrow>
          (case crawlers s n of
             None \<Rightarrow> Inl EntityNotFoundException
           | Some st \<Rightarrow> Inr \<lparr>crawler_Name = n, crawler_State = st\<rparr>))"

definition svc_start_crawler :: "string \<Rightarrow> glue_svc \<Rightarrow> glue_error + glue_svc" where
  "svc_start_crawler n s =
     (case start_fault s of
        Some e \<Rightarrow> Inl e
      | None \<Rightarrow>
          (case crawlers s n of
             None \<Rightarrow> Inl EntityNotFoundException
           | Some READY \<Rightarrow> Inr (s\<lparr>crawlers := (crawlers s)(n \<mapsto> RUNNING)\<rparr>)
           | Some _ \<Rightarrow> Inl CrawlerRunningException))"

definition glue_service :: "glue_svc glue_client" where
  "glue_service = \<lparr>get_crawler = svc_get_crawler, start_crawler = svc_start_crawler\<rparr>"

text \<open>A healthy service holding the given crawlers and answering without faults.\<close>

definition healthy :: "(string \<rightharpoonup> crawler_state) \<Rightarrow> glue_svc" where
  "healthy m = \<lparr>crawlers = m, get_fault = None, start_fault = None\<rparr>"

text \<open>The crawler's run advances on its own: a running crawler stops, a stopping one
  becomes ready again.\<close>

fun next_crawl_state :: "crawler_state \<Rightarrow> crawler_state" where
  "next_crawl_state READY = READY"
| "next_crawl_state RUNNING = STOPPING"
| "next_crawl_state STOPPING = READY"

definition crawl_progress :: "string \<Rightarrow> glue_svc \<Rightarrow> glue_svc" where
  "crawl_progress n s = s\<lparr>crawlers := (crawlers s)(n := map_option next_crawl_state (crawlers s n))\<rparr>"

lemmas glue_service_simps [model_simps] =
  glue_service_def svc_get_crawler_def svc_start_crawler_def healthy_def

subsection \<open>Behaviour of the service\<close>

lemma svc_get_crawler_Inr:
  "svc_get_crawler n s = Inr i \<longleftrightarrow>
     get_fault s = None \<and> crawlers s n = Some (crawler_State i) \<and> crawler_Name i = n"
  by (auto simp: svc_get_crawler_def split: option.splits)

lemma svc_start_crawler_Inr:
  "svc_start_crawler n s = Inr s' \<longleftrightarrow>
     start_fault s = None \<and> crawlers s n = Some READY \<and>
     s' = s\<lparr>crawlers := (crawlers s)(n \<mapsto> RUNNING)\<rparr>"
  by (auto simp: svc_start_crawler_def split: option.splits crawler_state.splits)

lemma svc_start_crawler_not_ready:
  "start_fault s = None \<Longrightarrow> crawlers s n = Some st \<Longrightarrow> st \<noteq> READY \<Longrightarrow>
     svc_start_crawler n s = Inl CrawlerRunningException"
  by (cases st) (simp_all add: svc_start_crawler_def)

lemma svc_start_crawler_faults:
  "svc_start_crawler n s = Inl e \<Longrightarrow>
     start_fault s = Some e \<or>
     (start_fault s = None \<and> crawlers s n = None \<and> e = EntityNotFoundException) \<or>
     (start_fault s = None \<and> (\<exists>st. crawlers s n = Some st \<and> st \<noteq> READY) \<and>
      e = CrawlerRunningException)"
  by (auto simp: svc_start_crawler_def split: option.splits crawler_state.splits)

lemma svc_start_other_crawlers:
  "svc_start_crawler n s = Inr s' \<Longrightarrow> m \<noteq> n \<Longrightarrow> crawlers s' m = crawlers s m"
  by (auto simp: svc_start_crawler_Inr)

lemma svc_start_faults_kept:
  "svc_start_crawler n s = Inr s' \<Longrightarrow> get_fault s' = get_fault s \<and> start_fault s' = start_fault s"
  by (auto simp: svc_start_crawler_Inr)

end
