(* ===== verification/Json.thy ===== *)
theory Json
  imports Prelude
begin

text \<open>
  JSON values and Python's \<open>json.dumps\<close> on strings, as the handler uses it for
  its response body (\<open>json.dumps('Hello from Lambda!')\<close>) and as the stack uses JSON
  documents for its event pattern.  \<open>json.dumps\<close> is Python's standard library, not
  code of this repository: it is modelled from its documented behaviour with the
  default \<open>ensure_ascii=True\<close>: the string is put between double quotes, \<open>"\<close> and
  \<open>\\\<close> are escaped with a backslash, the control characters \<open>\n \r \t \b \f\<close> by
  their short escapes, and every other character below 32 or above 126 as
  \<open>\u00XX\<close> with lower-case hexadecimal digits.  A \<open>char\<close> stands for a code
  point below 256.
\<close>

datatype json =
    JNull
  | JBool bool
  | JInt int
  | JStr string
  | JArr "json list"
  | JObj "(string \<times> json) list"

definition hex_digit :: "nat \<Rightarrow> char" where
  "hex_digit d = (if d < 10 then char_of (48 + d) else char_of (87 + d))"

definition json_escape_char :: "char \<Rightarrow> string" where
  "json_escape_char c =
     (let bs = CHR 0x5C; n = (of_char c :: nat) in
      if c = CHR 0x22 then [bs, CHR 0x22]
      else if c = bs then [bs, bs]
      else if n = 10 then [bs, CHR ''n'']
      else if n = 13 then [bs, CHR ''r'']
      else if n = 9 then [bs, CHR ''t'']
      else if n = 8 then [bs, CHR ''b'']
      else if n = 12 then [bs, CHR ''f'']
      else if n < 32 \<or> 126 < n
        then [bs, CHR ''u'', CHR ''0'', CHR ''0'', hex_digit (n div 16), hex_digit (n mod 16)]
      else [c])"

definition json_dumps_str :: "string \<Rightarrow> string" where
  "json_dumps_str s = CHR 0x22 # concat (map json_escape_char s) @ [CHR 0x22]"

text \<open>A printable character other than the quote and the backslash is copied.\<close>

definition plain_char :: "char \<Rightarrow> bool" where
  "plain_char c \<longleftrightarrow> (32::nat) \<le> of_char c \<and> of_char c \<le> (126::nat) \<and>
                     c \<noteq> CHR 0x22 \<and> c \<noteq> CHR 0x5C"

text \<open>\<open>json.loads\<close> on a document that is a JSON string: optional white space, a
  double quote, the characters of the string up to the closing quote, optional white
  space.  Inside, a backslash introduces one of the escapes \<open>\" \\ \/ \b \f \n \r \t\<close>
  or \<open>\uXXXX\<close> (four hexadecimal digits in either case; a code point from 256 on
  is outside the model and rejected); a raw control character is an error, as in the
  default strict mode.  \<open>parse_str_body\<close> returns the decoded string and the input
  after the closing quote.\<close>

definition hex_val :: "char \<Rightarrow> nat option" where
  "hex_val c =
     (let n = (of_char c :: nat) in
      if 48 \<le> n \<and> n \<le> 57 then Some (n - 48)
      else if 97 \<le> n \<and> n \<le> 102 then Some (n - 87)
      else if 65 \<le> n \<and> n \<le> 70 then Some (n - 55)
      else None)"

definition short_escape :: "char \<Rightarrow> char option" where
  "short_escape e =
     (if e = CHR 0x22 then Some (CHR 0x22)
      else if e = CHR 0x5C then Some (CHR 0x5C)
      else if e = CHR ''/'' then Some (CHR ''/'')
      else if e = CHR ''b'' then Some (char_of (8::nat))
      else if e = CHR ''f'' then Some (char_of (12::nat))
      else if e = CHR ''n'' then Some (char_of (10::nat))
      else if e = CHR ''r'' then Some (char_of (13::nat))
      else if e = CHR ''t'' then Some (char_of (9::nat))
      else None)"

definition hex4 :: "char \<Rightarrow> char \<Rightarrow> char \<Rightarrow> char \<Rightarrow> nat option" where
  "hex4 a b c d =
     (case (hex_val a, hex_val b, hex_val c, hex_val d) of
        (Some w, Some x, Some y, Some z) \<Rightarrow> Some (((w * 16 + x) * 16 + y) * 16 + z)
      | _ \<Rightarrow> None)"

fun parse_str_body :: "string \<Rightarrow> (string \<times> string) option" where
  "parse_str_body [] = None"
| "parse_str_body (c # cs) =
     (if c = CHR 0x22 then Some ([], cs)
      else if c = CHR 0x5C then
        (case cs of
           [] \<Rightarrow> None
         | e # cs' \<Rightarrow>
             (if e = CHR ''u'' then
                (case cs' of
                   h1 # h2 # h3 # h4 # rest \<Rightarrow>
                     (case hex4 h1 h2 h3 h4 of
                        Some n \<Rightarrow> (if n < 256 then map_option (apfst ((#) (char_of n))) (parse_str_body rest) else None)
                      | None \<Rightarrow> None)
                 | _ \<Rightarrow> None)
              else
                (case short_escape e of
                   Some d \<Rightarrow> map_option (apfst ((#) d)) (parse_str_body cs')
                 | None \<Rightarrow> None)))
      else if (of_char c :: nat) < 32 then None
      else map_option (apfst ((#) c)) (parse_str_body cs))"

definition json_ws :: "char \<Rightarrow> bool" where
  "json_ws c \<longleftrightarrow> c \<in> {CHR '' '', CHR 0x09, CHR 0x0A, CHR 0x0D}"

definition json_loads_str :: "string \<Rightarrow> string option" where
  "json_loads_str d =
     (case dropWhile json_ws d of
        c # cs \<Rightarrow>
          (if c = CHR 0x22 then
             (case parse_str_body cs of
                Some (s, rest) \<Rightarrow> (if list_all json_ws rest then Some s else None)
              | None \<Rightarrow> None)
           else None)
      | [] \<Rightarrow> None)"

lemma json_escape_plain: "plain_char c \<Longrightarrow> json_escape_char c = [c]"
  by (auto simp: json_escape_char_def plain_char_def)

lemma json_dumps_plain:
  "list_all plain_char s \<Longrightarrow> json_dumps_str s = CHR 0x22 # s @ [CHR 0x22]"
proof -
  assume "list_all plain_char s"
  then have "concat (map json_escape_char s) = s"
    by (induction s) (simp_all add: json_escape_plain)
  then show ?thesis by (simp add: json_dumps_str_def)
qed

subsection \<open>Round trip\<close>

lemma hex_val_digit: "d < 16 \<Longrightarrow> hex_val (hex_digit d) = Some d"
  by (auto simp: hex_val_def hex_digit_def Let_def)

lemma parse_escape_char:
  "parse_str_body (json_escape_char c @ r) = map_option (apfst ((#) c)) (parse_str_body r)"
proof -
  define n where "n = (of_char c :: nat)"
  have c: "c = char_of n" and n: "n < 256" by (simp_all add: n_def)
  have hex: "hex4 (CHR ''0'') (CHR ''0'') (hex_digit (n div 16)) (hex_digit (n mod 16)) = Some n"
    using n by (simp add: hex4_def hex_val_digit less_mult_imp_div_less) (simp add: hex_val_def)
  show ?thesis
    unfolding json_escape_char_def Let_def n_def[symmetric]
    using hex n by (auto simp: c short_escape_def)
qed

lemma parse_escaped:
  "parse_str_body (concat (map json_escape_char s) @ CHR 0x22 # rest) = Some (s, rest)"
  by (induction s) (simp_all add: parse_escape_char)

lemma json_loads_dumps: "json_loads_str (json_dumps_str s) = Some s"
  by (simp add: json_loads_str_def json_dumps_str_def json_ws_def parse_escaped)

end
