(* ===== verification/Handler.thy ===== *)
theory Handler
  imports GlueService Json
begin

text \<open>
  The crawler-trigger handler, \<open>src/lambda/lambda_handler.py\<close>, function
  \<open>lambda_handler(event, context)\<close>.  One invocation runs against a world: the state
  of the Glue service behind the client, the lines printed to standard output (the
  CloudWatch log of the invocation) and the API calls issued, in order.  The Glue
  client \<open>boto3.client('glue')\<close> is the parameter \<open>c\<close>, any implementation of the
  interface \<open>glue_client\<close>; \<open>event\<close> and \<open>context\<close> are arbitrary values that the
  handler does not read.  An exception that leaves the handler is \<open>Inl e\<close>; a return
  is \<open>Inr r\<close> with the response dictionary \<open>r\<close>.

  The try block is \<open>check_and_start\<close> (lines 13-21), the \<open>except\<close> clause that catches
  \<open>EntityNotFoundException\<close> from either call is \<open>try_except\<close> (lines 12-24), and
  \<open>lambda_handler\<close> adds the two prints around it and the return (lines 7-30).
\<close>

datatype api_call = GetCrawler string | StartCrawler string

record 's world =
  svc :: 's
  stdout :: log
  api_calls :: "api_call list"

record response =
  statusCode :: int
  body :: string

definition py_print :: "string \<Rightarrow> 's world \<Rightarrow> 's world" where
  "py_print line w = w\<lparr>stdout := stdout w @ [line]\<rparr>"

definition crawler_name :: string where
  "crawler_name = ''test-lambda-crawler''"

text \<open>The two client calls: each is recorded as issued, whatever its answer.\<close>

definition call_get_crawler ::
  "'s glue_client \<Rightarrow> string \<Rightarrow> 's world \<Rightarrow> (glue_error + crawler_info) \<times> 's world" where
  "call_get_crawler c n w =
     (get_crawler c n (svc w), w\<lparr>api_calls := api_calls w @ [GetCrawler n]\<rparr>)"

definition call_start_crawler ::
  "'s glue_client \<Rightarrow> string \<Rightarrow> 's world \<Rightarrow> (glue_error + unit) \<times> 's world" where
  "call_start_crawler c n w =
     (let w' = w\<lparr>api_calls := api_calls w @ [StartCrawler n]\<rparr> in
      case start_crawler c n (svc w) of
        Inl e \<Rightarrow> (Inl e, w')
      | Inr s' \<Rightarrow> (Inr (), w'\<lparr>svc := s'\<rparr>))"

definition check_and_start ::
  "'s glue_client \<Rightarrow> 's world \<Rightarrow> (glue_error + unit) \<times> 's world" where
  "check_and_start c w =
     (case call_get_crawler c crawler_name w of
        (Inl e, w1) \<Rightarrow> (Inl e, w1)
      | (Inr response, w1) \<Rightarrow>
          (if crawler_State response \<noteq> RUNNING then
             (case call_start_crawler c crawler_name w1 of
                (Inl e, w2) \<Rightarrow> (Inl e, w2)
              | (Inr (), w2) \<Rightarrow>
                  (Inr (), py_print (''Started Glue crawler: '' @ crawler_name) w2))
           else (Inr (), py_print (''Glue crawler '' @ crawler_name @ '' is already running.'') w1)))"

definition try_except ::
  "'s glue_client \<Rightarrow> 's world \<Rightarrow> (glue_error + unit) \<times> 's world" where
  "try_except c w =
     (case check_and_start c w of
        (Inl EntityNotFoundException, w1) \<Rightarrow>
          (Inr (), py_print (''Glue crawler '' @ crawler_name @ '' not found.'') w1)
      | r \<Rightarrow> r)"

definition hello_response :: response where
  "hello_response = \<lparr>statusCode = 200, body = json_dumps_str ''Hello from Lambda!''\<rparr>"

definition lambda_handler ::
  "'s glue_client \<Rightarrow> 'ev \<Rightarrow> 'ctx \<Rightarrow> 's world \<Rightarrow> (glue_error + response) \<times> 's world" where
  "lambda_handler c event context w =
     (let w1 = py_print ''lambda1 invoked - cdk'' w in
      case try_except c w1 of
        (Inl e, w2) \<Rightarrow> (Inl e, w2)
      | (Inr (), w2) \<Rightarrow> (Inr hello_response, py_print ''lambda1 finished - cdk'' w2))"

text \<open>The log lines the handler prints, by name.\<close>

definition msg_started :: string where
  "msg_started = ''Started Glue crawler: '' @ crawler_name"

definition msg_running :: string where
  "msg_running = ''Glue crawler '' @ crawler_name @ '' is already running.''"

definition msg_not_found :: string where
  "msg_not_found = ''Glue crawler '' @ crawler_name @ '' not found.''"

text \<open>A fresh invocation: the service as it is, an empty log and no calls yet.\<close>

definition fresh_world :: "'s \<Rightarrow> 's world" where
  "fresh_world s = \<lparr>svc = s, stdout = [], api_calls = []\<rparr>"

text \<open>The platform invoking the handler k times in a row on the same world (each with
  an empty event and context).\<close>

fun invoke_seq :: "'s glue_client \<Rightarrow> nat \<Rightarrow> 's world \<Rightarrow> (glue_error + response) list \<times> 's world" where
  "invoke_seq c 0 w = ([], w)"
| "invoke_seq c (Suc k) w =
     (case lambda_handler c () () w of
        (r, w') \<Rightarrow> (case invoke_seq c k w' of (rs, w'') \<Rightarrow> (r # rs, w'')))"

lemmas handler_defs [model_simps] =
  lambda_handler_def try_except_def check_and_start_def
  call_get_crawler_def call_start_crawler_def py_print_def

subsection \<open>The handler, branch by branch\<close>

text \<open>The handler flattened: its result and final world, by the answers of the two
  API calls.  Every branch property below follows from this equation.\<close>

lemma lambda_handler_unfold:
  "lambda_handler c ev ctx w =
    (let w1 = w\<lparr>stdout := stdout w @ [''lambda1 invoked - cdk''],
                api_calls := api_calls w @ [GetCrawler crawler_name]\<rparr>;
         fin = ''lambda1 finished - cdk'' in
     case get_crawler c crawler_name (svc w) of
       Inl e \<Rightarrow>
         (if e = EntityNotFoundException
          then (Inr hello_response, w1\<lparr>stdout := stdout w1 @ [msg_not_found, fin]\<rparr>)
          else (Inl e, w1))
     | Inr i \<Rightarrow>
         (if crawler_State i = RUNNING
          then (Inr hello_response, w1\<lparr>stdout := stdout w1 @ [msg_running, fin]\<rparr>)
          else
            (let w2 = w1\<lparr>api_calls := api_calls w1 @ [StartCrawler crawler_name]\<rparr> in
             case start_crawler c crawler_name (svc w) of
               Inl e \<Rightarrow>
                 (if e = EntityNotFoundException
                  then (Inr hello_response, w2\<lparr>stdout := stdout w2 @ [msg_not_found, fin]\<rparr>)
                  else (Inl e, w2))
             | Inr s' \<Rightarrow> (Inr hello_response, w2\<lparr>svc := s', stdout := stdout w2 @ [msg_started, fin]\<rparr>))))"
  by (simp add: handler_defs msg_started_def msg_running_def msg_not_found_def Let_def
           split: sum.splits glue_error.splits unit.splits)

text \<open>C1: When the crawler exists and is not RUNNING and the start call succeeds, the handler issues exactly the calls GetCrawler and StartCrawler, adopts the started service state, prints the invoked, started and finished lines, and returns the success response.\<close>

lemma handler_not_running_starts_once:
  assumes "get_crawler c crawler_name (svc w) = Inr i"
    and "crawler_State i \<noteq> RUNNING"
    and "start_crawler c crawler_name (svc w) = Inr s'"
  shows "lambda_handler c ev ctx w =
    (Inr hello_response,
     w\<lparr>svc := s',
       stdout := stdout w @ [''lambda1 invoked - cdk'', msg_started, ''lambda1 finished - cdk''],
       api_calls := api_calls w @ [GetCrawler crawler_name, StartCrawler crawler_name]\<rparr>)"
  using assms by (simp add: lambda_handler_unfold)

lemma handler_not_running_starts_once_witness:
  "get_crawler glue_service crawler_name (svc (fresh_world (healthy [crawler_name \<mapsto> READY])))
     = Inr \<lparr>crawler_Name = crawler_name, crawler_State = READY\<rparr> \<and>
   crawler_State \<lparr>crawler_Name = crawler_name, crawler_State = READY\<rparr> \<noteq> RUNNING \<and>
   start_crawler glue_service crawler_name (svc (fresh_world (healthy [crawler_name \<mapsto> READY])))
     = Inr (healthy [crawler_name \<mapsto> RUNNING]) \<and>
   lambda_handler glue_service () () (fresh_world (healthy [crawler_name \<mapsto> READY])) =
    (Inr hello_response,
     \<lparr>svc = healthy [crawler_name \<mapsto> RUNNING],
      stdout = [''lambda1 invoked - cdk'', msg_started, ''lambda1 finished - cdk''],
      api_calls = [GetCrawler crawler_name, StartCrawler crawler_name]\<rparr>)"
proof -
  let ?w = "fresh_world (healthy [crawler_name \<mapsto> READY])"
  let ?i = "\<lparr>crawler_Name = crawler_name, crawler_State = READY\<rparr>"
  have g: "get_crawler glue_service crawler_name (svc ?w) = Inr ?i"
    by (simp add: model_simps fresh_world_def)
  have s: "start_crawler glue_service crawler_name (svc ?w) = Inr (healthy [crawler_name \<mapsto> RUNNING])"
    by (simp add: model_simps fresh_world_def)
  show ?thesis
    using handler_not_running_starts_once [OF g _ s, of "()" "()"] g s
    by (simp add: fresh_world_def)
qed

lemma hello_body: "body hello_response = CHR 0x22 # ''Hello from Lambda!'' @ [CHR 0x22]"
  by (simp add: hello_response_def json_dumps_plain plain_char_def)

lemma handler_returns_hello: "fst (lambda_handler c ev ctx w) = Inr r \<Longrightarrow> r = hello_response"
  by (auto simp: lambda_handler_unfold Let_def split: sum.splits if_splits)


text \<open>C2: When the crawler is RUNNING, the handler issues no StartCrawler call (only GetCrawler), leaves the service unchanged, prints the already-running line and returns the success response.\<close>

lemma handler_running_no_start:
  assumes "get_crawler c crawler_name (svc w) = Inr i"
    and "crawler_State i = RUNNING"
  shows "lambda_handler c ev ctx w =
    (Inr hello_response,
     w\<lparr>stdout := stdout w @ [''lambda1 invoked - cdk'', msg_running, ''lambda1 finished - cdk''],
       api_calls := api_calls w @ [GetCrawler crawler_name]\<rparr>)"
  using assms by (simp add: lambda_handler_unfold)

text \<open>C3: When GetCrawler raises EntityNotFoundException, the exception is caught: no StartCrawler call is issued, the not-found line is printed and the success response is returned.\<close>

lemma handler_not_found_suppressed:
  assumes "get_crawler c crawler_name (svc w) = Inl EntityNotFoundException"
  shows "lambda_handler c ev ctx w =
    (Inr hello_response,
     w\<lparr>stdout := stdout w @ [''lambda1 invoked - cdk'', msg_not_found, ''lambda1 finished - cdk''],
       api_calls := api_calls w @ [GetCrawler crawler_name]\<rparr>)"
  using assms by (simp add: lambda_handler_unfold)

text \<open>C4: When GetCrawler raises any other exception, the handler propagates that exception: nothing is started and the finished line is never printed.\<close>

lemma handler_other_error_propagates:
  assumes "get_crawler c crawler_name (svc w) = Inl e"
    and "e \<noteq> EntityNotFoundException"
  shows "lambda_handler c ev ctx w =
    (Inl e,
     w\<lparr>stdout := stdout w @ [''lambda1 invoked - cdk''],
       api_calls := api_calls w @ [GetCrawler crawler_name]\<rparr>)"
  using assms by (simp add: lambda_handler_unfold)

text \<open>C5: On every path on which the handler returns, the response is the fixed one: statusCode 200 and the body json.dumps('Hello from Lambda!'), the message in double quotes.\<close>

lemma handler_success_response:
  assumes "fst (lambda_handler c ev ctx w) = Inr r"
  shows "r = hello_response \<and> statusCode r = 200 \<and>
         body r = CHR 0x22 # ''Hello from Lambda!'' @ [CHR 0x22]"
proof -
  from assms have "r = hello_response" by (rule handler_returns_hello)
  moreover have "statusCode hello_response = 200" by (simp add: hello_response_def)
  ultimately show ?thesis by (simp add: hello_body)
qed

text \<open>C6: For every client and every service state, the handler issues exactly one StartCrawler call when GetCrawler answered with a crawler that is not RUNNING, and none otherwise.\<close>

lemma handler_start_count:
  "count_list (api_calls (snd (lambda_handler c ev ctx w))) (StartCrawler crawler_name) =
   count_list (api_calls w) (StartCrawler crawler_name) +
   (case get_crawler c crawler_name (svc w) of
      Inr i \<Rightarrow> (if crawler_State i \<noteq> RUNNING then 1 else 0)
    | Inl _ \<Rightarrow> 0)"
  by (simp add: lambda_handler_unfold Let_def split: sum.splits)

text \<open>C7: When the start call itself raises, EntityNotFoundException is still caught (success response) and every other exception, such as CrawlerRunningException, propagates; the service state is unchanged either way.\<close>

lemma handler_start_error:
  assumes "get_crawler c crawler_name (svc w) = Inr i"
    and "crawler_State i \<noteq> RUNNING"
    and "start_crawler c crawler_name (svc w) = Inl e"
  shows "fst (lambda_handler c ev ctx w) =
           (if e = EntityNotFoundException then Inr hello_response else Inl e) \<and>
         svc (snd (lambda_handler c ev ctx w)) = svc w \<and>
         api_calls (snd (lambda_handler c ev ctx w)) =
           api_calls w @ [GetCrawler crawler_name, StartCrawler crawler_name]"
  using assms by (simp add: lambda_handler_unfold)

text \<open>C14: The handler changes the Glue service state only through a successful StartCrawler call: afterwards the state is either the one before or the one the start call returned.\<close>

lemma handler_svc_frame:
  "svc (snd (lambda_handler c ev ctx w)) = svc w \<or>
   start_crawler c crawler_name (svc w) = Inr (svc (snd (lambda_handler c ev ctx w)))"
  by (simp add: lambda_handler_unfold Let_def split: sum.splits)

lemma invoke_seq_running:
  assumes "get_fault (svc w) = None" and "crawlers (svc w) crawler_name = Some RUNNING"
  shows "invoke_seq glue_service k w =
    (replicate k (Inr hello_response),
     w\<lparr>stdout := stdout w @ concat (replicate k [''lambda1 invoked - cdk'', msg_running, ''lambda1 finished - cdk'']),
       api_calls := api_calls w @ replicate k (GetCrawler crawler_name)\<rparr>)"
  using assms
proof (induction k arbitrary: w)
  case 0
  then show ?case by simp
next
  case (Suc k)
  then show ?case
    by (simp add: lambda_handler_unfold glue_service_def svc_get_crawler_def replicate_append_same)
qed

text \<open>C9: Any number of invocations in a row while the crawler is RUNNING all return the success response, leave the service unchanged and issue no StartCrawler call.\<close>

lemma seq_running_no_start:
  assumes "get_fault (svc w) = None" and "crawlers (svc w) crawler_name = Some RUNNING"
  shows "fst (invoke_seq glue_service k w) = replicate k (Inr hello_response) \<and>
         svc (snd (invoke_seq glue_service k w)) = svc w \<and>
         StartCrawler crawler_name \<notin> set (drop (length (api_calls w)) (api_calls (snd (invoke_seq glue_service k w))))"
  using invoke_seq_running [OF assms, of k] by simp

text \<open>C11: Starting from a READY crawler on a fault-free service, k > 0 invocations in a row all succeed, leave the crawler RUNNING, and issue exactly one StartCrawler call between them.\<close>

lemma seq_ready_single_start:
  assumes "get_fault (svc w) = None" and "start_fault (svc w) = None"
    and "crawlers (svc w) crawler_name = Some READY" and "0 < k"
  shows "fst (invoke_seq glue_service k w) = replicate k (Inr hello_response) \<and>
         crawlers (svc (snd (invoke_seq glue_service k w))) crawler_name = Some RUNNING \<and>
         count_list (drop (length (api_calls w)) (api_calls (snd (invoke_seq glue_service k w))))
           (StartCrawler crawler_name) = 1"
proof -
  obtain k' where k: "k = Suc k'" using \<open>0 < k\<close> by (cases k) auto
  let ?w1 = "snd (lambda_handler glue_service () () w)"
  have first: "lambda_handler glue_service () () w =
     (Inr hello_response,
      w\<lparr>svc := svc w\<lparr>crawlers := (crawlers (svc w))(crawler_name \<mapsto> RUNNING)\<rparr>,
        stdout := stdout w @ [''lambda1 invoked - cdk'', msg_started, ''lambda1 finished - cdk''],
        api_calls := api_calls w @ [GetCrawler crawler_name, StartCrawler crawler_name]\<rparr>)"
    using assms by (simp add: lambda_handler_unfold model_simps)
  have "get_fault (svc ?w1) = None" "crawlers (svc ?w1) crawler_name = Some RUNNING"
    using assms by (simp_all add: first)
  from invoke_seq_running [OF this, of k'] show ?thesis
    by (simp add: k first)
qed


lemma handler_running_no_start_witness:
  "lambda_handler glue_service () () (fresh_world (healthy [crawler_name \<mapsto> RUNNING])) =
    (Inr hello_response,
     \<lparr>svc = healthy [crawler_name \<mapsto> RUNNING],
      stdout = [''lambda1 invoked - cdk'', msg_running, ''lambda1 finished - cdk''],
      api_calls = [GetCrawler crawler_name]\<rparr>)"
  using handler_running_no_start
    [of glue_service "fresh_world (healthy [crawler_name \<mapsto> RUNNING])"
        "\<lparr>crawler_Name = crawler_name, crawler_State = RUNNING\<rparr>" "()" "()"]
  by (simp add: model_simps fresh_world_def)

lemma handler_not_found_suppressed_witness:
  "lambda_handler glue_service () () (fresh_world (healthy Map.empty)) =
    (Inr hello_response,
     \<lparr>svc = healthy Map.empty,
      stdout = [''lambda1 invoked - cdk'', msg_not_found, ''lambda1 finished - cdk''],
      api_calls = [GetCrawler crawler_name]\<rparr>)"
  using handler_not_found_suppressed [of glue_service "fresh_world (healthy Map.empty)" "()" "()"]
  by (simp add: model_simps fresh_world_def)

lemma handler_other_error_propagates_witness:
  "lambda_handler glue_service () ()
     (fresh_world \<lparr>crawlers = [crawler_name \<mapsto> READY],
                   get_fault = Some (ClientError ''ThrottlingException''), start_fault = None\<rparr>) =
    (Inl (ClientError ''ThrottlingException''),
     \<lparr>svc = \<lparr>crawlers = [crawler_name \<mapsto> READY],
             get_fault = Some (ClientError ''ThrottlingException''), start_fault = None\<rparr>,
      stdout = [''lambda1 invoked - cdk''],
      api_calls = [GetCrawler crawler_name]\<rparr>)"
  using handler_other_error_propagates
    [of glue_service
        "fresh_world \<lparr>crawlers = [crawler_name \<mapsto> READY],
                     get_fault = Some (ClientError ''ThrottlingException''), start_fault = None\<rparr>"
        "ClientError ''ThrottlingException''" "()" "()"]
  by (simp add: model_simps fresh_world_def)

lemma handler_success_response_witness:
  "fst (lambda_handler glue_service () () (fresh_world (healthy Map.empty))) = Inr hello_response \<and>
   statusCode hello_response = 200 \<and>
   body hello_response = CHR 0x22 # ''Hello from Lambda!'' @ [CHR 0x22]"
proof -
  have r: "fst (lambda_handler glue_service () () (fresh_world (healthy Map.empty))) = Inr hello_response"
    by (simp add: lambda_handler_unfold model_simps fresh_world_def)
  show ?thesis using r handler_success_response [OF r] by simp
qed

lemma handler_start_error_witness:
  "fst (lambda_handler glue_service () () (fresh_world (healthy [crawler_name \<mapsto> STOPPING])))
     = Inl CrawlerRunningException \<and>
   svc (snd (lambda_handler glue_service () () (fresh_world (healthy [crawler_name \<mapsto> STOPPING]))))
     = healthy [crawler_name \<mapsto> STOPPING] \<and>
   api_calls (snd (lambda_handler glue_service () () (fresh_world (healthy [crawler_name \<mapsto> STOPPING]))))
     = [GetCrawler crawler_name, StartCrawler crawler_name]"
  using handler_start_error
    [of glue_service "fresh_world (healthy [crawler_name \<mapsto> STOPPING])"
        "\<lparr>crawler_Name = crawler_name, crawler_State = STOPPING\<rparr>" CrawlerRunningException "()" "()"]
  by (simp add: model_simps fresh_world_def)

lemma seq_running_no_start_witness:
  "fst (invoke_seq glue_service 3 (fresh_world (healthy [crawler_name \<mapsto> RUNNING])))
     = replicate 3 (Inr hello_response) \<and>
   svc (snd (invoke_seq glue_service 3 (fresh_world (healthy [crawler_name \<mapsto> RUNNING]))))
     = healthy [crawler_name \<mapsto> RUNNING] \<and>
   StartCrawler crawler_name \<notin>
     set (api_calls (snd (invoke_seq glue_service 3 (fresh_world (healthy [crawler_name \<mapsto> RUNNING])))))"
  using seq_running_no_start [of "fresh_world (healthy [crawler_name \<mapsto> RUNNING])" 3]
  by (simp add: model_simps fresh_world_def)

lemma seq_ready_single_start_witness:
  "fst (invoke_seq glue_service 3 (fresh_world (healthy [crawler_name \<mapsto> READY])))
     = replicate 3 (Inr hello_response) \<and>
   crawlers (svc (snd (invoke_seq glue_service 3 (fresh_world (healthy [crawler_name \<mapsto> READY])))))
     crawler_name = Some RUNNING \<and>
   count_list (api_calls (snd (invoke_seq glue_service 3 (fresh_world (healthy [crawler_name \<mapsto> READY])))))
     (StartCrawler crawler_name) = 1"
  using seq_ready_single_start [of "fresh_world (healthy [crawler_name \<mapsto> READY])" 3]
  by (simp add: model_simps fresh_world_def)

text \<open>json.loads inverts the json.dumps the handler applies to its body, on every
  string (characters standing for code points below 256); so every response the handler
  returns carries a body that decodes to the text 'Hello from Lambda!'.\<close>

theorem handler_body_roundtrip:
  assumes "fst (lambda_handler c ev ctx w) = Inr r"
  shows "json_loads_str (json_dumps_str s) = Some s \<and> json_loads_str (body r) = Some ''Hello from Lambda!''"
  using handler_returns_hello [OF assms] by (simp add: json_loads_dumps hello_response_def)

lemma handler_body_roundtrip_witness:
  "json_loads_str (json_dumps_str ''a\"b'') = Some ''a\"b'' \<and>
   json_loads_str (body hello_response) = Some ''Hello from Lambda!''"
proof -
  have r: "fst (lambda_handler glue_service () () (fresh_world (healthy Map.empty))) = Inr hello_response"
    by (simp add: lambda_handler_unfold model_simps fresh_world_def)
  show ?thesis using handler_body_roundtrip [OF r, of "''a\"b''"] by simp
qed

end
