(* ===== verification/Concurrency.thy ===== *)
theory Concurrency
  imports Handler
begin

text \<open>
  Concurrent invocations of the handler against one shared Glue service.  The platform
  may run several invocations of \<open>lambda_handler\<close> at once; each performs its own
  check-then-act sequence.  An invocation is split at its two API calls, which are the
  points where others can interleave:
  \<^item> \<open>inv_check\<close>: the first print and \<open>get_crawler\<close> (lines 8-16), ending the
    invocation at once when the crawler is RUNNING or the call raised, and otherwise
    leaving it about to start the crawler;
  \<^item> \<open>inv_act\<close>: \<open>start_crawler\<close> and what follows it (lines 18-30).
  Both end through \<open>finish\<close>, the \<open>except\<close> clause, the last print and the return
  (lines 22-30).  A configuration holds the service state and, per invocation, its
  program counter, its own log and the calls it issued.  A schedule is a list of
  events: \<open>Check i\<close> and \<open>Act i\<close> move invocation \<open>i\<close>, \<open>Crawl\<close> is the
  environment (the crawler's run advancing).  \<open>conc_step\<close> is executable and
  \<open>None\<close> where the event is not enabled.
\<close>

datatype inv_pc = Begin | Will_start | Finished "glue_error + response"

record proc =
  pc :: inv_pc
  out :: log
  issued :: "api_call list"

record 's conf =
  glue :: 's
  procs :: "proc list"

datatype sched = Check nat | Act nat | Crawl

definition proc_world :: "'s conf \<Rightarrow> nat \<Rightarrow> 's world" where
  "proc_world cf i =
     \<lparr>svc = glue cf, stdout = out (procs cf ! i), api_calls = issued (procs cf ! i)\<rparr>"

definition set_proc :: "'s conf \<Rightarrow> nat \<Rightarrow> inv_pc \<Rightarrow> 's world \<Rightarrow> 's conf" where
  "set_proc cf i p w =
     \<lparr>glue = svc w, procs = (procs cf)[i := \<lparr>pc = p, out = stdout w, issued = api_calls w\<rparr>]\<rparr>"

definition finish :: "glue_error + unit \<Rightarrow> 's world \<Rightarrow> inv_pc \<times> 's world" where
  "finish r w =
     (case r of
        Inl EntityNotFoundException \<Rightarrow>
          (Finished (Inr hello_response),
           py_print ''lambda1 finished - cdk'' (py_print msg_not_found w))
      | Inl e \<Rightarrow> (Finished (Inl e), w)
      | Inr () \<Rightarrow> (Finished (Inr hello_response), py_print ''lambda1 finished - cdk'' w))"

definition inv_check :: "'s glue_client \<Rightarrow> 's world \<Rightarrow> inv_pc \<times> 's world" where
  "inv_check c w =
     (case call_get_crawler c crawler_name (py_print ''lambda1 invoked - cdk'' w) of
        (Inl e, w1) \<Rightarrow> finish (Inl e) w1
      | (Inr response, w1) \<Rightarrow>
          (if crawler_State response \<noteq> RUNNING then (Will_start, w1)
           else finish (Inr ()) (py_print msg_running w1)))"

definition inv_act :: "'s glue_client \<Rightarrow> 's world \<Rightarrow> inv_pc \<times> 's world" where
  "inv_act c w =
     (case call_start_crawler c crawler_name w of
        (Inl e, w1) \<Rightarrow> finish (Inl e) w1
      | (Inr (), w1) \<Rightarrow> finish (Inr ()) (py_print msg_started w1))"

fun conc_step :: "'s glue_client \<Rightarrow> ('s \<Rightarrow> 's) \<Rightarrow> 's conf \<Rightarrow> sched \<Rightarrow> 's conf option" where
  "conc_step c env cf (Check i) =
     (if i < length (procs cf) \<and> pc (procs cf ! i) = Begin
      then Some (case inv_check c (proc_world cf i) of (p, w) \<Rightarrow> set_proc cf i p w)
      else None)"
| "conc_step c env cf (Act i) =
     (if i < length (procs cf) \<and> pc (procs cf ! i) = Will_start
      then Some (case inv_act c (proc_world cf i) of (p, w) \<Rightarrow> set_proc cf i p w)
      else None)"
| "conc_step c env cf Crawl = Some (cf\<lparr>glue := env (glue cf)\<rparr>)"

fun conc_run :: "'s glue_client \<Rightarrow> ('s \<Rightarrow> 's) \<Rightarrow> 's conf \<Rightarrow> sched list \<Rightarrow> 's conf option" where
  "conc_run c env cf [] = Some cf"
| "conc_run c env cf (e # es) =
     (case conc_step c env cf e of None \<Rightarrow> None | Some cf' \<Rightarrow> conc_run c env cf' es)"

definition init_conf :: "'s \<Rightarrow> nat \<Rightarrow> 's conf" where
  "init_conf s k = \<lparr>glue = s, procs = replicate k \<lparr>pc = Begin, out = [], issued = []\<rparr>\<rparr>"

text \<open>The configurations reachable with the events that \<open>ok\<close> allows.\<close>

inductive conc_reach ::
  "'s glue_client \<Rightarrow> ('s \<Rightarrow> 's) \<Rightarrow> (sched \<Rightarrow> bool) \<Rightarrow> 's conf \<Rightarrow> 's conf \<Rightarrow> bool"
  for c env ok where
  refl: "conc_reach c env ok cf cf"
| step: "conc_reach c env ok cf cf' \<Longrightarrow> ok e \<Longrightarrow> conc_step c env cf' e = Some cf'' \<Longrightarrow>
         conc_reach c env ok cf cf''"

definition no_crawl :: "sched \<Rightarrow> bool" where
  "no_crawl e \<longleftrightarrow> e \<noteq> Crawl"

definition started :: "proc \<Rightarrow> bool" where
  "started p \<longleftrightarrow> msg_started \<in> set (out p)"

text \<open>The schedule of the race: both invocations check before either acts.\<close>

definition race_schedule :: "sched list" where
  "race_schedule = [Check 0, Check 1, Act 0, Act 1]"

text \<open>The invocations of the race, by what each has done at the end of the schedule
  \<open>race_all\<close>: every invocation checks, then every one acts, in index order.\<close>

definition idle_proc :: proc where
  "idle_proc = \<lparr>pc = Begin, out = [], issued = []\<rparr>"

definition checked_proc :: proc where
  "checked_proc = \<lparr>pc = Will_start, out = [''lambda1 invoked - cdk''], issued = [GetCrawler crawler_name]\<rparr>"

definition race_winner :: proc where
  "race_winner = \<lparr>pc = Finished (Inr hello_response),
     out = [''lambda1 invoked - cdk'', msg_started, ''lambda1 finished - cdk''],
     issued = [GetCrawler crawler_name, StartCrawler crawler_name]\<rparr>"

definition race_loser :: proc where
  "race_loser = \<lparr>pc = Finished (Inl CrawlerRunningException),
     out = [''lambda1 invoked - cdk''],
     issued = [GetCrawler crawler_name, StartCrawler crawler_name]\<rparr>"

definition race_all :: "nat \<Rightarrow> sched list" where
  "race_all k = map Check [0..<k] @ map Act [0..<k]"

definition pc_weight :: "inv_pc \<Rightarrow> nat" where
  "pc_weight p = (case p of Begin \<Rightarrow> 2 | Will_start \<Rightarrow> 1 | Finished _ \<Rightarrow> 0)"

definition pending :: "'s conf \<Rightarrow> nat" where
  "pending cf = sum_list (map (\<lambda>p. pc_weight (pc p)) (procs cf))"

definition all_finished :: "'s conf \<Rightarrow> bool" where
  "all_finished cf \<longleftrightarrow> list_all (\<lambda>p. pc p \<noteq> Begin \<and> pc p \<noteq> Will_start) (procs cf)"

text \<open>While the crawler is RUNNING: the service is untouched, and no invocation is about
  to start it or has asked to.\<close>

definition running_inv :: "glue_svc \<Rightarrow> glue_svc conf \<Rightarrow> bool" where
  "running_inv s cf \<longleftrightarrow> glue cf = s \<and>
     (\<forall>p\<in>set (procs cf). pc p \<noteq> Will_start \<and> StartCrawler crawler_name \<notin> set (issued p))"

text \<open>From a READY crawler on a fault-free service: the crawler is READY and nobody has
  started it, or it is RUNNING and exactly one invocation has; an invocation that failed
  failed with CrawlerRunningException after its own StartCrawler call.\<close>

definition ready_inv :: "glue_svc conf \<Rightarrow> bool" where
  "ready_inv cf \<longleftrightarrow>
     get_fault (glue cf) = None \<and> start_fault (glue cf) = None \<and>
     (\<forall>p\<in>set (procs cf). \<forall>e. pc p = Finished (Inl e) \<longrightarrow>
        e = CrawlerRunningException \<and> StartCrawler crawler_name \<in> set (issued p)) \<and>
     ((crawlers (glue cf) crawler_name = Some READY \<and> length (filter started (procs cf)) = 0) \<or>
      (crawlers (glue cf) crawler_name = Some RUNNING \<and> length (filter started (procs cf)) = 1))"

lemmas conc_defs [model_simps] = proc_world_def set_proc_def finish_def inv_check_def inv_act_def

subsection \<open>The two halves of an invocation\<close>

lemma inv_check_unfold:
  "inv_check c w =
    (let w1 = w\<lparr>stdout := stdout w @ [''lambda1 invoked - cdk''],
                api_calls := api_calls w @ [GetCrawler crawler_name]\<rparr>;
         fin = ''lambda1 finished - cdk'' in
     case get_crawler c crawler_name (svc w) of
       Inl e \<Rightarrow>
         (if e = EntityNotFoundException
          then (Finished (Inr hello_response), w1\<lparr>stdout := stdout w1 @ [msg_not_found, fin]\<rparr>)
          else (Finished (Inl e), w1))
     | Inr i \<Rightarrow>
         (if crawler_State i = RUNNING
          then (Finished (Inr hello_response), w1\<lparr>stdout := stdout w1 @ [msg_running, fin]\<rparr>)
          else (Will_start, w1)))"
  by (simp add: inv_check_def finish_def call_get_crawler_def py_print_def Let_def
           split: sum.splits glue_error.splits unit.splits)

lemma inv_act_unfold:
  "inv_act c w =
    (let w2 = w\<lparr>api_calls := api_calls w @ [StartCrawler crawler_name]\<rparr>;
         fin = ''lambda1 finished - cdk'' in
     case start_crawler c crawler_name (svc w) of
       Inl e \<Rightarrow>
         (if e = EntityNotFoundException
          then (Finished (Inr hello_response), w2\<lparr>stdout := stdout w2 @ [msg_not_found, fin]\<rparr>)
          else (Finished (Inl e), w2))
     | Inr s' \<Rightarrow> (Finished (Inr hello_response), w2\<lparr>svc := s', stdout := stdout w2 @ [msg_started, fin]\<rparr>))"
  by (simp add: inv_act_def finish_def call_start_crawler_def py_print_def Let_def
           split: sum.splits glue_error.splits unit.splits)

text \<open>Running the check and, when it asks for it, the act, one right after the other,
  is the handler: the split into two atomic steps loses nothing.\<close>

lemma handler_check_finished:
  "inv_check c w = (Finished r, w1) \<Longrightarrow> lambda_handler c ev ctx w = (r, w1)"
  by (auto simp: inv_check_unfold lambda_handler_unfold Let_def split: sum.splits if_splits)

lemma handler_check_act:
  "inv_check c w = (Will_start, w1) \<Longrightarrow>
   inv_act c w1 = (Finished (fst (lambda_handler c ev ctx w)), snd (lambda_handler c ev ctx w))"
  by (auto simp: inv_check_unfold inv_act_unfold lambda_handler_unfold Let_def
           split: sum.splits if_splits)

lemma inv_check_not_begin: "fst (inv_check c w) \<noteq> Begin"
  by (simp add: inv_check_unfold Let_def split: sum.splits)

lemma inv_act_finished: "\<exists>r. fst (inv_act c w) = Finished r"
  by (simp add: inv_act_unfold Let_def split: sum.splits)

lemma inv_svc_frame:
  "svc (snd (inv_check c w)) = svc w"
  by (simp add: inv_check_unfold Let_def split: sum.splits)

subsection \<open>Updating one invocation\<close>

lemma set_proc_nth [simp]:
  "i < length (procs cf) \<Longrightarrow> procs (set_proc cf i p w) ! i = \<lparr>pc = p, out = stdout w, issued = api_calls w\<rparr>"
  by (simp add: set_proc_def)

lemma set_proc_other [simp]:
  "j \<noteq> i \<Longrightarrow> procs (set_proc cf i p w) ! j = procs cf ! j"
  by (simp add: set_proc_def)

lemma set_proc_length [simp]: "length (procs (set_proc cf i p w)) = length (procs cf)"
  by (simp add: set_proc_def)

lemma set_proc_glue [simp]: "glue (set_proc cf i p w) = svc w"
  by (simp add: set_proc_def)

lemma proc_world_set_proc [simp]:
  "i < length (procs cf) \<Longrightarrow> proc_world (set_proc cf i p w) i = w"
  by (simp add: proc_world_def)

lemma proc_world_fields [simp]:
  "svc (proc_world cf i) = glue cf"
  "stdout (proc_world cf i) = out (procs cf ! i)"
  "api_calls (proc_world cf i) = issued (procs cf ! i)"
  by (simp_all add: proc_world_def)

lemma conc_run_append:
  "conc_run c env cf (es @ fs) = (case conc_run c env cf es of None \<Rightarrow> None | Some cf' \<Rightarrow> conc_run c env cf' fs)"
  by (induction es arbitrary: cf) (simp_all split: option.splits)

lemma conc_reach_run:
  "conc_run c env cf es = Some cf' \<Longrightarrow> list_all ok es \<Longrightarrow> conc_reach c env ok cf cf'"
proof (induction es arbitrary: cf' rule: rev_induct)
  case Nil
  then show ?case by (simp add: conc_reach.refl)
next
  case (snoc e es)
  then obtain cf1 where "conc_run c env cf es = Some cf1" "conc_step c env cf1 e = Some cf'"
    by (auto simp: conc_run_append split: option.splits)
  with snoc show ?case by (auto intro: conc_reach.step)
qed

subsection \<open>The concrete service, one step at a time\<close>

lemma check_glue_service:
  assumes "get_fault (svc w) = None" and "crawlers (svc w) crawler_name = Some st"
  shows "inv_check glue_service w =
    (if st = RUNNING
     then (Finished (Inr hello_response),
           w\<lparr>stdout := stdout w @ [''lambda1 invoked - cdk'', msg_running, ''lambda1 finished - cdk''],
             api_calls := api_calls w @ [GetCrawler crawler_name]\<rparr>)
     else (Will_start,
           w\<lparr>stdout := stdout w @ [''lambda1 invoked - cdk''],
             api_calls := api_calls w @ [GetCrawler crawler_name]\<rparr>))"
  using assms by (simp add: inv_check_unfold glue_service_def svc_get_crawler_def)

lemma act_glue_service:
  assumes "start_fault (svc w) = None" and "crawlers (svc w) crawler_name = Some st"
  shows "inv_act glue_service w =
    (if st = READY
     then (Finished (Inr hello_response),
           w\<lparr>svc := svc w\<lparr>crawlers := (crawlers (svc w))(crawler_name \<mapsto> RUNNING)\<rparr>,
             stdout := stdout w @ [msg_started, ''lambda1 finished - cdk''],
             api_calls := api_calls w @ [StartCrawler crawler_name]\<rparr>)
     else (Finished (Inl CrawlerRunningException),
           w\<lparr>api_calls := api_calls w @ [StartCrawler crawler_name]\<rparr>))"
  using assms by (cases st) (simp_all add: inv_act_unfold glue_service_def svc_start_crawler_def)

lemma msg_started_other_lines:
  "msg_started \<noteq> ''lambda1 invoked - cdk''" "msg_started \<noteq> ''lambda1 finished - cdk''"
  "msg_started \<noteq> msg_running"
  by (simp_all add: msg_started_def msg_running_def crawler_name_def)

lemma conc_step_Check:
  "conc_step c env cf (Check i) = Some cf' \<Longrightarrow>
   i < length (procs cf) \<and> pc (procs cf ! i) = Begin \<and>
   cf' = set_proc cf i (fst (inv_check c (proc_world cf i))) (snd (inv_check c (proc_world cf i)))"
  by (simp split: if_splits prod.splits)

lemma conc_step_Act:
  "conc_step c env cf (Act i) = Some cf' \<Longrightarrow>
   i < length (procs cf) \<and> pc (procs cf ! i) = Will_start \<and>
   cf' = set_proc cf i (fst (inv_act c (proc_world cf i))) (snd (inv_act c (proc_world cf i)))"
  by (simp split: if_splits prod.splits)

lemma running_inv_step:
  assumes inv: "running_inv s cf" and s: "get_fault s = None" "crawlers s crawler_name = Some RUNNING"
    and st: "conc_step glue_service env cf e = Some cf'" and e: "no_crawl e"
  shows "running_inv s cf'"
proof (cases e)
  case (Check i)
  from st Check conc_step_Check [of glue_service env cf i cf']
  have i: "i < length (procs cf)" and cf': "cf' = set_proc cf i
      (fst (inv_check glue_service (proc_world cf i))) (snd (inv_check glue_service (proc_world cf i)))"
    by blast+
  from inv have g: "glue cf = s" by (simp add: running_inv_def)
  have nth: "StartCrawler crawler_name \<notin> set (issued (procs cf ! i))"
    using inv i by (simp add: running_inv_def)
  have chk: "inv_check glue_service (proc_world cf i) =
      (Finished (Inr hello_response),
       (proc_world cf i)\<lparr>stdout := out (procs cf ! i) @ [''lambda1 invoked - cdk'', msg_running, ''lambda1 finished - cdk''],
         api_calls := issued (procs cf ! i) @ [GetCrawler crawler_name]\<rparr>)"
    using check_glue_service [of "proc_world cf i" RUNNING] s g by simp
  show ?thesis
    using inv nth g unfolding running_inv_def cf' chk
    by (auto simp: set_proc_def dest!: set_list_update_cases)
next
  case (Act i)
  from st Act conc_step_Act [of glue_service env cf i cf']
  have "i < length (procs cf)" "pc (procs cf ! i) = Will_start"
    by blast+
  with inv show ?thesis by (auto simp: running_inv_def)
next
  case Crawl
  with e show ?thesis by (simp add: no_crawl_def)
qed

lemma ready_inv_step:
  assumes inv: "ready_inv cf"
    and st: "conc_step glue_service env cf e = Some cf'" and e: "no_crawl e"
  shows "ready_inv cf'"
proof -
  from inv have f: "get_fault (glue cf) = None" "start_fault (glue cf) = None"
    by (simp_all add: ready_inv_def)
  from inv obtain cs where cs: "crawlers (glue cf) crawler_name = Some cs" "cs = READY \<or> cs = RUNNING"
    by (auto simp: ready_inv_def)
  show ?thesis
  proof (cases e)
    case (Check i)
    from st Check conc_step_Check [of glue_service env cf i cf']
    have i: "i < length (procs cf)" and cf': "cf' = set_proc cf i
        (fst (inv_check glue_service (proc_world cf i))) (snd (inv_check glue_service (proc_world cf i)))"
      by blast+
    let ?old = "procs cf ! i"
    let ?new = "procs cf' ! i"
    have chk: "inv_check glue_service (proc_world cf i) = (if cs = RUNNING
       then (Finished (Inr hello_response),
             (proc_world cf i)\<lparr>stdout := out ?old @ [''lambda1 invoked - cdk'', msg_running, ''lambda1 finished - cdk''],
               api_calls := issued ?old @ [GetCrawler crawler_name]\<rparr>)
       else (Will_start,
             (proc_world cf i)\<lparr>stdout := out ?old @ [''lambda1 invoked - cdk''],
               api_calls := issued ?old @ [GetCrawler crawler_name]\<rparr>))"
      using check_glue_service [of "proc_world cf i" cs] f cs by simp
    have glue': "glue cf' = glue cf" by (simp add: cf' chk)
    have started': "started ?new = started ?old"
      using i msg_started_other_lines by (simp add: cf' chk started_def)
    have count': "length (filter started (procs cf')) = length (filter started (procs cf))"
      using length_filter_list_update [OF i, of started ?new] started' i
      by (simp add: cf' set_proc_def)
    have fin': "\<forall>e. pc ?new \<noteq> Finished (Inl e)"
      using i by (simp add: cf' chk)
    show ?thesis
      using inv glue' count' fin' i unfolding ready_inv_def
      by (auto simp: cf' set_proc_def dest!: set_list_update_cases)
  next
    case (Act i)
    from st Act conc_step_Act [of glue_service env cf i cf']
    have i: "i < length (procs cf)" and cf': "cf' = set_proc cf i
        (fst (inv_act glue_service (proc_world cf i))) (snd (inv_act glue_service (proc_world cf i)))"
      by blast+
    let ?old = "procs cf ! i"
    let ?new = "procs cf' ! i"
    show ?thesis
    proof (cases "cs = READY")
      case True
      have none: "length (filter started (procs cf)) = 0"
        using inv cs True by (auto simp: ready_inv_def)
      then have "\<not> started ?old" using i by (auto simp: filter_empty_conv)
      moreover have "started ?new" using i True cs f by (simp add: cf' act_glue_service started_def)
      ultimately have "length (filter started (procs cf')) = 1"
        using length_filter_list_update [OF i, of started ?new] none i
        by (simp add: cf' set_proc_def)
      moreover have "glue cf' = (glue cf)\<lparr>crawlers := (crawlers (glue cf))(crawler_name \<mapsto> RUNNING)\<rparr>"
        using True cs f by (simp add: cf' act_glue_service)
      moreover have "pc ?new = Finished (Inr hello_response)"
        using True cs f i by (simp add: cf' act_glue_service)
      ultimately show ?thesis
        using inv f i unfolding ready_inv_def
        by (auto simp: cf' set_proc_def dest!: set_list_update_cases)
    next
      case False
      then have run: "cs = RUNNING" using cs by simp
      have act: "inv_act glue_service (proc_world cf i) = (Finished (Inl CrawlerRunningException),
          (proc_world cf i)\<lparr>api_calls := issued ?old @ [StartCrawler crawler_name]\<rparr>)"
        using act_glue_service [of "proc_world cf i" cs] f cs run by simp
      have "started ?new = started ?old" using i by (simp add: cf' act started_def)
      then have "length (filter started (procs cf')) = length (filter started (procs cf))"
        using length_filter_list_update [OF i, of started ?new] i
        by (simp add: cf' set_proc_def)
      moreover have "glue cf' = glue cf" by (simp add: cf' act)
      moreover have "StartCrawler crawler_name \<in> set (issued ?new)" using i by (simp add: cf' act)
      moreover have "pc ?new = Finished (Inl CrawlerRunningException)" using i by (simp add: cf' act)
      ultimately show ?thesis
        using inv i unfolding ready_inv_def
        by (auto simp: cf' set_proc_def dest!: set_list_update_cases)
    qed
  next
    case Crawl
    with e show ?thesis by (simp add: no_crawl_def)
  qed
qed

lemma running_inv_reach:
  assumes "conc_reach glue_service env no_crawl cf0 cf" and "running_inv s cf0"
    and "get_fault s = None" and "crawlers s crawler_name = Some RUNNING"
  shows "running_inv s cf"
  using assms by (induction rule: conc_reach.induct) (auto intro: running_inv_step)

lemma ready_inv_reach:
  assumes "conc_reach glue_service env no_crawl cf0 cf" and "ready_inv cf0"
  shows "ready_inv cf"
  using assms by (induction rule: conc_reach.induct) (auto intro: ready_inv_step)

lemma ready_inv_init:
  "get_fault s = None \<Longrightarrow> start_fault s = None \<Longrightarrow> crawlers s crawler_name = Some READY \<Longrightarrow>
   ready_inv (init_conf s k)"
  by (simp add: ready_inv_def init_conf_def started_def)

text \<open>C10: Any number of concurrent invocations, interleaved in any order, while the
  crawler is RUNNING (and the crawler's run does not advance meanwhile): no invocation
  ever issues StartCrawler and the service state is never changed.\<close>

theorem conc_running_no_start:
  assumes "conc_reach glue_service env no_crawl (init_conf s k) cf"
    and "get_fault s = None" and "crawlers s crawler_name = Some RUNNING"
  shows "glue cf = s \<and> (\<forall>p\<in>set (procs cf). StartCrawler crawler_name \<notin> set (issued p))"
proof -
  have "running_inv s (init_conf s k)" by (simp add: running_inv_def init_conf_def)
  with assms have "running_inv s cf" by (blast intro: running_inv_reach)
  then show ?thesis by (simp add: running_inv_def)
qed

text \<open>C12: Concurrent invocations from a READY crawler on a fault-free service, in any
  interleaving: at most one invocation ever starts the crawler, and one has exactly when
  the crawler is RUNNING.\<close>

theorem conc_at_most_one_start:
  assumes "conc_reach glue_service env no_crawl (init_conf s k) cf"
    and "get_fault s = None" and "start_fault s = None" and "crawlers s crawler_name = Some READY"
  shows "length (filter started (procs cf)) \<le> 1 \<and>
         (crawlers (glue cf) crawler_name = Some RUNNING \<longleftrightarrow> length (filter started (procs cf)) = 1)"
proof -
  from assms have "ready_inv cf" by (blast intro: ready_inv_reach ready_inv_init)
  then show ?thesis by (auto simp: ready_inv_def)
qed

text \<open>In the same setting every invocation that ends with an exception raised
  CrawlerRunningException from its own StartCrawler call, an exception the handler does
  not catch.\<close>

theorem conc_failures_are_redundant_starts:
  assumes "conc_reach glue_service env no_crawl (init_conf s k) cf"
    and "get_fault s = None" and "start_fault s = None" and "crawlers s crawler_name = Some READY"
    and "p \<in> set (procs cf)" and "pc p = Finished (Inl e)"
  shows "e = CrawlerRunningException \<and> StartCrawler crawler_name \<in> set (issued p)"
proof -
  from assms(1-4) have "ready_inv cf" by (blast intro: ready_inv_reach ready_inv_init)
  with assms(5,6) show ?thesis by (simp add: ready_inv_def)
qed

lemma race_run:
  "conc_run glue_service env (init_conf (healthy [crawler_name \<mapsto> READY]) 2) race_schedule =
   Some \<lparr>glue = healthy [crawler_name \<mapsto> RUNNING],
         procs = [\<lparr>pc = Finished (Inr hello_response),
                   out = [''lambda1 invoked - cdk'', msg_started, ''lambda1 finished - cdk''],
                   issued = [GetCrawler crawler_name, StartCrawler crawler_name]\<rparr>,
                  \<lparr>pc = Finished (Inl CrawlerRunningException),
                   out = [''lambda1 invoked - cdk''],
                   issued = [GetCrawler crawler_name, StartCrawler crawler_name]\<rparr>]\<rparr>"
  by (simp add: race_schedule_def init_conf_def inv_check_unfold inv_act_unfold model_simps
                numeral_2_eq_2)

lemma run_checks:
  assumes "get_fault s = None" and "crawlers s crawler_name = Some READY"
  shows "conc_run glue_service env \<lparr>glue = s, procs = xs @ replicate n idle_proc\<rparr>
           (map Check [length xs..<length xs + n]) =
         Some \<lparr>glue = s, procs = xs @ replicate n checked_proc\<rparr>"
proof (induction n arbitrary: xs)
  case 0
  then show ?case by simp
next
  case (Suc n)
  have st: "conc_step glue_service env \<lparr>glue = s, procs = xs @ replicate (Suc n) idle_proc\<rparr> (Check (length xs)) =
            Some \<lparr>glue = s, procs = (xs @ [checked_proc]) @ replicate n idle_proc\<rparr>"
    using assms by (simp add: check_glue_service proc_world_def set_proc_def idle_proc_def
        checked_proc_def nth_append list_update_append)
  have "[length xs..<length xs + Suc n] = length xs # [length (xs @ [checked_proc])..<length (xs @ [checked_proc]) + n]"
    by (simp add: upt_conv_Cons)
  with st Suc.IH [of "xs @ [checked_proc]"] show ?case
    by (simp add: replicate_app_Cons_same)
qed


lemma run_losing_acts:
  assumes "start_fault s = None" and "crawlers s crawler_name = Some RUNNING"
  shows "conc_run glue_service env \<lparr>glue = s, procs = xs @ replicate n checked_proc\<rparr>
           (map Act [length xs..<length xs + n]) =
         Some \<lparr>glue = s, procs = xs @ replicate n race_loser\<rparr>"
proof (induction n arbitrary: xs)
  case 0
  then show ?case by simp
next
  case (Suc n)
  have st: "conc_step glue_service env \<lparr>glue = s, procs = xs @ replicate (Suc n) checked_proc\<rparr> (Act (length xs)) =
            Some \<lparr>glue = s, procs = (xs @ [race_loser]) @ replicate n checked_proc\<rparr>"
    using assms by (simp add: act_glue_service proc_world_def set_proc_def checked_proc_def
        race_loser_def nth_append list_update_append)
  have "[length xs..<length xs + Suc n] = length xs # [length (xs @ [race_loser])..<length (xs @ [race_loser]) + n]"
    by (simp add: upt_conv_Cons)
  with st Suc.IH [of "xs @ [race_loser]"] show ?case
    by (simp add: replicate_app_Cons_same)
qed

lemma run_winning_act:
  assumes "start_fault s = None" and "crawlers s crawler_name = Some READY"
  shows "conc_step glue_service env \<lparr>glue = s, procs = checked_proc # ps\<rparr> (Act 0) =
         Some \<lparr>glue = s\<lparr>crawlers := (crawlers s)(crawler_name \<mapsto> RUNNING)\<rparr>, procs = race_winner # ps\<rparr>"
  using assms by (simp add: act_glue_service proc_world_def set_proc_def checked_proc_def race_winner_def)

text \<open>C13: The check-then-act race is not harmless to the invocations that lose it.  For
  any number k > 0 of invocations from a READY crawler on a fault-free service, the schedule
  in which all invocations check before any acts ends with the first invocation having
  started the crawler and returned the success response, and every other one having
  issued its own StartCrawler and raised CrawlerRunningException to the platform.\<close>

theorem conc_race_losers_fail:
  assumes "get_fault s = None" and "start_fault s = None"
    and "crawlers s crawler_name = Some READY" and "0 < k"
  shows "conc_run glue_service env (init_conf s k) (race_all k) =
         Some \<lparr>glue = s\<lparr>crawlers := (crawlers s)(crawler_name \<mapsto> RUNNING)\<rparr>,
               procs = race_winner # replicate (k - 1) race_loser\<rparr>"
proof -
  let ?s' = "s\<lparr>crawlers := (crawlers s)(crawler_name \<mapsto> RUNNING)\<rparr>"
  have c: "conc_run glue_service env (init_conf s k) (map Check [0..<k]) =
           Some \<lparr>glue = s, procs = checked_proc # replicate (k - 1) checked_proc\<rparr>"
  proof -
    obtain m where "k = Suc m" using assms(4) by (cases k) simp_all
    then show ?thesis using run_checks [OF assms(1,3), of env "[]" k] by (simp add: init_conf_def idle_proc_def)
  qed
  have a0: "conc_step glue_service env \<lparr>glue = s, procs = checked_proc # replicate (k - 1) checked_proc\<rparr> (Act 0) =
           Some \<lparr>glue = ?s', procs = [race_winner] @ replicate (k - 1) checked_proc\<rparr>"
    using run_winning_act [OF assms(2,3)] by simp
  have "map Act [0..<k] = Act 0 # map Act [length [race_winner]..<length [race_winner] + (k - 1)]"
    using assms(4) by (simp add: upt_conv_Cons)
  moreover have "start_fault ?s' = None" "crawlers ?s' crawler_name = Some RUNNING"
    using assms(2) by simp_all
  ultimately show ?thesis
    using c a0 run_losing_acts [of ?s' env "[race_winner]" "k - 1"]
    by (simp add: race_all_def conc_run_append)
qed

subsection \<open>Interleaving refines the handler; every schedule ends\<close>

text \<open>An invocation whose two steps run back to back, with no other event in
  between, does exactly what the sequential handler does on its world: it ends with the
  handler's result, log, calls and service state, and leaves every other invocation as
  it was.\<close>

theorem conc_atomic_refines_handler:
  assumes i: "i < length (procs cf)" and b: "pc (procs cf ! i) = Begin"
  shows "\<exists>es cf'. es \<in> {[Check i], [Check i, Act i]} \<and> conc_run c env cf es = Some cf' \<and>
     pc (procs cf' ! i) = Finished (fst (lambda_handler c () () (proc_world cf i))) \<and>
     proc_world cf' i = snd (lambda_handler c () () (proc_world cf i)) \<and>
     length (procs cf') = length (procs cf) \<and>
     (\<forall>j. j \<noteq> i \<longrightarrow> procs cf' ! j = procs cf ! j)"
proof -
  obtain p w1 where chk: "inv_check c (proc_world cf i) = (p, w1)" by fastforce
  let ?cf1 = "set_proc cf i p w1"
  have run1: "conc_run c env cf [Check i] = Some ?cf1" using i b chk by simp
  show ?thesis
  proof (cases p)
    case Begin
    with chk inv_check_not_begin [of c "proc_world cf i"] show ?thesis by simp
  next
    case (Finished r)
    from chk Finished have "lambda_handler c () () (proc_world cf i) = (r, w1)"
      by (simp add: handler_check_finished)
    with run1 i Finished show ?thesis by (intro exI [of _ "[Check i]"]) auto
  next
    case Will_start
    let ?h = "lambda_handler c () () (proc_world cf i)"
    from chk Will_start have act: "inv_act c w1 = (Finished (fst ?h), snd ?h)"
      by (simp add: handler_check_act)
    have "conc_run c env cf [Check i, Act i] = Some (set_proc ?cf1 i (Finished (fst ?h)) (snd ?h))"
      using i b chk Will_start act by simp
    with i show ?thesis by (intro exI [of _ "[Check i, Act i]"]) auto
  qed
qed

lemma pc_weight_simps [simp]:
  "pc_weight Begin = 2" "pc_weight Will_start = 1" "pc_weight (Finished r) = 0"
  by (simp_all add: pc_weight_def)

lemma pending_set_proc:
  "i < length (procs cf) \<Longrightarrow>
   pending (set_proc cf i p w) + pc_weight (pc (procs cf ! i)) = pending cf + pc_weight p"
  using sum_list_list_update [of i "map (\<lambda>p. pc_weight (pc p)) (procs cf)" "pc_weight p"]
  by (simp add: pending_def set_proc_def map_update)

lemma conc_step_pending:
  assumes "conc_step c env cf e = Some cf'" and "no_crawl e"
  shows "pending cf' < pending cf"
proof (cases e)
  case (Check i)
  with assms conc_step_Check [of c env cf i cf']
  have i: "i < length (procs cf)" and b: "pc (procs cf ! i) = Begin"
    and cf': "cf' = set_proc cf i (fst (inv_check c (proc_world cf i))) (snd (inv_check c (proc_world cf i)))"
    by blast+
  let ?r = "inv_check c (proc_world cf i)"
  have "pc_weight (fst ?r) < 2"
    using inv_check_not_begin [of c "proc_world cf i"] by (cases "fst ?r") simp_all
  with pending_set_proc [OF i, of "fst ?r" "snd ?r"] b show ?thesis by (simp add: cf')
next
  case (Act i)
  with assms conc_step_Act [of c env cf i cf']
  have i: "i < length (procs cf)" and b: "pc (procs cf ! i) = Will_start"
    and cf': "cf' = set_proc cf i (fst (inv_act c (proc_world cf i))) (snd (inv_act c (proc_world cf i)))"
    by blast+
  let ?r = "inv_act c (proc_world cf i)"
  obtain r where "fst ?r = Finished r" using inv_act_finished by blast
  with pending_set_proc [OF i, of "fst ?r" "snd ?r"] b show ?thesis by (simp add: cf')
next
  case Crawl
  with assms show ?thesis by (simp add: no_crawl_def)
qed

lemma pending_bound: "pending cf \<le> 2 * length (procs cf)"
proof -
  have "pending cf \<le> sum_list (map (\<lambda>_. 2::nat) (procs cf))"
    unfolding pending_def by (rule sum_list_mono) (simp add: pc_weight_def split: inv_pc.splits)
  then show ?thesis by (simp add: sum_list_triv)
qed

text \<open>Termination with a bound: a schedule of invocation steps (no environment
  events) from any configuration has at most as many steps as the configuration has
  pending ones, hence at most two per invocation.\<close>

theorem conc_handler_steps_bounded:
  assumes "conc_run c env cf es = Some cf'" and "list_all no_crawl es"
  shows "length es + pending cf' \<le> pending cf \<and> pending cf \<le> 2 * length (procs cf)"
proof -
  have "length es + pending cf' \<le> pending cf"
    using assms
  proof (induction es arbitrary: cf)
    case Nil
    then show ?case by simp
  next
    case (Cons e es)
    then obtain cf1 where st: "conc_step c env cf e = Some cf1" and run: "conc_run c env cf1 es = Some cf'"
      by (auto split: option.splits)
    from Cons.IH [OF run] Cons.prems(2) have "length es + pending cf' \<le> pending cf1" by simp
    moreover from conc_step_pending [OF st] Cons.prems(2) have "pending cf1 < pending cf" by simp
    ultimately show ?case by simp
  qed
  with pending_bound show ?thesis by simp
qed

text \<open>Progress: from every configuration, some schedule of invocation steps alone
  brings every invocation to its end.\<close>

theorem conc_progress:
  "\<exists>es cf'. conc_run c env cf es = Some cf' \<and> list_all no_crawl es \<and> all_finished cf'"
proof (induction "pending cf" arbitrary: cf rule: less_induct)
  case less
  show ?case
  proof (cases "all_finished cf")
    case True
    then show ?thesis by (intro exI [of _ "[]"]) simp
  next
    case False
    then obtain i where i: "i < length (procs cf)"
      and pi: "pc (procs cf ! i) = Begin \<or> pc (procs cf ! i) = Will_start"
      by (auto simp: all_finished_def list_all_length)
    obtain e cf1 where st: "conc_step c env cf e = Some cf1" and e: "no_crawl e"
    proof (cases "pc (procs cf ! i) = Begin")
      case True
      with i that [of "Check i"] show ?thesis by (simp add: no_crawl_def split: prod.splits)
    next
      case False
      with pi i that [of "Act i"] show ?thesis by (simp add: no_crawl_def split: prod.splits)
    qed
    from conc_step_pending [OF st e] obtain es cf' where
      "conc_run c env cf1 es = Some cf'" "list_all no_crawl es" "all_finished cf'"
      using less by blast
    with st e show ?thesis by (intro exI [of _ "e # es"]) auto
  qed
qed

subsection \<open>Witnesses\<close>

lemma conc_running_no_start_witness:
  "glue (the (conc_run glue_service (crawl_progress crawler_name)
           (init_conf (healthy [crawler_name \<mapsto> RUNNING]) 2) [Check 0, Check 1]))
     = healthy [crawler_name \<mapsto> RUNNING] \<and>
   StartCrawler crawler_name \<notin> set (issued (procs (the (conc_run glue_service (crawl_progress crawler_name)
           (init_conf (healthy [crawler_name \<mapsto> RUNNING]) 2) [Check 0, Check 1])) ! 0)) \<and>
   StartCrawler crawler_name \<notin> set (issued (procs (the (conc_run glue_service (crawl_progress crawler_name)
           (init_conf (healthy [crawler_name \<mapsto> RUNNING]) 2) [Check 0, Check 1])) ! 1))"
proof -
  let ?s = "healthy [crawler_name \<mapsto> RUNNING]"
  have "\<exists>cf. conc_run glue_service (crawl_progress crawler_name) (init_conf ?s 2) [Check 0, Check 1] = Some cf
           \<and> length (procs cf) = 2"
    by (simp add: init_conf_def inv_check_unfold model_simps numeral_2_eq_2)
  then obtain cf where run: "conc_run glue_service (crawl_progress crawler_name) (init_conf ?s 2) [Check 0, Check 1] = Some cf"
    and len: "length (procs cf) = 2"
    by blast
  have "conc_reach glue_service (crawl_progress crawler_name) no_crawl (init_conf ?s 2) cf"
    using conc_reach_run [OF run] by (simp add: no_crawl_def)
  from conc_running_no_start [OF this] run len show ?thesis by (simp add: healthy_def)
qed

lemma race_reach:
  "conc_reach glue_service env no_crawl (init_conf (healthy [crawler_name \<mapsto> READY]) 2)
     (the (conc_run glue_service env (init_conf (healthy [crawler_name \<mapsto> READY]) 2) race_schedule))"
  using conc_reach_run [OF race_run] race_run by (simp add: race_schedule_def no_crawl_def)

lemma conc_at_most_one_start_witness:
  "length (filter started (procs (the (conc_run glue_service (crawl_progress crawler_name)
      (init_conf (healthy [crawler_name \<mapsto> READY]) 2) race_schedule)))) = 1 \<and>
   crawlers (glue (the (conc_run glue_service (crawl_progress crawler_name)
      (init_conf (healthy [crawler_name \<mapsto> READY]) 2) race_schedule))) crawler_name = Some RUNNING"
  using conc_at_most_one_start [OF race_reach] race_run
  by (simp add: healthy_def started_def)

lemma conc_failures_are_redundant_starts_witness:
  "pc (procs (the (conc_run glue_service (crawl_progress crawler_name)
      (init_conf (healthy [crawler_name \<mapsto> READY]) 2) race_schedule)) ! 1)
     = Finished (Inl CrawlerRunningException) \<and>
   StartCrawler crawler_name \<in> set (issued (procs (the (conc_run glue_service (crawl_progress crawler_name)
      (init_conf (healthy [crawler_name \<mapsto> READY]) 2) race_schedule)) ! 1))"
proof -
  let ?p = "\<lparr>pc = Finished (Inl CrawlerRunningException), out = [''lambda1 invoked - cdk''],
             issued = [GetCrawler crawler_name, StartCrawler crawler_name]\<rparr>"
  have "?p \<in> set (procs (the (conc_run glue_service (crawl_progress crawler_name)
      (init_conf (healthy [crawler_name \<mapsto> READY]) 2) race_schedule)))"
    by (simp add: race_run)
  moreover have "get_fault (healthy [crawler_name \<mapsto> READY]) = None"
    "start_fault (healthy [crawler_name \<mapsto> READY]) = None"
    "crawlers (healthy [crawler_name \<mapsto> READY]) crawler_name = Some READY"
    by (simp_all add: healthy_def)
  ultimately show ?thesis
    using conc_failures_are_redundant_starts [OF race_reach] by (simp add: race_run)
qed

lemma conc_atomic_refines_handler_witness:
  "\<exists>es cf'. es \<in> {[Check 0], [Check 0, Act 0]} \<and>
     conc_run glue_service (crawl_progress crawler_name) (init_conf (healthy [crawler_name \<mapsto> READY]) 2) es = Some cf' \<and>
     pc (procs cf' ! 0) = Finished (Inr hello_response) \<and>
     proc_world cf' 0 = \<lparr>svc = healthy [crawler_name \<mapsto> RUNNING],
        stdout = [''lambda1 invoked - cdk'', msg_started, ''lambda1 finished - cdk''],
        api_calls = [GetCrawler crawler_name, StartCrawler crawler_name]\<rparr> \<and>
     length (procs cf') = 2 \<and>
     (\<forall>j. j \<noteq> 0 \<longrightarrow> procs cf' ! j = procs (init_conf (healthy [crawler_name \<mapsto> READY]) 2) ! j)"
proof -
  let ?cf = "init_conf (healthy [crawler_name \<mapsto> READY]) (2::nat)"
  have h: "lambda_handler glue_service () () (proc_world ?cf 0) =
     (Inr hello_response, \<lparr>svc = healthy [crawler_name \<mapsto> RUNNING],
        stdout = [''lambda1 invoked - cdk'', msg_started, ''lambda1 finished - cdk''],
        api_calls = [GetCrawler crawler_name, StartCrawler crawler_name]\<rparr>)"
    by (simp add: lambda_handler_unfold init_conf_def model_simps)
  have "0 < length (procs ?cf)" "pc (procs ?cf ! 0) = Begin" by (simp_all add: init_conf_def)
  from conc_atomic_refines_handler [OF this, of glue_service "crawl_progress crawler_name"] h
  show ?thesis by (simp add: init_conf_def)
qed

lemma conc_handler_steps_bounded_witness:
  "length race_schedule +
     pending (the (conc_run glue_service (crawl_progress crawler_name)
                (init_conf (healthy [crawler_name \<mapsto> READY]) 2) race_schedule))
     \<le> pending (init_conf (healthy [crawler_name \<mapsto> READY]) 2) \<and>
   pending (init_conf (healthy [crawler_name \<mapsto> READY]) 2) \<le> 2 * 2"
proof -
  have ok: "list_all no_crawl race_schedule" by (simp add: race_schedule_def no_crawl_def)
  from conc_handler_steps_bounded [OF race_run ok] race_run show ?thesis
    by (simp add: init_conf_def)
qed

lemma conc_race_losers_fail_witness:
  "conc_run glue_service (crawl_progress crawler_name) (init_conf (healthy [crawler_name \<mapsto> READY]) 3)
     (race_all 3) =
   Some \<lparr>glue = healthy [crawler_name \<mapsto> RUNNING], procs = [race_winner, race_loser, race_loser]\<rparr>"
proof -
  have "get_fault (healthy [crawler_name \<mapsto> READY]) = None"
    "start_fault (healthy [crawler_name \<mapsto> READY]) = None"
    "crawlers (healthy [crawler_name \<mapsto> READY]) crawler_name = Some READY" "0 < (3::nat)"
    by (simp_all add: healthy_def)
  from conc_race_losers_fail [OF this, of "crawl_progress crawler_name"] show ?thesis
    by (simp add: healthy_def numeral_3_eq_3)
qed

end
