(* ===== verification/Contract.thy ===== *)
theory Contract
  imports Handler
begin

text \<open>
  The handler's contract as the specification states it (section 4.1 and 7 of the
  design): on each invocation ensure that the named crawler is running, without a
  start command when it already runs; a missing crawler is a no-op with the success
  response; every other failure of the status or start call propagates.  The contract
  is the relation \<open>ensure_running\<close> over the abstract state, the state of the named
  crawler (\<open>None\<close> when the service does not know it), the outcome the platform
  observes and the number of start commands issued.  The refinement theorem relates
  \<open>lambda_handler\<close> running on the service model \<open>glue_service\<close> to it through the
  abstraction \<open>abs_crawler\<close>.
\<close>

datatype outcome = Returned | Raised glue_error

definition outcome_of :: "glue_error + response \<Rightarrow> outcome" where
  "outcome_of r = (case r of Inl e \<Rightarrow> Raised e | Inr _ \<Rightarrow> Returned)"

definition abs_crawler :: "glue_svc \<Rightarrow> crawler_state option" where
  "abs_crawler s = crawlers s crawler_name"

text \<open>A start command is called for exactly when the crawler exists and is not RUNNING.\<close>

definition needs_start :: "crawler_state option \<Rightarrow> bool" where
  "needs_start st \<longleftrightarrow> st \<noteq> None \<and> st \<noteq> Some RUNNING"

text \<open>On a return the named crawler runs if it exists, after exactly the starts it needed;
  on a raised error (never the not-found signal) nothing has changed, and a start was
  issued only if one was needed.\<close>

definition ensure_running ::
  "crawler_state option \<Rightarrow> outcome \<Rightarrow> crawler_state option \<Rightarrow> nat \<Rightarrow> bool" where
  "ensure_running st out st' k \<longleftrightarrow>
     (case out of
        Returned \<Rightarrow>
          (if needs_start st then st' = Some RUNNING \<and> k = 1 else st' = st \<and> k = 0)
      | Raised e \<Rightarrow>
          e \<noteq> EntityNotFoundException \<and> st' = st \<and> k \<le> (if needs_start st then 1 else 0))"

text \<open>The not-found signal of the service means what the interface description says:
  the named crawler is unknown.  A fault injected into either call is then some other
  error.\<close>

definition not_found_faithful :: "glue_svc \<Rightarrow> bool" where
  "not_found_faithful s \<longleftrightarrow>
     get_fault s \<noteq> Some EntityNotFoundException \<and> start_fault s \<noteq> Some EntityNotFoundException"

definition starts_issued :: "'s world \<Rightarrow> nat" where
  "starts_issued w = count_list (api_calls w) (StartCrawler crawler_name)"

lemmas contract_simps =
  lambda_handler_unfold fresh_world_def glue_service_def svc_get_crawler_def
  ensure_running_def needs_start_def outcome_of_def abs_crawler_def starts_issued_def Let_def

text \<open>C33: The handler refines the contract: on every Glue service whose not-found signal
  is faithful, an invocation of lambda_handler from a fresh world relates the state of the
  named crawler before and after, the observed outcome and the number of StartCrawler calls
  as ensure_running requires (in particular no StartCrawler at all when the crawler is
  RUNNING or unknown, whatever the outcome), and leaves every other crawler as it was.\<close>

theorem handler_refines_contract:
  assumes "not_found_faithful s"
  shows "ensure_running (abs_crawler s)
           (outcome_of (fst (lambda_handler glue_service ev ctx (fresh_world s))))
           (abs_crawler (svc (snd (lambda_handler glue_service ev ctx (fresh_world s)))))
           (starts_issued (snd (lambda_handler glue_service ev ctx (fresh_world s)))) \<and>
         (crawlers (svc (snd (lambda_handler glue_service ev ctx (fresh_world s)))))(crawler_name := None) =
         (crawlers s)(crawler_name := None)"
proof (cases "get_fault s")
  case None
  show ?thesis
  proof (cases "crawlers s crawler_name")
    case None
    with \<open>get_fault s = None\<close> show ?thesis by (simp add: contract_simps)
  next
    case (Some st)
    with \<open>get_fault s = None\<close> assms show ?thesis
      by (cases st; cases "start_fault s")
         (auto simp: contract_simps svc_start_crawler_def not_found_faithful_def)
  qed
next
  case (Some e)
  with assms show ?thesis by (simp add: contract_simps not_found_faithful_def)
qed

lemma handler_refines_contract_witness:
  "not_found_faithful (healthy [crawler_name \<mapsto> READY]) \<and>
   ensure_running (abs_crawler (healthy [crawler_name \<mapsto> READY]))
     (outcome_of (fst (lambda_handler glue_service () () (fresh_world (healthy [crawler_name \<mapsto> READY])))))
     (abs_crawler (svc (snd (lambda_handler glue_service () () (fresh_world (healthy [crawler_name \<mapsto> READY]))))))
     (starts_issued (snd (lambda_handler glue_service () () (fresh_world (healthy [crawler_name \<mapsto> READY]))))) \<and>
   (crawlers (svc (snd (lambda_handler glue_service () () (fresh_world (healthy [crawler_name \<mapsto> READY]))))))
     (crawler_name := None) = (crawlers (healthy [crawler_name \<mapsto> READY]))(crawler_name := None)"
proof -
  have f: "not_found_faithful (healthy [crawler_name \<mapsto> READY])"
    by (simp add: not_found_faithful_def healthy_def)
  show ?thesis using handler_refines_contract [OF f, of "()" "()"] f by simp
qed

text \<open>C8: The design promises a fixed success response whatever branch the handler
  takes, but the code starts the crawler whenever its state is not RUNNING.  On the Glue
  service, a crawler that is STOPPING (its last run is winding down) makes StartCrawler
  raise CrawlerRunningException, which the handler does not catch: the invocation issues
  both calls, changes nothing and fails with that exception.\<close>

theorem handler_stopping_raises:
  assumes "get_fault (svc w) = None" and "start_fault (svc w) = None"
    and "crawlers (svc w) crawler_name = Some STOPPING"
  shows "lambda_handler glue_service ev ctx w =
    (Inl CrawlerRunningException,
     w\<lparr>stdout := stdout w @ [''lambda1 invoked - cdk''],
       api_calls := api_calls w @ [GetCrawler crawler_name, StartCrawler crawler_name]\<rparr>)"
  using assms by (simp add: lambda_handler_unfold glue_service_def svc_get_crawler_def svc_start_crawler_def)

lemma handler_stopping_raises_witness:
  "get_fault (svc (fresh_world (healthy [crawler_name \<mapsto> STOPPING]))) = None \<and>
   start_fault (svc (fresh_world (healthy [crawler_name \<mapsto> STOPPING]))) = None \<and>
   crawlers (svc (fresh_world (healthy [crawler_name \<mapsto> STOPPING]))) crawler_name = Some STOPPING \<and>
   lambda_handler glue_service () () (fresh_world (healthy [crawler_name \<mapsto> STOPPING])) =
    (Inl CrawlerRunningException,
     \<lparr>svc = healthy [crawler_name \<mapsto> STOPPING], stdout = [''lambda1 invoked - cdk''],
      api_calls = [GetCrawler crawler_name, StartCrawler crawler_name]\<rparr>)"
proof -
  have h: "get_fault (svc (fresh_world (healthy [crawler_name \<mapsto> STOPPING]))) = None"
    "start_fault (svc (fresh_world (healthy [crawler_name \<mapsto> STOPPING]))) = None"
    "crawlers (svc (fresh_world (healthy [crawler_name \<mapsto> STOPPING]))) crawler_name = Some STOPPING"
    by (simp_all add: fresh_world_def healthy_def)
  from handler_stopping_raises [OF h, of "()" "()"] h show ?thesis by (simp add: fresh_world_def)
qed

text \<open>The hypothesis is needed.  When StartCrawler answers not-found for a crawler that
  GetCrawler has just reported READY (it was deleted between the two calls), the except
  clause turns the failure into the success response: the platform sees a return while
  the crawler is not running, which the contract does not allow.\<close>

lemma start_not_found_violates_contract:
  "\<not> ensure_running (Some READY)
       (outcome_of (fst (lambda_handler glue_service () ()
          (fresh_world ((healthy [crawler_name \<mapsto> READY])\<lparr>start_fault := Some EntityNotFoundException\<rparr>)))))
       (abs_crawler (svc (snd (lambda_handler glue_service () ()
          (fresh_world ((healthy [crawler_name \<mapsto> READY])\<lparr>start_fault := Some EntityNotFoundException\<rparr>))))))
       (starts_issued (snd (lambda_handler glue_service () ()
          (fresh_world ((healthy [crawler_name \<mapsto> READY])\<lparr>start_fault := Some EntityNotFoundException\<rparr>)))))"
  by (simp add: contract_simps svc_start_crawler_def healthy_def)

end
