(* ===== verification/Stack.thy ===== *)
theory Stack
  imports Prelude Json
begin

text \<open>
  The CDK stack \<open>FirstcdkStack\<close>, \<open>src/lambda/commenstack.py\<close> lines 71-233.  Its
  constructor builds a construct tree: every call \<open>X(self, 'id', ...)\<close> adds a child
  named \<open>id\<close> to the stack, and \<open>raw_bucket.add_event_notification(...)\<close> changes a
  child already added.  The model keeps the stack as the list of its children, in the
  order they were added, each with the keyword arguments the code passes
  (\<open>construct\<close>, one record per construct class).  The constructor is the list
  \<open>firstcdk_ops\<close> of operations in source order, run by \<open>apply_ops\<close>; CDK raises
  when an id is already taken in the scope, and that is the error case of
  \<open>add_child\<close>.

  Values that are only known at deployment are tokens: the pseudo parameters
  \<open>cdk.Aws.ACCOUNT_ID\<close> and \<open>cdk.Aws.REGION\<close>, \<open>bucket.bucket_name\<close> (a \<open>Ref\<close> to the
  bucket), \<open>queue.queue_arn\<close> and \<open>role.role_arn\<close> (\<open>Fn::GetAtt\<close> of the
  \<open>Arn\<close> attribute), and f-strings that mix them with text (\<open>Fn::Join\<close>).  The
  attributes of L1 constructs that the code reads (\<open>glue_database.catalog_id\<close>,
  \<open>glue_workflow.name\<close>, \<open>glue_job.name\<close>) are the values passed to them.
  Resources that the CDK library adds on its own (the custom resources behind
  \<open>auto_delete_objects\<close>, bucket notifications and the bucket deployment, the queue
  policy of \<open>SqsDestination\<close>) are library internals and are not modelled.
\<close>

datatype token =
    Lit string
  | AccountId
  | Region
  | Ref string
  | GetAtt string string
  | Join "token list"

text \<open>CloudFormation property values, with tokens at the leaves (the event pattern is
  one).\<close>

datatype cfn_value =
    CStr token
  | CInt int
  | CBool bool
  | CList "cfn_value list"
  | CObj "(string \<times> cfn_value) list"

subsection \<open>Constructs and their properties\<close>

datatype removal_policy = DESTROY | RETAIN | SNAPSHOT

datatype storage_class =
    GLACIER | DEEP_ARCHIVE | INFREQUENT_ACCESS | ONE_ZONE_INFREQUENT_ACCESS
  | INTELLIGENT_TIERING | GLACIER_INSTANT_RETRIEVAL

record transition =
  tr_storage_class :: storage_class
  tr_after_days :: nat

record lifecycle_rule =
  lc_transitions :: "transition list"

datatype s3_event_type = OBJECT_CREATED | OBJECT_REMOVED

datatype notification_dest = SqsDestination string

record bucket_props =
  b_bucket_name :: "token option"
  b_removal_policy :: "removal_policy option"
  b_auto_delete_objects :: bool
  b_event_bridge_enabled :: bool
  b_lifecycle_rules :: "lifecycle_rule list"
  b_notifications :: "(s3_event_type \<times> notification_dest) list"

record deployment_props =
  dep_sources :: "string list"
  dep_destination_bucket :: string
  dep_destination_key_prefix :: "string option"

record queue_props =
  q_visibility_timeout :: "nat option"

datatype effect = ALLOW | DENY

record policy_statement =
  st_effect :: effect
  st_actions :: "string list"
  st_resources :: "string list"

record role_props =
  role_name :: string
  role_description :: string
  role_assumed_by :: string
  role_inline_policies :: "(string \<times> policy_statement list) list"

record database_props =
  db_catalog_id :: token
  db_name :: string
  db_description :: string

record permissions_props =
  perm_principal :: token
  perm_catalog_id :: token
  perm_database :: string
  perm_permissions :: "string list"

record s3_target =
  tgt_path :: token
  tgt_event_queue_arn :: "token option"

record crawler_props =
  cr_name :: string
  cr_role :: token
  cr_database_name :: string
  cr_s3_targets :: "s3_target list"
  cr_recrawl_behavior :: "string option"

record job_command =
  cmd_name :: string
  cmd_python_version :: string
  cmd_script_location :: token

record job_props =
  job_name :: string
  job_cmd :: job_command
  job_role :: token
  job_glue_version :: string
  job_timeout :: nat

record workflow_props =
  wf_name :: string
  wf_description :: string

record trigger_action =
  act_crawler_name :: "string option"
  act_job_name :: "string option"
  act_notify_delay_after :: nat
  act_timeout :: nat

record trigger_condition =
  cond_crawler_name :: "string option"
  cond_job_name :: "string option"
  cond_logical_operator :: string
  cond_crawl_state :: "string option"
  cond_state :: "string option"

record trigger_props =
  trg_name :: string
  trg_actions :: "trigger_action list"
  trg_type :: string
  trg_start_on_creation :: bool
  trg_workflow_name :: "string option"
  trg_conditions :: "trigger_condition list"

record rule_target =
  rt_arn :: token
  rt_role_arn :: token
  rt_id :: token

record rule_props =
  rule_name :: string
  rule_role_arn :: token
  rule_targets :: "rule_target list"
  rule_event_pattern :: cfn_value

datatype construct =
    Bucket bucket_props
  | BucketDeployment deployment_props
  | Queue queue_props
  | Role role_props
  | CfnDatabase database_props
  | CfnPermissions permissions_props
  | CfnCrawler crawler_props
  | CfnJob job_props
  | CfnWorkflow workflow_props
  | CfnTrigger trigger_props
  | CfnRule rule_props

subsection \<open>The stack and the operations that build it\<close>

record stack =
  stack_id :: string
  children :: "(string \<times> construct) list"

datatype cdk_error = DuplicateConstructId string | NoSuchConstruct string

datatype stack_op =
    AddChild string construct
  | AddNotification string s3_event_type notification_dest

definition child_ids :: "stack \<Rightarrow> string list" where
  "child_ids s = map fst (children s)"

definition add_child :: "string \<Rightarrow> construct \<Rightarrow> stack \<Rightarrow> cdk_error + stack" where
  "add_child cid c s =
     (if cid \<in> set (child_ids s) then Inl (DuplicateConstructId cid)
      else Inr (s\<lparr>children := children s @ [(cid, c)]\<rparr>))"

fun add_notification_to :: "s3_event_type \<Rightarrow> notification_dest \<Rightarrow> construct \<Rightarrow> construct option" where
  "add_notification_to ev d (Bucket b) =
     Some (Bucket (b\<lparr>b_notifications := b_notifications b @ [(ev, d)]\<rparr>))"
| "add_notification_to ev d _ = None"

definition add_event_notification ::
  "string \<Rightarrow> s3_event_type \<Rightarrow> notification_dest \<Rightarrow> stack \<Rightarrow> cdk_error + stack" where
  "add_event_notification bid ev d s =
     (case map_of (children s) bid of
        None \<Rightarrow> Inl (NoSuchConstruct bid)
      | Some c \<Rightarrow>
          (case add_notification_to ev d c of
             None \<Rightarrow> Inl (NoSuchConstruct bid)
           | Some c' \<Rightarrow>
               Inr (s\<lparr>children := map (\<lambda>(k, x). if k = bid then (k, c') else (k, x)) (children s)\<rparr>)))"

fun apply_op :: "stack_op \<Rightarrow> stack \<Rightarrow> cdk_error + stack" where
  "apply_op (AddChild cid c) s = add_child cid c s"
| "apply_op (AddNotification bid ev d) s = add_event_notification bid ev d s"

fun apply_ops :: "stack_op list \<Rightarrow> stack \<Rightarrow> cdk_error + stack" where
  "apply_ops [] s = Inr s"
| "apply_ops (op # ops) s = ebind (apply_op op s) (apply_ops ops)"

definition empty_stack :: "string \<Rightarrow> stack" where
  "empty_stack sid = \<lparr>stack_id = sid, children = []\<rparr>"

subsection \<open>FirstcdkStack, construct by construct\<close>

text \<open>\<open>raw_bucket\<close> (lines 77-85): named after the account, destroyed with the stack,
  sending its events to EventBridge, objects moving to Glacier after 7 days.\<close>

definition raw_bucket :: bucket_props where
  "raw_bucket =
     \<lparr>b_bucket_name = Some (Join [Lit ''raw-cdk-bucket-'', AccountId]),
      b_removal_policy = Some DESTROY,
      b_auto_delete_objects = False,
      b_event_bridge_enabled = True,
      b_lifecycle_rules =
        [\<lparr>lc_transitions = [\<lparr>tr_storage_class = GLACIER, tr_after_days = 7\<rparr>]\<rparr>],
      b_notifications = []\<rparr>"

text \<open>\<open>output_bucket\<close> (lines 102-105).\<close>

definition output_bucket :: bucket_props where
  "output_bucket =
     \<lparr>b_bucket_name = Some (Join [Lit ''processed-cdk-bucket-'', AccountId]),
      b_removal_policy = Some DESTROY,
      b_auto_delete_objects = True,
      b_event_bridge_enabled = False,
      b_lifecycle_rules = [],
      b_notifications = []\<rparr>"

text \<open>The \<open>BucketDeployment\<close> of the local \<open>assets\<close> directory (lines 107-110).\<close>

definition deployment_scripts :: deployment_props where
  "deployment_scripts =
     \<lparr>dep_sources = [''./assets/''],
      dep_destination_bucket = ''processed_cdk_bucket'',
      dep_destination_key_prefix = Some ''scripts/''\<rparr>"

text \<open>\<open>glue_queue\<close> (line 115), with the library defaults.\<close>

definition glue_queue :: queue_props where
  "glue_queue = \<lparr>q_visibility_timeout = None\<rparr>"

text \<open>\<open>glue_role\<close> (lines 118-126).\<close>

definition glue_role :: role_props where
  "glue_role =
     \<lparr>role_name = ''cdkGlueRole'',
      role_description = ''Role for Glue services to access S3'',
      role_assumed_by = ''glue.amazonaws.com'',
      role_inline_policies =
        [(''glue_policy'',
          [\<lparr>st_effect = ALLOW,
            st_actions = [''s3:*'', ''glue:*'', ''iam:*'', ''logs:*'', ''cloudwatch:*'', ''sqs:*'',
                          ''cloudtrail:*''],
            st_resources = [''*'']\<rparr>])]\<rparr>"

text \<open>\<open>glue_database\<close> (lines 128-132).\<close>

definition glue_database :: database_props where
  "glue_database =
     \<lparr>db_catalog_id = AccountId,
      db_name = ''cdk-database'',
      db_description = ''Database to store csv data.''\<rparr>"

text \<open>The Lake Formation grant to \<open>glue_role\<close> on the database (lines 137-144).\<close>

definition lakeformation_permission :: permissions_props where
  "lakeformation_permission =
     \<lparr>perm_principal = GetAtt ''glue_role'' ''Arn'',
      perm_catalog_id = db_catalog_id glue_database,
      perm_database = ''cdk-database'',
      perm_permissions = [''ALL'']\<rparr>"

text \<open>The crawler (lines 146-155): S3 target under \<open>csv/\<close> of the raw bucket, fed by
  \<open>glue_queue\<close> in event mode.\<close>

definition glue_crawler :: crawler_props where
  "glue_crawler =
     \<lparr>cr_name = ''cdk_crawler'',
      cr_role = GetAtt ''glue_role'' ''Arn'',
      cr_database_name = ''cdk-database'',
      cr_s3_targets =
        [\<lparr>tgt_path = Join [Lit ''s3://'', Ref ''raw_data'', Lit ''/csv/''],
          tgt_event_queue_arn = Some (GetAtt ''glue_queue'' ''Arn'')\<rparr>],
      cr_recrawl_behavior = Some ''CRAWL_EVENT_MODE''\<rparr>"

text \<open>The Python shell job (lines 157-165).\<close>

definition glue_job :: job_props where
  "glue_job =
     \<lparr>job_name = ''glue_job'',
      job_cmd =
        \<lparr>cmd_name = ''pythonshell'',
         cmd_python_version = ''3.12'',
         cmd_script_location = Join [Lit ''s3://'', Ref ''processed_cdk_bucket'', Lit ''/glue_job.py'']\<rparr>,
      job_role = GetAtt ''glue_role'' ''Arn'',
      job_glue_version = ''4.0'',
      job_timeout = 3\<rparr>"

text \<open>The workflow (lines 183-185).\<close>

definition glue_workflow :: workflow_props where
  "glue_workflow =
     \<lparr>wf_name = ''glue_workflow'', wf_description = ''Workflow to process the rfm data.''\<rparr>"

text \<open>The EVENT trigger that starts the crawler (lines 187-194).\<close>

definition glue_crawler_trigger :: trigger_props where
  "glue_crawler_trigger =
     \<lparr>trg_name = ''glue_crawler_trigger'',
      trg_actions =
        [\<lparr>act_crawler_name = Some ''cdk_crawler'', act_job_name = None,
          act_notify_delay_after = 3, act_timeout = 3\<rparr>],
      trg_type = ''EVENT'',
      trg_start_on_creation = False,
      trg_workflow_name = Some (wf_name glue_workflow),
      trg_conditions = []\<rparr>"

text \<open>The CONDITIONAL trigger that starts the job when a crawl has succeeded (lines
  196-209).  Its condition names the crawler \<open>'glue_crawler'\<close>.\<close>

definition glue_job_trigger :: trigger_props where
  "glue_job_trigger =
     \<lparr>trg_name = ''glue_job_trigger'',
      trg_actions =
        [\<lparr>act_crawler_name = None, act_job_name = Some (job_name glue_job),
          act_notify_delay_after = 3, act_timeout = 3\<rparr>],
      trg_type = ''CONDITIONAL'',
      trg_start_on_creation = True,
      trg_workflow_name = Some (wf_name glue_workflow),
      trg_conditions =
        [\<lparr>cond_crawler_name = Some ''glue_crawler'', cond_job_name = None,
          cond_logical_operator = ''EQUALS'', cond_crawl_state = Some ''SUCCEEDED'',
          cond_state = None\<rparr>]\<rparr>"

text \<open>\<open>rule_role\<close> (lines 212-220).\<close>

definition rule_role :: role_props where
  "rule_role =
     \<lparr>role_name = ''EventBridgeRole'',
      role_description = ''Role for EventBridge to trigger Glue workflows.'',
      role_assumed_by = ''events.amazonaws.com'',
      role_inline_policies =
        [(''eventbridge_policy'',
          [\<lparr>st_effect = ALLOW, st_actions = [''events:*'', ''glue:*''], st_resources = [''*'']\<rparr>])]\<rparr>"

text \<open>The EventBridge rule from object-created events of the raw bucket to the workflow
  (lines 222-233).\<close>

definition rule_s3_glue :: rule_props where
  "rule_s3_glue =
     \<lparr>rule_name = ''rule_s3_glue'',
      rule_role_arn = GetAtt ''rule_role'' ''Arn'',
      rule_targets =
        [\<lparr>rt_arn = Join [Lit ''arn:aws:glue:'', Region, Lit '':'', AccountId, Lit '':workflow/glue_workflow''],
          rt_role_arn = GetAtt ''rule_role'' ''Arn'',
          rt_id = AccountId\<rparr>],
      rule_event_pattern =
        CObj [(''detail-type'', CList [CStr (Lit ''Object Created'')]),
              (''detail'', CObj [(''bucket'', CObj [(''name'', CList [CStr (Ref ''raw_data'')])])]),
              (''source'', CList [CStr (Lit ''aws.s3'')])]\<rparr>"

text \<open>The constructor, in source order (lines 71-233).\<close>

definition firstcdk_ops :: "stack_op list" where
  "firstcdk_ops =
     [AddChild ''raw_data'' (Bucket raw_bucket),
      AddChild ''processed_cdk_bucket'' (Bucket output_bucket),
      AddChild ''deployment_scripts'' (BucketDeployment deployment_scripts),
      AddChild ''glue_queue'' (Queue glue_queue),
      AddNotification ''raw_data'' OBJECT_CREATED (SqsDestination ''glue_queue''),
      AddChild ''glue_role'' (Role glue_role),
      AddChild ''glue-database'' (CfnDatabase glue_database),
      AddChild ''lakeformation_permission'' (CfnPermissions lakeformation_permission),
      AddChild ''glue_crawler'' (CfnCrawler glue_crawler),
      AddChild ''glue_job'' (CfnJob glue_job),
      AddChild ''glue_workflow'' (CfnWorkflow glue_workflow),
      AddChild ''glue_crawler_trigger'' (CfnTrigger glue_crawler_trigger),
      AddChild ''glue_job_trigger'' (CfnTrigger glue_job_trigger),
      AddChild ''rule_role'' (Role rule_role),
      AddChild ''rule_s3_glue'' (CfnRule rule_s3_glue)]"

definition firstcdk_stack :: "string \<Rightarrow> cdk_error + stack" where
  "firstcdk_stack construct_id = apply_ops firstcdk_ops (empty_stack construct_id)"

lemmas stack_op_defs [model_simps] =
  add_child_def add_event_notification_def child_ids_def empty_stack_def

subsection \<open>Building the stack\<close>

text \<open>The stack the constructor builds, child by child.\<close>

lemma firstcdk_stack_result:
  "firstcdk_stack sid = Inr
     \<lparr>stack_id = sid,
      children =
        [(''raw_data'', Bucket (raw_bucket\<lparr>b_notifications := [(OBJECT_CREATED, SqsDestination ''glue_queue'')]\<rparr>)),
         (''processed_cdk_bucket'', Bucket output_bucket),
         (''deployment_scripts'', BucketDeployment deployment_scripts),
         (''glue_queue'', Queue glue_queue),
         (''glue_role'', Role glue_role),
         (''glue-database'', CfnDatabase glue_database),
         (''lakeformation_permission'', CfnPermissions lakeformation_permission),
         (''glue_crawler'', CfnCrawler glue_crawler),
         (''glue_job'', CfnJob glue_job),
         (''glue_workflow'', CfnWorkflow glue_workflow),
         (''glue_crawler_trigger'', CfnTrigger glue_crawler_trigger),
         (''glue_job_trigger'', CfnTrigger glue_job_trigger),
         (''rule_role'', Role rule_role),
         (''rule_s3_glue'', CfnRule rule_s3_glue)]\<rparr>"
  by (simp add: firstcdk_stack_def firstcdk_ops_def empty_stack_def add_child_def child_ids_def
                add_event_notification_def raw_bucket_def)

lemma add_event_notification_ids:
  "add_event_notification bid ev d s = Inr s' \<Longrightarrow> child_ids s' = child_ids s \<and> stack_id s' = stack_id s"
  by (auto simp: add_event_notification_def child_ids_def split: option.splits)

lemma apply_op_ids:
  assumes "apply_op op s = Inr s'" and "distinct (child_ids s)"
  shows "distinct (child_ids s') \<and> set (child_ids s) \<subseteq> set (child_ids s') \<and> stack_id s' = stack_id s"
proof (cases op)
  case (AddChild cid c)
  with assms show ?thesis by (auto simp: add_child_def child_ids_def split: if_splits)
next
  case (AddNotification bid ev d)
  with assms add_event_notification_ids [of bid ev d s s'] show ?thesis by simp
qed

text \<open>Building a stack keeps construct ids unique: from a stack whose ids are
  distinct, any sequence of operations that does not raise ends in a stack whose ids
  are still distinct, which keeps every id it had, and whose name is unchanged.\<close>

theorem apply_ops_distinct_ids:
  "apply_ops ops s = Inr s' \<Longrightarrow> distinct (child_ids s) \<Longrightarrow>
   distinct (child_ids s') \<and> set (child_ids s) \<subseteq> set (child_ids s') \<and> stack_id s' = stack_id s"
proof (induction ops arbitrary: s)
  case Nil
  then show ?case by simp
next
  case (Cons op ops)
  from Cons.prems(1) obtain s1 where op: "apply_op op s = Inr s1" and rest: "apply_ops ops s1 = Inr s'"
    by (auto simp: ebind_eq_Inr)
  from apply_op_ids [OF op Cons.prems(2)] Cons.IH [OF rest] show ?case by auto
qed

text \<open>C15: The constructor of FirstcdkStack never raises, whatever the stack's id: it
  adds the fourteen constructs in source order under distinct ids, and the raw bucket
  carries exactly one notification, object-created events to glue_queue.\<close>

theorem firstcdk_stack_builds:
  "\<exists>s. firstcdk_stack sid = Inr s \<and> stack_id s = sid \<and>
     child_ids s = [''raw_data'', ''processed_cdk_bucket'', ''deployment_scripts'', ''glue_queue'',
                    ''glue_role'', ''glue-database'', ''lakeformation_permission'', ''glue_crawler'',
                    ''glue_job'', ''glue_workflow'', ''glue_crawler_trigger'', ''glue_job_trigger'',
                    ''rule_role'', ''rule_s3_glue''] \<and>
     distinct (child_ids s) \<and>
     map_of (children s) ''raw_data'' =
       Some (Bucket (raw_bucket\<lparr>b_notifications := [(OBJECT_CREATED, SqsDestination ''glue_queue'')]\<rparr>))"
  by (simp add: firstcdk_stack_result child_ids_def)

lemma apply_ops_distinct_ids_witness:
  "apply_ops firstcdk_ops (empty_stack ''FirstcdkStack'') = Inr (projr (firstcdk_stack ''FirstcdkStack'')) \<and>
   distinct (child_ids (empty_stack ''FirstcdkStack'')) \<and>
   distinct (child_ids (projr (firstcdk_stack ''FirstcdkStack''))) \<and>
   stack_id (projr (firstcdk_stack ''FirstcdkStack'')) = ''FirstcdkStack''"
proof -
  have run: "apply_ops firstcdk_ops (empty_stack ''FirstcdkStack'') = Inr (projr (firstcdk_stack ''FirstcdkStack''))"
    by (simp add: firstcdk_stack_result flip: firstcdk_stack_def)
  have e: "distinct (child_ids (empty_stack ''FirstcdkStack''))" by (simp add: empty_stack_def child_ids_def)
  from apply_ops_distinct_ids [OF run e] run e show ?thesis by (simp add: empty_stack_def)
qed

end
