(* ===== verification/Deploy.thy ===== *)
theory Deploy
  imports Stack
begin

text \<open>
  What the stack means once CloudFormation deploys it.  A deployment environment
  fixes the account, the region and the physical names CloudFormation generates for
  resources the code does not name.  \<open>resolve\<close> computes a token's value in that
  environment (\<open>Ref\<close> of a bucket is its name, \<open>Fn::GetAtt\<close> \<open>Arn\<close> of a queue or a
  role is its ARN, \<open>Fn::Join\<close> concatenates); \<open>None\<close> is a reference CloudFormation
  would reject.  \<open>resolve_value\<close> lifts it to property values, giving JSON.  On top
  of it, checks of the wiring the stack is meant to have: every reference names a
  construct of the right kind (\<open>refs_wf\<close>), every name a trigger uses is declared
  (\<open>trigger_names_declared\<close>), every crawler in event mode is fed by a queue its bucket
  notifies (\<open>event_mode_wired\<close>), every rule targets a workflow of the stack.
\<close>

record deploy_env =
  account :: string
  region :: string
  physical :: "string \<Rightarrow> string"

fun token_refs :: "token \<Rightarrow> (string \<times> string option) list" where
  "token_refs (Ref i) = [(i, None)]"
| "token_refs (GetAtt i a) = [(i, Some a)]"
| "token_refs (Join ts) = concat (map token_refs ts)"
| "token_refs _ = []"

fun value_refs :: "cfn_value \<Rightarrow> (string \<times> string option) list" where
  "value_refs (CStr t) = token_refs t"
| "value_refs (CList vs) = concat (map value_refs vs)"
| "value_refs (CObj kvs) = concat (map (\<lambda>kv. value_refs (snd kv)) kvs)"
| "value_refs _ = []"

fun pseudo_value :: "deploy_env \<Rightarrow> token \<Rightarrow> string option" where
  "pseudo_value env (Lit x) = Some x"
| "pseudo_value env AccountId = Some (account env)"
| "pseudo_value env Region = Some (region env)"
| "pseudo_value env (Join ts) = map_option concat (those (map (pseudo_value env) ts))"
| "pseudo_value env _ = None"

definition queue_arn :: "deploy_env \<Rightarrow> string \<Rightarrow> string" where
  "queue_arn env i = ''arn:aws:sqs:'' @ region env @ '':'' @ account env @ '':'' @ physical env i"

definition role_arn :: "deploy_env \<Rightarrow> role_props \<Rightarrow> string" where
  "role_arn env r = ''arn:aws:iam::'' @ account env @ '':role/'' @ role_name r"

definition workflow_arn :: "deploy_env \<Rightarrow> string \<Rightarrow> string" where
  "workflow_arn env n = ''arn:aws:glue:'' @ region env @ '':'' @ account env @ '':workflow/'' @ n"

fun resolve :: "deploy_env \<Rightarrow> (string \<times> construct) list \<Rightarrow> token \<Rightarrow> string option" where
  "resolve env cs (Lit x) = Some x"
| "resolve env cs AccountId = Some (account env)"
| "resolve env cs Region = Some (region env)"
| "resolve env cs (Ref i) =
     (case map_of cs i of
        Some (Bucket b) \<Rightarrow>
          (case b_bucket_name b of Some t \<Rightarrow> pseudo_value env t | None \<Rightarrow> Some (physical env i))
      | Some _ \<Rightarrow> Some (physical env i)
      | None \<Rightarrow> None)"
| "resolve env cs (GetAtt i a) =
     (if a = ''Arn'' then
        (case map_of cs i of
           Some (Queue _) \<Rightarrow> Some (queue_arn env i)
         | Some (Role r) \<Rightarrow> Some (role_arn env r)
         | _ \<Rightarrow> None)
      else None)"
| "resolve env cs (Join ts) = map_option concat (those (map (resolve env cs) ts))"

fun resolve_value :: "deploy_env \<Rightarrow> (string \<times> construct) list \<Rightarrow> cfn_value \<Rightarrow> json option" where
  "resolve_value env cs (CStr t) = map_option JStr (resolve env cs t)"
| "resolve_value env cs (CInt i) = Some (JInt i)"
| "resolve_value env cs (CBool b) = Some (JBool b)"
| "resolve_value env cs (CList vs) = map_option JArr (those (map (resolve_value env cs) vs))"
| "resolve_value env cs (CObj kvs) =
     map_option (\<lambda>js. JObj (zip (map fst kvs) js)) (those (map (\<lambda>kv. resolve_value env cs (snd kv)) kvs))"

subsection \<open>References between constructs\<close>

text \<open>The references a construct makes: its tokens, the destination bucket of a
  deployment and the queue a bucket notifies (by ARN, as CloudFormation writes it).
  Names of crawlers, jobs and workflows inside triggers are plain strings, not
  references: CloudFormation does not check them.\<close>

fun notification_refs :: "s3_event_type \<times> notification_dest \<Rightarrow> (string \<times> string option) list" where
  "notification_refs (ev, SqsDestination q) = [(q, Some ''Arn'')]"

definition opt_refs :: "token option \<Rightarrow> (string \<times> string option) list" where
  "opt_refs t = (case t of Some x \<Rightarrow> token_refs x | None \<Rightarrow> [])"

fun construct_refs :: "construct \<Rightarrow> (string \<times> string option) list" where
  "construct_refs (Bucket b) =
     opt_refs (b_bucket_name b) @ concat (map notification_refs (b_notifications b))"
| "construct_refs (BucketDeployment d) = [(dep_destination_bucket d, None)]"
| "construct_refs (Queue q) = []"
| "construct_refs (Role r) = []"
| "construct_refs (CfnDatabase d) = token_refs (db_catalog_id d)"
| "construct_refs (CfnPermissions p) = token_refs (perm_principal p) @ token_refs (perm_catalog_id p)"
| "construct_refs (CfnCrawler c) =
     token_refs (cr_role c) @
     concat (map (\<lambda>t. token_refs (tgt_path t) @ opt_refs (tgt_event_queue_arn t)) (cr_s3_targets c))"
| "construct_refs (CfnJob j) = token_refs (cmd_script_location (job_cmd j)) @ token_refs (job_role j)"
| "construct_refs (CfnWorkflow w) = []"
| "construct_refs (CfnTrigger t) = []"
| "construct_refs (CfnRule r) =
     token_refs (rule_role_arn r) @
     concat (map (\<lambda>t. token_refs (rt_arn t) @ token_refs (rt_role_arn t) @ token_refs (rt_id t)) (rule_targets r)) @
     value_refs (rule_event_pattern r)"

text \<open>A \<open>Ref\<close> names a bucket (the code only takes \<open>bucket_name\<close>), an \<open>Arn\<close>
  names a queue or a role.\<close>

fun ref_ok :: "(string \<times> construct) list \<Rightarrow> string \<times> string option \<Rightarrow> bool" where
  "ref_ok cs (i, None) = (case map_of cs i of Some (Bucket _) \<Rightarrow> True | _ \<Rightarrow> False)"
| "ref_ok cs (i, Some a) =
     (a = ''Arn'' \<and> (case map_of cs i of Some (Queue _) \<Rightarrow> True | Some (Role _) \<Rightarrow> True | _ \<Rightarrow> False))"

definition refs_wf :: "stack \<Rightarrow> bool" where
  "refs_wf s = list_all (\<lambda>(k, c). list_all (ref_ok (children s)) (construct_refs c)) (children s)"

subsection \<open>The Glue resources of a stack\<close>

definition crawlers_of :: "stack \<Rightarrow> crawler_props list" where
  "crawlers_of s = concat (map (\<lambda>(k, c). case c of CfnCrawler p \<Rightarrow> [p] | _ \<Rightarrow> []) (children s))"

definition jobs_of :: "stack \<Rightarrow> job_props list" where
  "jobs_of s = concat (map (\<lambda>(k, c). case c of CfnJob p \<Rightarrow> [p] | _ \<Rightarrow> []) (children s))"

definition workflows_of :: "stack \<Rightarrow> workflow_props list" where
  "workflows_of s = concat (map (\<lambda>(k, c). case c of CfnWorkflow p \<Rightarrow> [p] | _ \<Rightarrow> []) (children s))"

definition triggers_of :: "stack \<Rightarrow> trigger_props list" where
  "triggers_of s = concat (map (\<lambda>(k, c). case c of CfnTrigger p \<Rightarrow> [p] | _ \<Rightarrow> []) (children s))"

definition rules_of :: "stack \<Rightarrow> rule_props list" where
  "rules_of s = concat (map (\<lambda>(k, c). case c of CfnRule p \<Rightarrow> [p] | _ \<Rightarrow> []) (children s))"

definition crawler_names :: "stack \<Rightarrow> string list" where
  "crawler_names s = map cr_name (crawlers_of s)"

definition job_names :: "stack \<Rightarrow> string list" where
  "job_names s = map job_name (jobs_of s)"

definition workflow_names :: "stack \<Rightarrow> string list" where
  "workflow_names s = map wf_name (workflows_of s)"

definition declared :: "string list \<Rightarrow> string option \<Rightarrow> bool" where
  "declared ns x = (case x of Some n \<Rightarrow> n \<in> set ns | None \<Rightarrow> True)"

text \<open>Every crawler, job and workflow a trigger names is one the stack declares.\<close>

definition trigger_names_declared :: "stack \<Rightarrow> trigger_props \<Rightarrow> bool" where
  "trigger_names_declared s t \<longleftrightarrow>
     list_all (\<lambda>a. declared (crawler_names s) (act_crawler_name a) \<and> declared (job_names s) (act_job_name a))
       (trg_actions t) \<and>
     list_all (\<lambda>c. declared (crawler_names s) (cond_crawler_name c) \<and> declared (job_names s) (cond_job_name c))
       (trg_conditions t) \<and>
     declared (workflow_names s) (trg_workflow_name t)"

text \<open>An S3 URL written as the f-string \<open>s3://{bucket.bucket_name}rest\<close>: the bucket
  construct and the rest of the URL.\<close>

fun s3_url_parts :: "token \<Rightarrow> (string \<times> string) option" where
  "s3_url_parts (Join [Lit p, Ref b, Lit rest]) = (if p = ''s3://'' then Some (b, rest) else None)"
| "s3_url_parts _ = None"

text \<open>A crawler target in event mode is wired when its path lies in a bucket that
  notifies object-created events to the queue the target reads.\<close>

definition target_wired :: "stack \<Rightarrow> s3_target \<Rightarrow> bool" where
  "target_wired s t =
     (case (s3_url_parts (tgt_path t), tgt_event_queue_arn t) of
        (Some (b, _), Some (GetAtt q a)) \<Rightarrow>
          a = ''Arn'' \<and>
          (case map_of (children s) b of
             Some (Bucket bp) \<Rightarrow> (OBJECT_CREATED, SqsDestination q) \<in> set (b_notifications bp)
           | _ \<Rightarrow> False) \<and>
          (case map_of (children s) q of Some (Queue _) \<Rightarrow> True | _ \<Rightarrow> False)
      | _ \<Rightarrow> False)"

definition event_mode_wired :: "stack \<Rightarrow> bool" where
  "event_mode_wired s =
     list_all (\<lambda>c. cr_recrawl_behavior c = Some ''CRAWL_EVENT_MODE'' \<longrightarrow> list_all (target_wired s) (cr_s3_targets c))
       (crawlers_of s)"

text \<open>Every target of every rule resolves to the ARN of a workflow of the stack.\<close>

definition rule_targets_workflows :: "deploy_env \<Rightarrow> stack \<Rightarrow> bool" where
  "rule_targets_workflows env s =
     list_all (\<lambda>r. list_all (\<lambda>t. case resolve env (children s) (rt_arn t) of
                                    Some a \<Rightarrow> a \<in> set (map (workflow_arn env) (workflow_names s))
                                  | None \<Rightarrow> False) (rule_targets r))
       (rules_of s)"

text \<open>Where a \<open>BucketDeployment\<close> puts a file of its source directory: under its key
  prefix.\<close>

definition dep_key :: "deployment_props \<Rightarrow> string \<Rightarrow> string" where
  "dep_key d f = (case dep_destination_key_prefix d of Some p \<Rightarrow> p @ f | None \<Rightarrow> f)"

lemmas deploy_defs [model_simps] =
  refs_wf_def crawlers_of_def jobs_of_def workflows_of_def triggers_of_def rules_of_def
  crawler_names_def job_names_def workflow_names_def declared_def opt_refs_def

subsection \<open>The deployed FirstcdkStack\<close>

lemma firstcdk_rule_routing:
  assumes "firstcdk_stack sid = Inr s"
  shows "rules_of s = [rule_s3_glue] \<and> workflow_names s = [''glue_workflow''] \<and>
         rule_targets rule_s3_glue =
           [\<lparr>rt_arn = Join [Lit ''arn:aws:glue:'', Region, Lit '':'', AccountId, Lit '':workflow/glue_workflow''],
             rt_role_arn = GetAtt ''rule_role'' ''Arn'', rt_id = AccountId\<rparr>] \<and>
         resolve env (children s) (Join [Lit ''arn:aws:glue:'', Region, Lit '':'', AccountId, Lit '':workflow/glue_workflow'']) =
           Some (workflow_arn env ''glue_workflow'')"
  using assms by (auto simp: firstcdk_stack_result deploy_defs rule_s3_glue_def glue_workflow_def workflow_arn_def)

text \<open>C16: Every reference of the built stack (Ref of a bucket name, Arn of a queue or
  a role, the deployment's destination bucket, the notified queue) names a construct of
  the stack of the right kind, so CloudFormation can resolve all of them.\<close>

theorem firstcdk_refs_wf: "\<exists>s. firstcdk_stack sid = Inr s \<and> refs_wf s"
  by (simp add: firstcdk_stack_result refs_wf_def opt_refs_def raw_bucket_def output_bucket_def
                deployment_scripts_def glue_database_def lakeformation_permission_def
                glue_crawler_def glue_job_def rule_s3_glue_def)

text \<open>C17: The crawler runs in event mode and is wired for it: its S3 target lies in the
  raw bucket, which notifies object-created events to glue_queue, and the target reads
  exactly that queue.\<close>

theorem firstcdk_event_mode_wired:
  "\<exists>s. firstcdk_stack sid = Inr s \<and> crawlers_of s = [glue_crawler] \<and>
     cr_recrawl_behavior glue_crawler = Some ''CRAWL_EVENT_MODE'' \<and> event_mode_wired s"
  by (simp add: firstcdk_stack_def firstcdk_ops_def model_simps event_mode_wired_def
                target_wired_def glue_crawler_def raw_bucket_def)

text \<open>C18: The trigger that should start the job after a successful crawl watches a
  crawler named 'glue_crawler' (the construct id), while the only crawler the stack
  declares is named 'cdk_crawler'; the crawler trigger's names are all declared.\<close>

theorem firstcdk_job_trigger_undeclared_crawler:
  "\<exists>s. firstcdk_stack sid = Inr s \<and> crawler_names s = [''cdk_crawler''] \<and>
     triggers_of s = [glue_crawler_trigger, glue_job_trigger] \<and>
     map cond_crawler_name (trg_conditions glue_job_trigger) = [Some ''glue_crawler''] \<and>
     trigger_names_declared s glue_crawler_trigger \<and> \<not> trigger_names_declared s glue_job_trigger"
  by (simp add: firstcdk_stack_result deploy_defs trigger_names_declared_def glue_crawler_def
                glue_crawler_trigger_def glue_job_trigger_def glue_job_def glue_workflow_def)

text \<open>In every account and region, the EventBridge rule's only target resolves to
  the ARN of the workflow the stack declares.\<close>

lemma firstcdk_rule_targets_workflow:
  "\<exists>s. firstcdk_stack sid = Inr s \<and> rules_of s = [rule_s3_glue] \<and>
     (\<forall>env. rule_targets_workflows env s)"
  by (simp add: firstcdk_stack_result deploy_defs rule_targets_workflows_def rule_s3_glue_def
                glue_workflow_def workflow_arn_def)

text \<open>C20: The job reads its script from the bucket the deployment writes to, but from
  the key glue_job.py, which no file of the deployed directory can have: the deployment
  puts every file under the prefix scripts/.\<close>

theorem job_script_outside_deployment:
  "s3_url_parts (cmd_script_location (job_cmd glue_job)) =
     Some (dep_destination_bucket deployment_scripts, ''/glue_job.py'') \<and>
   (\<forall>f. ''/'' @ dep_key deployment_scripts f \<noteq> ''/glue_job.py'')"
  by (simp add: glue_job_def deployment_scripts_def dep_key_def)

text \<open>In every account, the rule's event pattern resolves to the pattern for
  object-created events from the raw bucket (its name resolved), and the raw bucket
  sends its events to EventBridge.\<close>

lemma firstcdk_rule_pattern:
  "\<exists>s. firstcdk_stack sid = Inr s \<and>
     (\<forall>env. resolve_value env (children s) (rule_event_pattern rule_s3_glue) =
       Some (JObj [(''detail-type'', JArr [JStr ''Object Created'']),
                   (''detail'', JObj [(''bucket'', JObj [(''name'', JArr [JStr (''raw-cdk-bucket-'' @ account env)])])]),
                   (''source'', JArr [JStr ''aws.s3''])])) \<and>
     b_event_bridge_enabled raw_bucket"
  by (simp add: firstcdk_stack_result rule_s3_glue_def raw_bucket_def)

end
