(* ===== verification/Workflow.thy ===== *)
theory Workflow
  imports Deploy
begin

text \<open>
  What the Glue workflow of the stack does when it runs.  The stack only declares the
  workflow (\<open>glue_workflow\<close>) and its triggers (\<open>glue_crawler_trigger\<close>,
  \<open>glue_job_trigger\<close>); their meaning is Glue's documented semantics, modelled here:
  a run starts when the workflow's EVENT trigger receives an event; a trigger that
  fires starts the crawlers and jobs of its actions within the run; a CONDITIONAL
  trigger fires once, when all its conditions hold in the run (\<open>EQUALS\<close> on the state
  of a crawl or job run of the named crawler or job); crawls and job runs end as
  SUCCEEDED or FAILED.  Only names the stack declares can be started.
  \<open>wf_step\<close> is executable (\<open>None\<close> where an event is not enabled) and
  \<open>wf_reach\<close> collects the runs reachable from the start of a run.
\<close>

datatype run_state = RUNNING_R | SUCCEEDED_R | FAILED_R

definition run_state_name :: "run_state \<Rightarrow> string" where
  "run_state_name st = (case st of RUNNING_R \<Rightarrow> ''RUNNING'' | SUCCEEDED_R \<Rightarrow> ''SUCCEEDED''
                                   | FAILED_R \<Rightarrow> ''FAILED'')"

record wf_run =
  crawls :: "(string \<times> run_state) list"
  job_runs :: "(string \<times> run_state) list"
  fired :: "string list"

datatype wf_event = Fire string | CrawlEnds string run_state | JobEnds string run_state

text \<open>The triggers of a workflow, as the stack declares them.\<close>

definition wf_triggers :: "stack \<Rightarrow> string \<Rightarrow> trigger_props list" where
  "wf_triggers s w = filter (\<lambda>t. trg_workflow_name t = Some w) (triggers_of s)"

text \<open>Starting the actions of a trigger: a crawl or a job run for every declared
  name it names.\<close>

definition start_actions :: "stack \<Rightarrow> trigger_action list \<Rightarrow> wf_run \<Rightarrow> wf_run" where
  "start_actions s acts r =
     r\<lparr>crawls := crawls r @
         concat (map (\<lambda>a. case act_crawler_name a of
                            Some n \<Rightarrow> if n \<in> set (crawler_names s) then [(n, RUNNING_R)] else []
                          | None \<Rightarrow> []) acts),
       job_runs := job_runs r @
         concat (map (\<lambda>a. case act_job_name a of
                            Some n \<Rightarrow> if n \<in> set (job_names s) then [(n, RUNNING_R)] else []
                          | None \<Rightarrow> []) acts)\<rparr>"

definition cond_holds :: "wf_run \<Rightarrow> trigger_condition \<Rightarrow> bool" where
  "cond_holds r c =
     (cond_logical_operator c = ''EQUALS'' \<and>
      (case (cond_crawler_name c, cond_crawl_state c) of
         (Some n, Some st) \<Rightarrow> (\<exists>x\<in>set (crawls r). fst x = n \<and> run_state_name (snd x) = st)
       | _ \<Rightarrow> True) \<and>
      (case (cond_job_name c, cond_state c) of
         (Some n, Some st) \<Rightarrow> (\<exists>x\<in>set (job_runs r). fst x = n \<and> run_state_name (snd x) = st)
       | _ \<Rightarrow> True) \<and>
      (cond_crawler_name c \<noteq> None \<or> cond_job_name c \<noteq> None))"

text \<open>The start of a run: every EVENT trigger of the workflow fires.\<close>

definition wf_start :: "stack \<Rightarrow> string \<Rightarrow> wf_run" where
  "wf_start s w =
     foldl (\<lambda>r t. (start_actions s (trg_actions t) r)\<lparr>fired := fired r @ [trg_name t]\<rparr>)
       \<lparr>crawls = [], job_runs = [], fired = []\<rparr>
       (filter (\<lambda>t. trg_type t = ''EVENT'') (wf_triggers s w))"

text \<open>A crawl or job run of a name ends: the first one still running takes its final
  state.\<close>

fun end_first :: "string \<Rightarrow> run_state \<Rightarrow> (string \<times> run_state) list \<Rightarrow> (string \<times> run_state) list option" where
  "end_first n st [] = None"
| "end_first n st (x # xs) =
     (if x = (n, RUNNING_R) then (if st \<noteq> RUNNING_R then Some ((n, st) # xs) else None)
      else map_option (Cons x) (end_first n st xs))"

fun wf_step :: "stack \<Rightarrow> string \<Rightarrow> wf_run \<Rightarrow> wf_event \<Rightarrow> wf_run option" where
  "wf_step s w r (Fire tn) =
     (case find (\<lambda>t. trg_name t = tn \<and> trg_type t = ''CONDITIONAL'') (wf_triggers s w) of
        Some t \<Rightarrow>
          (if tn \<notin> set (fired r) \<and> list_all (cond_holds r) (trg_conditions t)
           then Some ((start_actions s (trg_actions t) r)\<lparr>fired := fired r @ [tn]\<rparr>)
           else None)
      | None \<Rightarrow> None)"
| "wf_step s w r (CrawlEnds n st) = map_option (\<lambda>cs. r\<lparr>crawls := cs\<rparr>) (end_first n st (crawls r))"
| "wf_step s w r (JobEnds n st) = map_option (\<lambda>js. r\<lparr>job_runs := js\<rparr>) (end_first n st (job_runs r))"

inductive wf_reach :: "stack \<Rightarrow> string \<Rightarrow> wf_run \<Rightarrow> bool" for s w where
  start: "wf_reach s w (wf_start s w)"
| step: "wf_reach s w r \<Longrightarrow> wf_step s w r e = Some r' \<Longrightarrow> wf_reach s w r'"

text \<open>For comparison only (not code of the repository): the job trigger with its
  condition naming the crawler the stack declares, and the stack built with it.\<close>

definition intended_job_trigger :: trigger_props where
  "intended_job_trigger =
     glue_job_trigger\<lparr>trg_conditions :=
       [\<lparr>cond_crawler_name = Some ''cdk_crawler'', cond_job_name = None,
         cond_logical_operator = ''EQUALS'', cond_crawl_state = Some ''SUCCEEDED'',
         cond_state = None\<rparr>]\<rparr>"

definition intended_stack :: "string \<Rightarrow> cdk_error + stack" where
  "intended_stack sid =
     apply_ops (map (\<lambda>op. if op = AddChild ''glue_job_trigger'' (CfnTrigger glue_job_trigger)
                          then AddChild ''glue_job_trigger'' (CfnTrigger intended_job_trigger) else op)
                 firstcdk_ops) (empty_stack sid)"

definition no_job_inv :: "wf_run \<Rightarrow> bool" where
  "no_job_inv r \<longleftrightarrow> job_runs r = [] \<and> set (map fst (crawls r)) \<subseteq> {''cdk_crawler''} \<and>
                   ''glue_job_trigger'' \<notin> set (fired r)"

lemma end_first_names: "end_first n st xs = Some ys \<Longrightarrow> map fst ys = map fst xs"
  by (induction xs arbitrary: ys) (auto split: if_splits)

lemma firstcdk_wf_triggers:
  "firstcdk_stack sid = Inr s \<Longrightarrow>
   wf_triggers s ''glue_workflow'' = [glue_crawler_trigger, glue_job_trigger]"
  by (auto simp: firstcdk_stack_result wf_triggers_def triggers_of_def glue_crawler_trigger_def
                glue_job_trigger_def glue_workflow_def)

lemma firstcdk_crawler_names:
  "firstcdk_stack sid = Inr s \<Longrightarrow> crawler_names s = [''cdk_crawler''] \<and> job_names s = [''glue_job'']"
  by (auto simp: firstcdk_stack_result deploy_defs glue_crawler_def glue_job_def)

lemma firstcdk_wf_start_run:
  "firstcdk_stack sid = Inr s \<Longrightarrow>
     wf_start s ''glue_workflow'' =
       \<lparr>crawls = [(''cdk_crawler'', RUNNING_R)], job_runs = [], fired = [''glue_crawler_trigger'']\<rparr>"
  by (auto simp: firstcdk_stack_result wf_start_def wf_triggers_def deploy_defs start_actions_def
                 glue_crawler_trigger_def glue_job_trigger_def glue_workflow_def glue_crawler_def glue_job_def)

lemma no_job_inv_step:
  assumes s: "firstcdk_stack sid = Inr s" and inv: "no_job_inv r"
    and st: "wf_step s ''glue_workflow'' r e = Some r'"
  shows "no_job_inv r'"
proof (cases e)
  case (Fire tn)
  have "\<not> list_all (cond_holds r) (trg_conditions glue_job_trigger)"
    using inv by (auto simp: no_job_inv_def glue_job_trigger_def cond_holds_def)
  with st Fire firstcdk_wf_triggers [OF s] show ?thesis
    by (simp add: glue_crawler_trigger_def split: if_splits)
next
  case (CrawlEnds n x)
  with st obtain cs where "end_first n x (crawls r) = Some cs" "r' = r\<lparr>crawls := cs\<rparr>" by auto
  with inv end_first_names show ?thesis by (simp add: no_job_inv_def)
next
  case (JobEnds n x)
  with st inv show ?thesis by (simp add: no_job_inv_def)
qed

lemma firstcdk_reach_no_job:
  assumes "firstcdk_stack sid = Inr s" and "wf_reach s ''glue_workflow'' r"
  shows "no_job_inv r"
  using assms(2)
proof (induction rule: wf_reach.induct)
  case start
  from firstcdk_wf_triggers [OF assms(1)] firstcdk_crawler_names [OF assms(1)] show ?case
    by (simp add: wf_start_def no_job_inv_def start_actions_def glue_crawler_trigger_def
                  glue_job_trigger_def)
next
  case (step r e r')
  then show ?case using no_job_inv_step [OF assms(1)] by blast
qed

text \<open>Every run of the deployed workflow starts with the EVENT trigger firing and
  exactly one crawl, of cdk_crawler.\<close>

lemma firstcdk_wf_start:
  "\<exists>s. firstcdk_stack sid = Inr s \<and>
     wf_start s ''glue_workflow'' =
       \<lparr>crawls = [(''cdk_crawler'', RUNNING_R)], job_runs = [], fired = [''glue_crawler_trigger'']\<rparr>"
  using firstcdk_wf_start_run [of sid] by (simp add: firstcdk_stack_result)

text \<open>C24: No run of the deployed workflow ever starts the job: the job trigger never
  fires, because its condition waits for a crawl of 'glue_crawler' and the only crawler
  any run starts is cdk_crawler.\<close>

theorem firstcdk_workflow_never_runs_job:
  assumes "firstcdk_stack sid = Inr s" and "wf_reach s ''glue_workflow'' r"
  shows "job_runs r = [] \<and> ''glue_job_trigger'' \<notin> set (fired r)"
  using firstcdk_reach_no_job [OF assms] by (simp add: no_job_inv_def)

lemma firstcdk_workflow_never_runs_job_witness:
  "wf_reach (projr (firstcdk_stack ''FirstcdkStack'')) ''glue_workflow''
     \<lparr>crawls = [(''cdk_crawler'', SUCCEEDED_R)], job_runs = [], fired = [''glue_crawler_trigger'']\<rparr> \<and>
   job_runs \<lparr>crawls = [(''cdk_crawler'', SUCCEEDED_R)], job_runs = [], fired = [''glue_crawler_trigger'']\<rparr> = [] \<and>
   ''glue_job_trigger'' \<notin> set (fired \<lparr>crawls = [(''cdk_crawler'', SUCCEEDED_R)], job_runs = [],
                                        fired = [''glue_crawler_trigger'']\<rparr>)"
proof -
  let ?s = "projr (firstcdk_stack ''FirstcdkStack'')"
  let ?r = "\<lparr>crawls = [(''cdk_crawler'', SUCCEEDED_R)], job_runs = [], fired = [''glue_crawler_trigger'']\<rparr>"
  have s: "firstcdk_stack ''FirstcdkStack'' = Inr ?s" by (simp add: firstcdk_stack_result)
  have "wf_step ?s ''glue_workflow'' (wf_start ?s ''glue_workflow'') (CrawlEnds ''cdk_crawler'' SUCCEEDED_R) = Some ?r"
    by (simp add: firstcdk_wf_start_run [OF s])
  with wf_reach.start have reach: "wf_reach ?s ''glue_workflow'' ?r" by (rule wf_reach.step)
  from firstcdk_workflow_never_runs_job [OF s reach] reach show ?thesis by simp
qed

text \<open>The same semantics does run the job once the condition names the declared
  crawler: the defect of C24 lies in the trigger, not in the model.\<close>

lemma intended_workflow_runs_job:
  "\<exists>s. intended_stack sid = Inr s \<and>
     wf_reach s ''glue_workflow''
       \<lparr>crawls = [(''cdk_crawler'', SUCCEEDED_R)], job_runs = [(''glue_job'', RUNNING_R)],
        fired = [''glue_crawler_trigger'', ''glue_job_trigger'']\<rparr>"
proof -
  let ?s = "projr (intended_stack sid)"
  have s: "intended_stack sid = Inr ?s"
    by (simp add: intended_stack_def firstcdk_ops_def model_simps)
  let ?r0 = "\<lparr>crawls = [(''cdk_crawler'', RUNNING_R)], job_runs = [], fired = [''glue_crawler_trigger'']\<rparr>"
  let ?r1 = "\<lparr>crawls = [(''cdk_crawler'', SUCCEEDED_R)], job_runs = [], fired = [''glue_crawler_trigger'']\<rparr>"
  have trg: "wf_triggers ?s ''glue_workflow'' = [glue_crawler_trigger, intended_job_trigger]"
    by (simp add: intended_stack_def firstcdk_ops_def model_simps wf_triggers_def deploy_defs
                  glue_crawler_trigger_def intended_job_trigger_def glue_job_trigger_def glue_workflow_def)
  have names: "crawler_names ?s = [''cdk_crawler'']" "job_names ?s = [''glue_job'']"
    by (simp_all add: intended_stack_def firstcdk_ops_def model_simps deploy_defs glue_crawler_def glue_job_def)
  have "wf_start ?s ''glue_workflow'' = ?r0"
    using trg names by (simp add: wf_start_def start_actions_def glue_crawler_trigger_def intended_job_trigger_def
                                  glue_job_trigger_def)
  then have "wf_reach ?s ''glue_workflow'' ?r0" using wf_reach.start [of ?s "''glue_workflow''"] by simp
  moreover have "wf_step ?s ''glue_workflow'' ?r0 (CrawlEnds ''cdk_crawler'' SUCCEEDED_R) = Some ?r1" by simp
  ultimately have r1: "wf_reach ?s ''glue_workflow'' ?r1" by (rule wf_reach.step)
  have "wf_step ?s ''glue_workflow'' ?r1 (Fire ''glue_job_trigger'') =
     Some \<lparr>crawls = [(''cdk_crawler'', SUCCEEDED_R)], job_runs = [(''glue_job'', RUNNING_R)],
           fired = [''glue_crawler_trigger'', ''glue_job_trigger'']\<rparr>"
    using trg names by (simp add: start_actions_def cond_holds_def run_state_name_def intended_job_trigger_def
                                  glue_job_trigger_def glue_crawler_trigger_def glue_job_def)
  with r1 s show ?thesis by (blast intro: wf_reach.step)
qed

end
