(* ===== verification/Events.thy ===== *)
theory Events
  imports Deploy
begin

text \<open>
  EventBridge, the service that routes the raw bucket's events to the workflow through
  the rule \<open>rule_s3_glue\<close>.  Event patterns are matched as EventBridge documents it
  for the exact-value patterns the stack uses: every field of the pattern must be
  present in the event; a field whose pattern is an object matches an object
  recursively; a field whose pattern is an array matches when the event's value, or
  one element of it when it is an array, is one of the array's values; fields of the
  event the pattern does not name are ignored.  \<open>s3_object_event\<close> is the event S3
  sends to EventBridge for a bucket with EventBridge notifications enabled, with the
  fields the documentation lists that matter here.
\<close>

fun ev_match :: "json \<Rightarrow> json \<Rightarrow> bool" where
  "ev_match (JObj ps) (JObj es) =
     list_all (\<lambda>kp. case map_of es (fst kp) of
                      None \<Rightarrow> False
                    | Some v \<Rightarrow>
                        (case snd kp of
                           JArr alts \<Rightarrow> (case v of JArr vs \<Rightarrow> list_ex (\<lambda>x. x \<in> set alts) vs
                                                | _ \<Rightarrow> v \<in> set alts)
                         | JObj _ \<Rightarrow> ev_match (snd kp) v
                         | _ \<Rightarrow> False)) ps"
| "ev_match _ _ = False"

definition s3_object_event :: "string \<Rightarrow> string \<Rightarrow> string \<Rightarrow> string \<Rightarrow> string \<Rightarrow> json" where
  "s3_object_event acct reg detail_type bucket key =
     JObj [(''version'', JStr ''0''),
           (''detail-type'', JStr detail_type),
           (''source'', JStr ''aws.s3''),
           (''account'', JStr acct),
           (''region'', JStr reg),
           (''resources'', JArr [JStr (''arn:aws:s3:::'' @ bucket)]),
           (''detail'', JObj [(''version'', JStr ''0''),
                             (''bucket'', JObj [(''name'', JStr bucket)]),
                             (''object'', JObj [(''key'', JStr key)])])]"

text \<open>A rule forwards an event when its resolved pattern matches it.\<close>

definition rule_forwards :: "deploy_env \<Rightarrow> stack \<Rightarrow> rule_props \<Rightarrow> json \<Rightarrow> bool" where
  "rule_forwards env s r ev =
     (case resolve_value env (children s) (rule_event_pattern r) of
        Some pat \<Rightarrow> ev_match pat ev
      | None \<Rightarrow> False)"

lemma firstcdk_rule_forwards_iff:
  assumes "firstcdk_stack sid = Inr s"
  shows "rule_forwards env s rule_s3_glue (s3_object_event (account env) (region env) dt b k) \<longleftrightarrow>
         dt = ''Object Created'' \<and> b = ''raw-cdk-bucket-'' @ account env"
  using assms by (auto simp: rule_forwards_def firstcdk_stack_result rule_s3_glue_def raw_bucket_def
                             s3_object_event_def)

text \<open>C25: In every account and region, the rule forwards an S3 event to the workflow
  exactly when it is an Object Created event of the raw bucket, whatever the object's
  key: deletions and events of every other bucket are filtered out.\<close>

theorem firstcdk_rule_forwards_exactly:
  "\<exists>s. firstcdk_stack sid = Inr s \<and> rules_of s = [rule_s3_glue] \<and>
     (\<forall>env dt b k. rule_forwards env s rule_s3_glue (s3_object_event (account env) (region env) dt b k) \<longleftrightarrow>
        dt = ''Object Created'' \<and> b = ''raw-cdk-bucket-'' @ account env)"
proof -
  obtain s where s: "firstcdk_stack sid = Inr s" using firstcdk_stack_result by blast
  moreover have "rules_of s = [rule_s3_glue]"
    using s by (auto simp: firstcdk_stack_result rules_of_def)
  ultimately show ?thesis using firstcdk_rule_forwards_iff by blast
qed

end
