(* ===== verification/Iam.thy ===== *)
theory Iam
  imports Deploy
begin

text \<open>
  IAM policy evaluation for the two roles the stack declares (\<open>glue_role\<close>,
  \<open>rule_role\<close>).  The evaluation is IAM's documented logic for identity policies: a
  request is allowed when some ALLOW statement matches its action and resource and no
  DENY statement matches; otherwise it is implicitly denied.  Action and resource
  patterns are globs where \<open>*\<close> matches any sequence of characters and \<open>?\<close> any one;
  action names compare case-insensitively.  The executable matcher \<open>glob\<close> is proved
  equal to the inductive reference definition \<open>glob_spec\<close>.
\<close>

fun glob :: "string \<Rightarrow> string \<Rightarrow> bool" where
  "glob [] t = (t = [])"
| "glob (p # ps) t =
     (if p = CHR ''*'' then glob ps t \<or> (case t of [] \<Rightarrow> False | c # cs \<Rightarrow> glob (p # ps) cs)
      else (case t of [] \<Rightarrow> False | c # cs \<Rightarrow> (p = CHR ''?'' \<or> p = c) \<and> glob ps cs))"

inductive glob_spec :: "string \<Rightarrow> string \<Rightarrow> bool" where
  nil: "glob_spec [] []"
| star_empty: "glob_spec ps t \<Longrightarrow> glob_spec (CHR ''*'' # ps) t"
| star_more: "glob_spec (CHR ''*'' # ps) t \<Longrightarrow> glob_spec (CHR ''*'' # ps) (c # t)"
| any: "p = CHR ''?'' \<Longrightarrow> glob_spec ps t \<Longrightarrow> glob_spec (p # ps) (c # t)"
| lit: "p \<noteq> CHR ''*'' \<Longrightarrow> glob_spec ps t \<Longrightarrow> glob_spec (p # ps) (p # t)"

definition lower_char :: "char \<Rightarrow> char" where
  "lower_char c = (let n = (of_char c :: nat) in if 65 \<le> n \<and> n \<le> 90 then char_of (n + 32) else c)"

definition action_matches :: "string \<Rightarrow> string \<Rightarrow> bool" where
  "action_matches pat a = glob (map lower_char pat) (map lower_char a)"

definition statement_matches :: "policy_statement \<Rightarrow> string \<Rightarrow> string \<Rightarrow> bool" where
  "statement_matches st a res \<longleftrightarrow>
     list_ex (\<lambda>p. action_matches p a) (st_actions st) \<and> list_ex (\<lambda>p. glob p res) (st_resources st)"

definition role_statements :: "role_props \<Rightarrow> policy_statement list" where
  "role_statements r = concat (map snd (role_inline_policies r))"

definition role_allows :: "role_props \<Rightarrow> string \<Rightarrow> string \<Rightarrow> bool" where
  "role_allows r a res \<longleftrightarrow>
     list_ex (\<lambda>st. st_effect st = ALLOW \<and> statement_matches st a res) (role_statements r) \<and>
     \<not> list_ex (\<lambda>st. st_effect st = DENY \<and> statement_matches st a res) (role_statements r)"

text \<open>The role a resource runs under, given as the token \<open>role.role_arn\<close>
  (\<open>Fn::GetAtt [id, Arn]\<close>), and whether the service principal may assume it and
  is then allowed the request.\<close>

definition role_of :: "(string \<times> construct) list \<Rightarrow> token \<Rightarrow> role_props option" where
  "role_of cs tok =
     (case tok of
        GetAtt k a \<Rightarrow> (if a = ''Arn'' then (case map_of cs k of Some (Role r) \<Rightarrow> Some r | _ \<Rightarrow> None) else None)
      | _ \<Rightarrow> None)"

definition principal_allows ::
  "(string \<times> construct) list \<Rightarrow> string \<Rightarrow> token \<Rightarrow> string \<Rightarrow> string \<Rightarrow> bool" where
  "principal_allows cs prin tok a res \<longleftrightarrow>
     (case role_of cs tok of
        Some r \<Rightarrow> role_assumed_by r = prin \<and> role_allows r a res
      | None \<Rightarrow> False)"

subsection \<open>The matcher\<close>

lemma glob_Cons_Nil [simp]: "glob (p # ps) [] \<longleftrightarrow> p = CHR ''*'' \<and> glob ps []"
  by simp

lemma glob_Cons_Cons [simp]:
  "glob (p # ps) (c # cs) \<longleftrightarrow>
     (if p = CHR ''*'' then glob ps (c # cs) \<or> glob (p # ps) cs else (p = CHR ''?'' \<or> p = c) \<and> glob ps cs)"
  by simp

declare glob.simps(2) [simp del]

lemma glob_imp_spec: "glob p t \<Longrightarrow> glob_spec p t"
proof (induction p t rule: glob.induct)
  case (1 t)
  then show ?case by (simp add: glob_spec.nil)
next
  case (2 p ps t)
  then show ?case
    by (cases t) (auto split: if_splits intro: glob_spec.intros)
qed

lemma glob_star_skip: "glob ps t \<Longrightarrow> glob (CHR ''*'' # ps) t"
  by (cases t) simp_all

lemma spec_imp_glob: "glob_spec p t \<Longrightarrow> glob p t"
  by (induction rule: glob_spec.induct) (auto simp: glob_star_skip)

lemma glob_star_any: "glob [CHR ''*''] t"
  by (induction t) auto

lemma glob_lit_star:
  "list_all (\<lambda>c. c \<noteq> CHR ''*'' \<and> c \<noteq> CHR ''?'') l \<Longrightarrow>
     glob (l @ [CHR ''*'']) t \<longleftrightarrow> (\<exists>r. t = l @ r)"
proof (induction l arbitrary: t)
  case Nil
  then show ?case by (simp add: glob_star_any)
next
  case (Cons a l)
  then show ?case by (cases t) auto
qed

text \<open>A role whose only statement allows \<open>svc:*\<close> for the listed services on every
  resource allows exactly the actions of those services, in any letter case.\<close>

lemma service_wildcard:
  assumes "list_all (\<lambda>c. c \<noteq> CHR ''*'' \<and> c \<noteq> CHR ''?'' \<and> lower_char c = c) sv"
  shows "action_matches (sv @ '':*'') a \<longleftrightarrow> (\<exists>r. map lower_char a = sv @ '':'' @ r)"
proof -
  from assms have "map lower_char sv = sv" and "list_all (\<lambda>c. c \<noteq> CHR ''*'' \<and> c \<noteq> CHR ''?'') sv"
    by (induction sv) auto
  then show ?thesis
    using glob_lit_star [of "sv @ '':''" "map lower_char a"]
    by (simp add: action_matches_def lower_char_def)
qed

lemma allows_service_wildcards:
  assumes "role_statements r = [\<lparr>st_effect = ALLOW, st_actions = map (\<lambda>sv. sv @ '':*'') svs, st_resources = [''*'']\<rparr>]"
    and "list_all (list_all (\<lambda>c. c \<noteq> CHR ''*'' \<and> c \<noteq> CHR ''?'' \<and> lower_char c = c)) svs"
  shows "role_allows r a res \<longleftrightarrow> (\<exists>sv\<in>set svs. \<exists>rest. map lower_char a = sv @ '':'' @ rest)"
proof -
  have "action_matches (sv @ '':*'') a \<longleftrightarrow> (\<exists>rest. map lower_char a = sv @ '':'' @ rest)"
    if "sv \<in> set svs" for sv
    using assms(2) that service_wildcard by (simp add: list_all_iff)
  then show ?thesis
    using assms(1) by (auto simp: role_allows_def statement_matches_def glob_star_any list_ex_iff)
qed

lemma glue_role_wildcards:
  "role_statements glue_role = [\<lparr>st_effect = ALLOW,
      st_actions = map (\<lambda>sv. sv @ '':*'') [''s3'', ''glue'', ''iam'', ''logs'', ''cloudwatch'', ''sqs'', ''cloudtrail''],
      st_resources = [''*'']\<rparr>]"
  by (simp add: role_statements_def glue_role_def)

lemma lower_service_names:
  "list_all (list_all (\<lambda>c. c \<noteq> CHR ''*'' \<and> c \<noteq> CHR ''?'' \<and> lower_char c = c))
     [''s3'', ''glue'', ''iam'', ''logs'', ''cloudwatch'', ''sqs'', ''cloudtrail'']"
  by (simp add: lower_char_def)

lemma glue_role_allows:
  "role_allows glue_role a res \<longleftrightarrow>
     (\<exists>sv\<in>set [''s3'', ''glue'', ''iam'', ''logs'', ''cloudwatch'', ''sqs'', ''cloudtrail''].
        \<exists>rest. map lower_char a = sv @ '':'' @ rest)"
  by (rule allows_service_wildcards) (use glue_role_wildcards lower_service_names in simp_all)

text \<open>The executable glob matcher used for action and resource patterns decides
  exactly the reference glob semantics (\<open>*\<close> any sequence, \<open>?\<close> any one character).\<close>

lemma glob_matches_spec: "glob p t \<longleftrightarrow> glob_spec p t"
  using glob_imp_spec spec_imp_glob by blast

subsection \<open>The roles of FirstcdkStack\<close>

lemma firstcdk_rule_role_notify:
  "firstcdk_stack sid = Inr s \<Longrightarrow>
     principal_allows (children s) ''events.amazonaws.com'' (GetAtt ''rule_role'' ''Arn'') ''glue:notifyEvent'' res"
  by (auto simp: firstcdk_stack_result principal_allows_def role_of_def role_allows_def statement_matches_def
                 action_matches_def role_statements_def glob_star_any lower_char_def rule_role_def)

text \<open>C26: The Glue role allows exactly the actions of the services s3, glue, iam, logs,
  cloudwatch, sqs and cloudtrail, on every resource, whatever the letter case of the
  action: more than its description "Role for Glue services to access S3" says, among
  them every IAM and CloudTrail action.\<close>

theorem glue_role_allows_exactly:
  "role_allows glue_role a res \<longleftrightarrow>
     (\<exists>sv\<in>{''s3'', ''glue'', ''iam'', ''logs'', ''cloudwatch'', ''sqs'', ''cloudtrail''}.
        \<exists>rest. map lower_char a = sv @ '':'' @ rest)"
  using glue_role_allows by simp

text \<open>C27: Every Glue resource of the stack runs under a role its service may assume
  and that allows what it does: the crawler reads the SQS queue and the S3 objects and
  writes the catalog and its logs, the job reads and writes S3 objects, and the rule's
  target may notify the workflow (glue:notifyEvent), on any resource.\<close>

theorem firstcdk_principals_authorised:
  "\<exists>s. firstcdk_stack sid = Inr s \<and>
     list_all (\<lambda>c. list_all (\<lambda>a. principal_allows (children s) ''glue.amazonaws.com'' (cr_role c) a res)
        [''sqs:ReceiveMessage'', ''sqs:DeleteMessage'', ''sqs:GetQueueAttributes'', ''s3:GetObject'',
         ''s3:ListBucket'', ''glue:CreateTable'', ''glue:UpdateTable'', ''logs:PutLogEvents''])
       (crawlers_of s) \<and>
     list_all (\<lambda>j. list_all (\<lambda>a. principal_allows (children s) ''glue.amazonaws.com'' (job_role j) a res)
        [''s3:GetObject'', ''s3:PutObject'', ''glue:GetTable'', ''logs:PutLogEvents''])
       (jobs_of s) \<and>
     list_all (\<lambda>r. list_all (\<lambda>t. principal_allows (children s) ''events.amazonaws.com'' (rt_role_arn t)
        ''glue:notifyEvent'' res) (rule_targets r))
       (rules_of s)"
  by (simp add: firstcdk_stack_result deploy_defs principal_allows_def role_of_def role_allows_def
                statement_matches_def action_matches_def role_statements_def glob_star_any lower_char_def
                glue_role_def rule_role_def glue_crawler_def glue_job_def rule_s3_glue_def)

end
