(* ===== verification/Template.thy ===== *)
theory Template
  imports Deploy
begin

text \<open>
  The CloudFormation template CDK synthesises from the stack, and what CloudFormation
  makes of its intrinsic functions.  Every construct becomes one resource, under the
  logical id CDK allocates for it (\<open>lid\<close>: CDK derives it from the construct path
  and a hash; the model takes any injective allocation), with its CloudFormation type,
  its properties in CloudFormation's names, and its deletion policy.  Tokens become
  intrinsic functions: \<open>{"Ref": ...}\<close> for a bucket name and the pseudo parameters,
  \<open>{"Fn::GetAtt": [id, "Arn"]}\<close> for an ARN, \<open>{"Fn::Join": ["", parts]}\<close> for an
  f-string.  \<open>cfn_str\<close> evaluates such a value as CloudFormation does at deployment.
\<close>

record cfn_resource =
  res_type :: string
  res_props :: json
  res_deletion_policy :: "string option"

type_synonym template = "(string \<times> cfn_resource) list"

fun token_json :: "(string \<Rightarrow> string) \<Rightarrow> token \<Rightarrow> json" where
  "token_json lid (Lit x) = JStr x"
| "token_json lid AccountId = JObj [(''Ref'', JStr ''AWS::AccountId'')]"
| "token_json lid Region = JObj [(''Ref'', JStr ''AWS::Region'')]"
| "token_json lid (Ref i) = JObj [(''Ref'', JStr (lid i))]"
| "token_json lid (GetAtt i a) = JObj [(''Fn::GetAtt'', JArr [JStr (lid i), JStr a])]"
| "token_json lid (Join ts) = JObj [(''Fn::Join'', JArr [JStr [], JArr (map (token_json lid) ts)])]"

fun value_json :: "(string \<Rightarrow> string) \<Rightarrow> cfn_value \<Rightarrow> json" where
  "value_json lid (CStr t) = token_json lid t"
| "value_json lid (CInt i) = JInt i"
| "value_json lid (CBool b) = JBool b"
| "value_json lid (CList vs) = JArr (map (value_json lid) vs)"
| "value_json lid (CObj kvs) = JObj (map (\<lambda>kv. (fst kv, value_json lid (snd kv))) kvs)"

text \<open>CDK writes a one-element list of actions or resources as the element alone.\<close>

definition str_list_json :: "string list \<Rightarrow> json" where
  "str_list_json xs = (case xs of [x] \<Rightarrow> JStr x | _ \<Rightarrow> JArr (map JStr xs))"

definition opt_prop :: "string \<Rightarrow> json option \<Rightarrow> (string \<times> json) list" where
  "opt_prop k v = (case v of Some j \<Rightarrow> [(k, j)] | None \<Rightarrow> [])"

fun storage_class_name :: "storage_class \<Rightarrow> string" where
  "storage_class_name GLACIER = ''GLACIER''"
| "storage_class_name DEEP_ARCHIVE = ''DEEP_ARCHIVE''"
| "storage_class_name INFREQUENT_ACCESS = ''STANDARD_IA''"
| "storage_class_name ONE_ZONE_INFREQUENT_ACCESS = ''ONEZONE_IA''"
| "storage_class_name INTELLIGENT_TIERING = ''INTELLIGENT_TIERING''"
| "storage_class_name GLACIER_INSTANT_RETRIEVAL = ''GLACIER_IR''"

definition lifecycle_json :: "lifecycle_rule list \<Rightarrow> json option" where
  "lifecycle_json rs =
     (if rs = [] then None
      else Some (JObj [(''Rules'', JArr (map (\<lambda>r. JObj
         [(''Status'', JStr ''Enabled''),
          (''Transitions'', JArr (map (\<lambda>t. JObj
             [(''StorageClass'', JStr (storage_class_name (tr_storage_class t))),
              (''TransitionInDays'', JInt (int (tr_after_days t)))]) (lc_transitions r)))]) rs))]))"

definition policy_doc_json :: "policy_statement list \<Rightarrow> json" where
  "policy_doc_json sts =
     JObj [(''Statement'', JArr (map (\<lambda>st. JObj
        [(''Action'', str_list_json (st_actions st)),
         (''Effect'', JStr (if st_effect st = ALLOW then ''Allow'' else ''Deny'')),
         (''Resource'', str_list_json (st_resources st))]) sts)),
       (''Version'', JStr ''2012-10-17'')]"

definition removal_policy_name :: "removal_policy option \<Rightarrow> string \<Rightarrow> string" where
  "removal_policy_name p dflt =
     (case p of Some DESTROY \<Rightarrow> ''Delete'' | Some RETAIN \<Rightarrow> ''Retain'' | Some SNAPSHOT \<Rightarrow> ''Snapshot''
              | None \<Rightarrow> dflt)"

fun resource_of :: "(string \<Rightarrow> string) \<Rightarrow> construct \<Rightarrow> cfn_resource" where
  "resource_of lid (Bucket b) =
     \<lparr>res_type = ''AWS::S3::Bucket'',
      res_props = JObj (opt_prop ''BucketName'' (map_option (token_json lid) (b_bucket_name b)) @
                        opt_prop ''LifecycleConfiguration'' (lifecycle_json (b_lifecycle_rules b))),
      res_deletion_policy = Some (removal_policy_name (b_removal_policy b) ''Retain'')\<rparr>"
| "resource_of lid (BucketDeployment d) =
     \<lparr>res_type = ''Custom::CDKBucketDeployment'',
      res_props = JObj ((''DestinationBucketName'', JObj [(''Ref'', JStr (lid (dep_destination_bucket d)))]) #
                        opt_prop ''DestinationBucketKeyPrefix'' (map_option JStr (dep_destination_key_prefix d))),
      res_deletion_policy = Some ''Delete''\<rparr>"
| "resource_of lid (Queue q) =
     \<lparr>res_type = ''AWS::SQS::Queue'',
      res_props = JObj (opt_prop ''VisibilityTimeout'' (map_option (JInt \<circ> int) (q_visibility_timeout q))),
      res_deletion_policy = Some ''Delete''\<rparr>"
| "resource_of lid (Role r) =
     \<lparr>res_type = ''AWS::IAM::Role'',
      res_props = JObj
        [(''AssumeRolePolicyDocument'', JObj
            [(''Statement'', JArr [JObj [(''Action'', JStr ''sts:AssumeRole''), (''Effect'', JStr ''Allow''),
                                         (''Principal'', JObj [(''Service'', JStr (role_assumed_by r))])]]),
             (''Version'', JStr ''2012-10-17'')]),
         (''Description'', JStr (role_description r)),
         (''Policies'', JArr (map (\<lambda>p. JObj [(''PolicyDocument'', policy_doc_json (snd p)),
                                               (''PolicyName'', JStr (fst p))]) (role_inline_policies r))),
         (''RoleName'', JStr (role_name r))],
      res_deletion_policy = None\<rparr>"
| "resource_of lid (CfnDatabase d) =
     \<lparr>res_type = ''AWS::Glue::Database'',
      res_props = JObj [(''CatalogId'', token_json lid (db_catalog_id d)),
                        (''DatabaseInput'', JObj [(''Description'', JStr (db_description d)), (''Name'', JStr (db_name d))])],
      res_deletion_policy = None\<rparr>"
| "resource_of lid (CfnPermissions p) =
     \<lparr>res_type = ''AWS::LakeFormation::Permissions'',
      res_props = JObj
        [(''DataLakePrincipal'', JObj [(''DataLakePrincipalIdentifier'', token_json lid (perm_principal p))]),
         (''Permissions'', JArr (map JStr (perm_permissions p))),
         (''Resource'', JObj [(''DatabaseResource'', JObj [(''CatalogId'', token_json lid (perm_catalog_id p)),
                                                          (''Name'', JStr (perm_database p))])])],
      res_deletion_policy = None\<rparr>"
| "resource_of lid (CfnCrawler c) =
     \<lparr>res_type = ''AWS::Glue::Crawler'',
      res_props = JObj
        ([(''DatabaseName'', JStr (cr_database_name c)), (''Name'', JStr (cr_name c))] @
         opt_prop ''RecrawlPolicy'' (map_option (\<lambda>b. JObj [(''RecrawlBehavior'', JStr b)]) (cr_recrawl_behavior c)) @
         [(''Role'', token_json lid (cr_role c)),
          (''Targets'', JObj [(''S3Targets'', JArr (map (\<lambda>t. JObj
              (opt_prop ''EventQueueArn'' (map_option (token_json lid) (tgt_event_queue_arn t)) @
               [(''Path'', token_json lid (tgt_path t))])) (cr_s3_targets c)))])]),
      res_deletion_policy = None\<rparr>"
| "resource_of lid (CfnJob j) =
     \<lparr>res_type = ''AWS::Glue::Job'',
      res_props = JObj
        [(''Command'', JObj [(''Name'', JStr (cmd_name (job_cmd j))),
                             (''PythonVersion'', JStr (cmd_python_version (job_cmd j))),
                             (''ScriptLocation'', token_json lid (cmd_script_location (job_cmd j)))]),
         (''GlueVersion'', JStr (job_glue_version j)),
         (''Name'', JStr (job_name j)),
         (''Role'', token_json lid (job_role j)),
         (''Timeout'', JInt (int (job_timeout j)))],
      res_deletion_policy = None\<rparr>"
| "resource_of lid (CfnWorkflow w) =
     \<lparr>res_type = ''AWS::Glue::Workflow'',
      res_props = JObj [(''Description'', JStr (wf_description w)), (''Name'', JStr (wf_name w))],
      res_deletion_policy = None\<rparr>"
| "resource_of lid (CfnTrigger t) =
     \<lparr>res_type = ''AWS::Glue::Trigger'',
      res_props = JObj
        ([(''Actions'', JArr (map (\<lambda>a. JObj
            (opt_prop ''CrawlerName'' (map_option JStr (act_crawler_name a)) @
             opt_prop ''JobName'' (map_option JStr (act_job_name a)) @
             [(''NotificationProperty'', JObj [(''NotifyDelayAfter'', JInt (int (act_notify_delay_after a)))]),
              (''Timeout'', JInt (int (act_timeout a)))])) (trg_actions t))),
          (''Name'', JStr (trg_name t))] @
         (if trg_conditions t = [] then []
          else [(''Predicate'', JObj [(''Conditions'', JArr (map (\<lambda>c. JObj
            (opt_prop ''CrawlState'' (map_option JStr (cond_crawl_state c)) @
             opt_prop ''CrawlerName'' (map_option JStr (cond_crawler_name c)) @
             opt_prop ''JobName'' (map_option JStr (cond_job_name c)) @
             [(''LogicalOperator'', JStr (cond_logical_operator c))] @
             opt_prop ''State'' (map_option JStr (cond_state c)))) (trg_conditions t)))])]) @
         (if trg_start_on_creation t then [(''StartOnCreation'', JBool True)] else []) @
         [(''Type'', JStr (trg_type t))] @
         opt_prop ''WorkflowName'' (map_option JStr (trg_workflow_name t))),
      res_deletion_policy = None\<rparr>"
| "resource_of lid (CfnRule r) =
     \<lparr>res_type = ''AWS::Events::Rule'',
      res_props = JObj
        [(''EventPattern'', value_json lid (rule_event_pattern r)),
         (''Name'', JStr (rule_name r)),
         (''RoleArn'', token_json lid (rule_role_arn r)),
         (''Targets'', JArr (map (\<lambda>t. JObj [(''Arn'', token_json lid (rt_arn t)), (''Id'', token_json lid (rt_id t)),
                                              (''RoleArn'', token_json lid (rt_role_arn t))]) (rule_targets r)))],
      res_deletion_policy = None\<rparr>"

text \<open>The CloudFormation type of the resource a construct becomes.\<close>

fun cfn_type :: "construct \<Rightarrow> string" where
  "cfn_type (Bucket _) = ''AWS::S3::Bucket''"
| "cfn_type (BucketDeployment _) = ''Custom::CDKBucketDeployment''"
| "cfn_type (Queue _) = ''AWS::SQS::Queue''"
| "cfn_type (Role _) = ''AWS::IAM::Role''"
| "cfn_type (CfnDatabase _) = ''AWS::Glue::Database''"
| "cfn_type (CfnPermissions _) = ''AWS::LakeFormation::Permissions''"
| "cfn_type (CfnCrawler _) = ''AWS::Glue::Crawler''"
| "cfn_type (CfnJob _) = ''AWS::Glue::Job''"
| "cfn_type (CfnWorkflow _) = ''AWS::Glue::Workflow''"
| "cfn_type (CfnTrigger _) = ''AWS::Glue::Trigger''"
| "cfn_type (CfnRule _) = ''AWS::Events::Rule''"

definition synth :: "(string \<Rightarrow> string) \<Rightarrow> stack \<Rightarrow> template" where
  "synth lid s = map (\<lambda>(i, c). (lid i, resource_of lid c)) (children s)"

subsection \<open>Intrinsic functions at deployment\<close>

text \<open>The pseudo parameters CloudFormation knows, the properties of a resource, and
  the evaluation of a string-valued property: \<open>R\<close> answers a \<open>Ref\<close> to a logical id,
  \<open>G\<close> an \<open>Fn::GetAtt\<close>.  A \<open>Ref\<close> to a bucket is its name (its \<open>BucketName\<close>,
  itself evaluated with the pseudo parameters only, or the generated physical name),
  to any other resource its physical name; \<open>Arn\<close> of a queue is built from its
  physical name, of a role from its \<open>RoleName\<close>.\<close>

fun join_with :: "string \<Rightarrow> string list \<Rightarrow> string" where
  "join_with sep [] = []"
| "join_with sep [x] = x"
| "join_with sep (x # y # zs) = x @ sep @ join_with sep (y # zs)"

definition pseudo_ref :: "deploy_env \<Rightarrow> string \<Rightarrow> string option" where
  "pseudo_ref env x =
     (if x = ''AWS::AccountId'' then Some (account env)
      else if x = ''AWS::Region'' then Some (region env) else None)"

fun cfn_str ::
  "deploy_env \<Rightarrow> (string \<Rightarrow> string option) \<Rightarrow> (string \<Rightarrow> string \<Rightarrow> string option) \<Rightarrow> json \<Rightarrow> string option" where
  "cfn_str env R G (JStr s) = Some s"
| "cfn_str env R G (JObj [(k, JStr x)]) =
     (if k = ''Ref'' then (case pseudo_ref env x of Some v \<Rightarrow> Some v | None \<Rightarrow> R x) else None)"
| "cfn_str env R G (JObj [(k, JArr [JStr l, JStr a])]) = (if k = ''Fn::GetAtt'' then G l a else None)"
| "cfn_str env R G (JObj [(k, JArr [JStr sep, JArr ps])]) =
     (if k = ''Fn::Join'' then map_option (join_with sep) (those (map (cfn_str env R G) ps)) else None)"
| "cfn_str env R G _ = None"

definition prop_of :: "json \<Rightarrow> string \<Rightarrow> json option" where
  "prop_of j k = (case j of JObj kvs \<Rightarrow> map_of kvs k | _ \<Rightarrow> None)"

definition cfn_ref :: "deploy_env \<Rightarrow> template \<Rightarrow> string \<Rightarrow> string option" where
  "cfn_ref env T l =
     (case map_of T l of
        None \<Rightarrow> None
      | Some r \<Rightarrow>
          (if res_type r = ''AWS::S3::Bucket'' then
             (case prop_of (res_props r) ''BucketName'' of
                Some n \<Rightarrow> cfn_str env (\<lambda>_. None) (\<lambda>_ _. None) n
              | None \<Rightarrow> Some (physical env l))
           else Some (physical env l)))"

definition cfn_getatt :: "deploy_env \<Rightarrow> template \<Rightarrow> string \<Rightarrow> string \<Rightarrow> string option" where
  "cfn_getatt env T l a =
     (if a \<noteq> ''Arn'' then None
      else case map_of T l of
        None \<Rightarrow> None
      | Some r \<Rightarrow>
          (if res_type r = ''AWS::SQS::Queue'' then
             Some (''arn:aws:sqs:'' @ region env @ '':'' @ account env @ '':'' @ physical env l)
           else if res_type r = ''AWS::IAM::Role'' then
             (case prop_of (res_props r) ''RoleName'' of
                Some (JStr n) \<Rightarrow> Some (''arn:aws:iam::'' @ account env @ '':role/'' @ n)
              | _ \<Rightarrow> None)
           else None))"

definition cfn_eval_str :: "deploy_env \<Rightarrow> template \<Rightarrow> json \<Rightarrow> string option" where
  "cfn_eval_str env T = cfn_str env (cfn_ref env T) (cfn_getatt env T)"

subsection \<open>Validity of the template's references\<close>

text \<open>The references a JSON value makes through intrinsic functions, and the check
  CloudFormation performs before it deploys: a \<open>Ref\<close> names a pseudo parameter or a
  resource of the template, an \<open>Fn::GetAtt\<close> names a resource whose type has that
  attribute (the attributes CloudFormation documents for the types that occur).\<close>

fun json_refs :: "json \<Rightarrow> (string \<times> string option) list" where
  "json_refs (JObj [(k, JStr x)]) = (if k = ''Ref'' then [(x, None)] else [])"
| "json_refs (JObj [(k, JArr [JStr l, JStr a])]) = (if k = ''Fn::GetAtt'' then [(l, Some a)] else [])"
| "json_refs (JObj kvs) = concat (map (\<lambda>kv. json_refs (snd kv)) kvs)"
| "json_refs (JArr js) = concat (map json_refs js)"
| "json_refs _ = []"

definition type_attrs :: "string \<Rightarrow> string list" where
  "type_attrs ty =
     (if ty = ''AWS::S3::Bucket'' then [''Arn'', ''DomainName'', ''RegionalDomainName'', ''WebsiteURL'']
      else if ty = ''AWS::SQS::Queue'' then [''Arn'', ''QueueName'', ''QueueUrl'']
      else if ty = ''AWS::IAM::Role'' then [''Arn'', ''RoleId'']
      else [])"

fun tmpl_ref_ok :: "template \<Rightarrow> string \<times> string option \<Rightarrow> bool" where
  "tmpl_ref_ok T (x, None) = (x \<in> {''AWS::AccountId'', ''AWS::Region''} \<or> map_of T x \<noteq> None)"
| "tmpl_ref_ok T (l, Some a) = (case map_of T l of Some r \<Rightarrow> a \<in> set (type_attrs (res_type r)) | None \<Rightarrow> False)"

definition template_wf :: "template \<Rightarrow> bool" where
  "template_wf T \<longleftrightarrow> distinct (map fst T) \<and>
     list_all (\<lambda>(l, r). list_all (tmpl_ref_ok T) (json_refs (res_props r))) T"

text \<open>A logical-id allocation CDK may use: distinct constructs get distinct ids, and
  no id is the name of a pseudo parameter (CDK's ids are alphanumeric).\<close>

definition lid_ok :: "(string \<Rightarrow> string) \<Rightarrow> bool" where
  "lid_ok lid \<longleftrightarrow> inj lid \<and> (\<forall>i. lid i \<noteq> ''AWS::AccountId'' \<and> lid i \<noteq> ''AWS::Region'')"

text \<open>The references each resource of a synthesised stack makes, in construct order.\<close>

definition res_refs :: "(string \<Rightarrow> string) \<Rightarrow> stack \<Rightarrow> (string \<times> string option) list list" where
  "res_refs lid s = map (\<lambda>(i, c). json_refs (res_props (resource_of lid c))) (children s)"

subsection \<open>The CDK app and the unit tests\<close>

text \<open>\<open>src/app.py\<close> imports the stack class from the module \<open>firstcdk.firstcdk_stack\<close>,
  creates an \<open>App\<close>, adds \<open>FirstcdkStack(app, "FirstcdkStack")\<close> and synthesises
  the app: one template per stack.  The unit tests import the same module, build the
  stack under the id \<open>firstcdk\<close>, take its template (\<open>Template.from_stack\<close>) and
  assert on it.  A module table maps the names Python can import to the stack class
  they define; a failed import raises \<open>ModuleNotFoundError\<close> naming the top-level
  package.  \<open>json_like\<close> is the matching of \<open>Match.objectLike\<close>, which
  \<open>has_resource_properties\<close> applies: every key of the pattern must be present and
  match, recursively; arrays match element by element.\<close>

datatype py_error =
    ModuleNotFoundError string
  | ConstructError cdk_error
  | AssertionError string

type_synonym modules = "string \<rightharpoonup> (string \<Rightarrow> cdk_error + stack)"

record cdk_app =
  app_stacks :: "stack list"

definition app_new :: cdk_app where
  "app_new = \<lparr>app_stacks = []\<rparr>"

definition app_add_stack ::
  "cdk_app \<Rightarrow> (string \<Rightarrow> cdk_error + stack) \<Rightarrow> string \<Rightarrow> py_error + stack \<times> cdk_app" where
  "app_add_stack a ctor sid =
     (if sid \<in> set (map stack_id (app_stacks a)) then Inl (ConstructError (DuplicateConstructId sid))
      else case ctor sid of
        Inl e \<Rightarrow> Inl (ConstructError e)
      | Inr s \<Rightarrow> Inr (s, a\<lparr>app_stacks := app_stacks a @ [s]\<rparr>))"

definition app_synth :: "(string \<Rightarrow> string) \<Rightarrow> cdk_app \<Rightarrow> (string \<times> template) list" where
  "app_synth lid a = map (\<lambda>s. (stack_id s, synth lid s)) (app_stacks a)"

definition import_stack_class :: "modules \<Rightarrow> py_error + (string \<Rightarrow> cdk_error + stack)" where
  "import_stack_class mods =
     (case mods ''firstcdk.firstcdk_stack'' of
        None \<Rightarrow> Inl (ModuleNotFoundError ''firstcdk'')
      | Some ctor \<Rightarrow> Inr ctor)"

definition app_main :: "modules \<Rightarrow> (string \<Rightarrow> string) \<Rightarrow> py_error + (string \<times> template) list" where
  "app_main mods lid =
     ebind (import_stack_class mods) (\<lambda>ctor.
     ebind (app_add_stack app_new ctor ''FirstcdkStack'') (\<lambda>(s, a).
     Inr (app_synth lid a)))"

function (sequential) json_like :: "json \<Rightarrow> json \<Rightarrow> bool" where
  "json_like (JObj ps) (JObj ts) =
     list_all (\<lambda>kp. case map_of ts (fst kp) of Some t \<Rightarrow> json_like (snd kp) t | None \<Rightarrow> False) ps"
| "json_like (JArr ps) (JArr ts) =
     (length ps = length ts \<and> list_all (\<lambda>pt. json_like (fst pt) (snd pt)) (zip ps ts))"
| "json_like p t = (p = t)"
  by pat_completeness auto
termination
proof (relation "measure (\<lambda>(p, t). size p)")
  show "wf (measure (\<lambda>(p, t). size p))" by simp
next
  fix ps ts :: "(string \<times> json) list" and kp t
  assume "kp \<in> set ps"
  then have "size (snd kp) \<le> size_list (size_prod (\<lambda>_. 0) size) ps"
    by (rule size_list_estimation' [of kp]) (cases kp, simp_all)
  then show "((snd kp, t), JObj ps, JObj ts) \<in> measure (\<lambda>(p, t). size p)" by simp
next
  fix ps ts :: "json list" and pt :: "json \<times> json"
  assume "pt \<in> set (zip ps ts)"
  then have "fst pt \<in> set ps" by (metis prod.collapse set_zip_leftD)
  then have "size (fst pt) \<le> size_list size ps" by (rule size_list_estimation') simp
  then show "((fst pt, snd pt), JArr ps, JArr ts) \<in> measure (\<lambda>(p, t). size p)" by (cases pt) simp
qed

definition has_resource_properties :: "string \<Rightarrow> json \<Rightarrow> template \<Rightarrow> bool" where
  "has_resource_properties ty props T = list_ex (\<lambda>(l, r). res_type r = ty \<and> json_like props (res_props r)) T"

definition resource_count_is :: "string \<Rightarrow> nat \<Rightarrow> template \<Rightarrow> bool" where
  "resource_count_is ty n T \<longleftrightarrow> length (filter (\<lambda>(l, r). res_type r = ty) T) = n"

definition assert_template :: "bool \<Rightarrow> string \<Rightarrow> py_error + unit" where
  "assert_template b msg = (if b then Inr () else Inl (AssertionError msg))"

definition test_sqs_queue_created :: "modules \<Rightarrow> (string \<Rightarrow> string) \<Rightarrow> py_error + unit" where
  "test_sqs_queue_created mods lid =
     ebind (import_stack_class mods) (\<lambda>ctor.
     ebind (app_add_stack app_new ctor ''firstcdk'') (\<lambda>(s, a).
     assert_template
       (has_resource_properties ''AWS::SQS::Queue'' (JObj [(''VisibilityTimeout'', JInt 300)]) (synth lid s))
       ''Template has no resource of type AWS::SQS::Queue with the given properties''))"

definition test_sns_topic_created :: "modules \<Rightarrow> (string \<Rightarrow> string) \<Rightarrow> py_error + unit" where
  "test_sns_topic_created mods lid =
     ebind (import_stack_class mods) (\<lambda>ctor.
     ebind (app_add_stack app_new ctor ''firstcdk'') (\<lambda>(s, a).
     assert_template (resource_count_is ''AWS::SNS::Topic'' 1 (synth lid s))
       ''Expected 1 resource of type AWS::SNS::Topic''))"

text \<open>The modules of the repository: the stack class is defined in
  \<open>src/lambda/commenstack.py\<close>; no module \<open>firstcdk.firstcdk_stack\<close> exists.  With the
  import pointed at that file, the module table would be \<open>fixed_modules\<close>.\<close>

definition repo_modules :: modules where
  "repo_modules = map_of [(''lambda.commenstack'', firstcdk_stack)]"

definition fixed_modules :: modules where
  "fixed_modules = repo_modules(''firstcdk.firstcdk_stack'' \<mapsto> firstcdk_stack)"

subsection \<open>Synthesis and evaluation\<close>

lemma join_with_empty: "join_with [] = concat"
proof
  fix xs :: "string list"
  show "join_with [] xs = concat xs"
    by (induction "[] :: string" xs rule: join_with.induct) simp_all
qed

lemma map_of_map_inj:
  "inj f \<Longrightarrow> map_of (map (\<lambda>(k, v). (f k, g v)) xs) (f k) = map_option g (map_of xs k)"
  by (induction xs) (auto simp: inj_eq)

lemma map_of_synth:
  "inj lid \<Longrightarrow> map_of (synth lid s) (lid i) = map_option (resource_of lid) (map_of (children s) i)"
  by (simp add: synth_def map_of_map_inj)

lemma resource_of_type:
  "res_type (resource_of lid c) = ''AWS::S3::Bucket'' \<longleftrightarrow> (\<exists>b. c = Bucket b)"
  "res_type (resource_of lid c) = ''AWS::SQS::Queue'' \<longleftrightarrow> (\<exists>q. c = Queue q)"
  "res_type (resource_of lid c) = ''AWS::IAM::Role'' \<longleftrightarrow> (\<exists>r. c = Role r)"
  by (cases c; simp)+

lemma pseudo_value_physical: "pseudo_value (env\<lparr>physical := p\<rparr>) t = pseudo_value env t"
  by (induction t) (simp_all cong: map_cong)

lemma pseudo_ref_lid: "lid_ok lid \<Longrightarrow> pseudo_ref env (lid i) = None"
  by (simp add: lid_ok_def pseudo_ref_def)

lemma cfn_str_pseudo:
  "lid_ok lid \<Longrightarrow> account env' = account env \<Longrightarrow> region env' = region env \<Longrightarrow>
     cfn_str env (\<lambda>_. None) (\<lambda>_ _. None) (token_json lid t) = pseudo_value env' t"
proof (induction t)
  case (Join ts)
  then show ?case by (simp add: join_with_empty cong: map_cong)
qed (use pseudo_ref_lid in \<open>simp_all add: pseudo_ref_def\<close>)

lemma res_type_resource_of: "res_type (resource_of lid c) = cfn_type c"
  by (cases c) simp_all

lemma template_wf_synth:
  assumes "lid_ok lid"
  shows "template_wf (synth lid s) \<longleftrightarrow>
           distinct (child_ids s) \<and> list_all (list_all (tmpl_ref_ok (synth lid s))) (res_refs lid s)"
proof -
  have "inj lid" using assms by (simp add: lid_ok_def)
  moreover have "map fst (synth lid s) = map lid (child_ids s)"
    by (simp add: synth_def child_ids_def case_prod_beta)
  ultimately have d: "distinct (map fst (synth lid s)) \<longleftrightarrow> distinct (child_ids s)"
    using distinct_map [of lid] inj_on_subset [of lid UNIV] by auto
  have "list_all (\<lambda>(l, r). P r) (map (\<lambda>(i, c). (lid i, resource_of lid c)) xs) \<longleftrightarrow>
          list_all P (map (\<lambda>(i, c). resource_of lid c) xs)" for P xs
    by (induction xs) auto
  then have r: "list_all (\<lambda>(l, r). list_all (tmpl_ref_ok T) (json_refs (res_props r))) (synth lid s) \<longleftrightarrow>
                  list_all (list_all (tmpl_ref_ok T)) (res_refs lid s)" for T
    by (simp add: synth_def res_refs_def list.pred_map comp_def case_prod_beta)
  show ?thesis unfolding template_wf_def d r ..
qed

lemma tmpl_ref_ok_synth:
  "lid_ok lid \<Longrightarrow> tmpl_ref_ok (synth lid s) (lid i, None) \<longleftrightarrow> map_of (children s) i \<noteq> None"
  "lid_ok lid \<Longrightarrow> tmpl_ref_ok (synth lid s) (lid i, Some a) \<longleftrightarrow>
     (case map_of (children s) i of Some c \<Rightarrow> a \<in> set (type_attrs (cfn_type c)) | None \<Rightarrow> False)"
  "tmpl_ref_ok T (''AWS::AccountId'', None)"
  "tmpl_ref_ok T (''AWS::Region'', None)"
    apply (simp add: lid_ok_def map_of_synth)
   apply (simp add: lid_ok_def map_of_synth res_type_resource_of split: option.split)
  by simp_all

lemma construct_json_refs:
  "json_refs (res_props (resource_of lid (Bucket (raw_bucket\<lparr>b_notifications := ns\<rparr>)))) = [(''AWS::AccountId'', None)]"
  "json_refs (res_props (resource_of lid (Bucket output_bucket))) = [(''AWS::AccountId'', None)]"
  "json_refs (res_props (resource_of lid (BucketDeployment deployment_scripts))) = [(lid ''processed_cdk_bucket'', None)]"
  "json_refs (res_props (resource_of lid (Queue glue_queue))) = []"
  "json_refs (res_props (resource_of lid (Role glue_role))) = []"
  "json_refs (res_props (resource_of lid (CfnDatabase glue_database))) = [(''AWS::AccountId'', None)]"
  "json_refs (res_props (resource_of lid (CfnPermissions lakeformation_permission))) =
     [(lid ''glue_role'', Some ''Arn''), (''AWS::AccountId'', None)]"
  "json_refs (res_props (resource_of lid (CfnCrawler glue_crawler))) =
     [(lid ''glue_role'', Some ''Arn''), (lid ''glue_queue'', Some ''Arn''), (lid ''raw_data'', None)]"
  "json_refs (res_props (resource_of lid (CfnJob glue_job))) =
     [(lid ''processed_cdk_bucket'', None), (lid ''glue_role'', Some ''Arn'')]"
  "json_refs (res_props (resource_of lid (CfnWorkflow glue_workflow))) = []"
  "json_refs (res_props (resource_of lid (CfnTrigger glue_crawler_trigger))) = []"
  "json_refs (res_props (resource_of lid (CfnTrigger glue_job_trigger))) = []"
  "json_refs (res_props (resource_of lid (Role rule_role))) = []"
  "json_refs (res_props (resource_of lid (CfnRule rule_s3_glue))) =
     [(lid ''raw_data'', None), (lid ''rule_role'', Some ''Arn''), (''AWS::Region'', None), (''AWS::AccountId'', None),
      (''AWS::AccountId'', None), (lid ''rule_role'', Some ''Arn'')]"
  by (simp_all add: raw_bucket_def output_bucket_def deployment_scripts_def glue_queue_def glue_role_def
                    glue_database_def lakeformation_permission_def glue_crawler_def glue_job_def glue_workflow_def
                    glue_crawler_trigger_def glue_job_trigger_def rule_role_def rule_s3_glue_def
                    opt_prop_def lifecycle_json_def policy_doc_json_def str_list_json_def)

lemma has_resource_properties_synth:
  "has_resource_properties ty p (synth lid s) \<longleftrightarrow>
     list_ex (\<lambda>(i, c). json_like p (res_props (resource_of lid c))) (filter (\<lambda>(i, c). cfn_type c = ty) (children s))"
proof -
  have "list_ex (\<lambda>(l, r). res_type r = ty \<and> P r) (map (\<lambda>(i, c). (lid i, resource_of lid c)) xs) \<longleftrightarrow>
          list_ex (\<lambda>(i, c). P (resource_of lid c)) (filter (\<lambda>(i, c). cfn_type c = ty) xs)" for P xs
    by (induction xs) (auto simp: res_type_resource_of)
  then show ?thesis by (simp add: has_resource_properties_def synth_def)
qed

lemma resource_count_is_synth:
  "resource_count_is ty n (synth lid s) \<longleftrightarrow> length (filter (\<lambda>(i, c). cfn_type c = ty) (children s)) = n"
proof -
  have "filter (\<lambda>(l, r). res_type r = ty) (map (\<lambda>(i, c). (lid i, resource_of lid c)) xs) =
          map (\<lambda>(i, c). (lid i, resource_of lid c)) (filter (\<lambda>(i, c). cfn_type c = ty) xs)" for xs
    by (induction xs) (auto simp: res_type_resource_of)
  then show ?thesis by (simp add: resource_count_is_def synth_def)
qed

lemma synth_types: "map (res_type \<circ> snd) (synth lid s) = map (cfn_type \<circ> snd) (children s)"
  by (simp add: synth_def case_prod_beta comp_def res_type_resource_of)

lemma firstcdk_res_refs: "res_refs lid (projr (firstcdk_stack sid)) =
     [[(''AWS::AccountId'', None)], [(''AWS::AccountId'', None)], [(lid ''processed_cdk_bucket'', None)], [], [],
      [(''AWS::AccountId'', None)], [(lid ''glue_role'', Some ''Arn''), (''AWS::AccountId'', None)],
      [(lid ''glue_role'', Some ''Arn''), (lid ''glue_queue'', Some ''Arn''), (lid ''raw_data'', None)],
      [(lid ''processed_cdk_bucket'', None), (lid ''glue_role'', Some ''Arn'')], [], [], [], [],
      [(lid ''raw_data'', None), (lid ''rule_role'', Some ''Arn''), (''AWS::Region'', None), (''AWS::AccountId'', None),
       (''AWS::AccountId'', None), (lid ''rule_role'', Some ''Arn'')]]"
  by (simp add: firstcdk_stack_result res_refs_def construct_json_refs del: resource_of.simps)
lemma lid_ok_prefix: "lid_ok ((@) ''C'')"
  by (simp add: lid_ok_def inj_on_def)

subsection \<open>Properties of the synthesised template\<close>

text \<open>Deploying the synthesised template evaluates every token the stack holds
  exactly as \<open>resolve\<close> does on the construct tree, for every logical-id allocation CDK
  may use, every stack and every environment: synthesis to intrinsic functions is
  faithful to the references the code makes (CloudFormation's physical names are
  indexed by logical id).\<close>

theorem synth_intrinsics_resolve:
  assumes "lid_ok lid"
  shows "cfn_eval_str env (synth lid s) (token_json lid t) =
           resolve (env\<lparr>physical := physical env \<circ> lid\<rparr>) (children s) t"
proof (induction t)
  case (Ref i)
  show ?case
    using assms
    by (auto simp: cfn_eval_str_def cfn_ref_def pseudo_ref_lid map_of_synth lid_ok_def resource_of_type
                   prop_of_def opt_prop_def cfn_str_pseudo pseudo_value_physical split: option.split construct.split)
next
  case (GetAtt i a)
  show ?case
    using assms
    by (auto simp: cfn_eval_str_def cfn_getatt_def map_of_synth lid_ok_def resource_of_type
                   prop_of_def queue_arn_def role_arn_def split: option.split construct.split)
next
  case (Join ts)
  then show ?case by (simp add: cfn_eval_str_def join_with_empty comp_def cong: map_cong)
qed (simp_all add: cfn_eval_str_def pseudo_ref_def)

text \<open>The template of FirstcdkStack passes CloudFormation's reference check, for
  every logical-id allocation: distinct logical ids, every Ref names a pseudo parameter
  or a resource, every Fn::GetAtt names a resource whose type has that attribute.\<close>

theorem firstcdk_template_wf:
  assumes "lid_ok lid"
  shows "\<exists>s. firstcdk_stack sid = Inr s \<and> template_wf (synth lid s)"
proof -
  let ?s = "projr (firstcdk_stack sid)"
  have s: "firstcdk_stack sid = Inr ?s" by (simp add: firstcdk_stack_result)
  have d: "distinct (child_ids ?s)" by (simp add: firstcdk_stack_result child_ids_def)
  have "list_all (list_all (tmpl_ref_ok (synth lid ?s))) (res_refs lid ?s)"
    using assms
    by (simp add: firstcdk_res_refs tmpl_ref_ok_synth type_attrs_def del: tmpl_ref_ok.simps)
       (simp add: firstcdk_stack_result type_attrs_def)
  with d assms s show ?thesis by (auto simp: template_wf_synth)
qed

text \<open>C28: As the repository stands, app.py and both unit tests fail before building
  anything: the module firstcdk.firstcdk_stack they import does not exist.\<close>

theorem app_module_missing:
  "app_main repo_modules lid = Inl (ModuleNotFoundError ''firstcdk'') \<and>
   test_sqs_queue_created repo_modules lid = Inl (ModuleNotFoundError ''firstcdk'') \<and>
   test_sns_topic_created repo_modules lid = Inl (ModuleNotFoundError ''firstcdk'')"
  by (simp add: app_main_def test_sqs_queue_created_def test_sns_topic_created_def import_stack_class_def
                repo_modules_def)

text \<open>With the import pointed at the stack class, app.py synthesises one
  stack, FirstcdkStack, whose template has fourteen resources of these types in source
  order.\<close>

theorem app_synthesises_firstcdk:
  "\<exists>s. firstcdk_stack ''FirstcdkStack'' = Inr s \<and>
     app_main fixed_modules lid = Inr [(''FirstcdkStack'', synth lid s)] \<and>
     map (res_type \<circ> snd) (synth lid s) =
       [''AWS::S3::Bucket'', ''AWS::S3::Bucket'', ''Custom::CDKBucketDeployment'', ''AWS::SQS::Queue'',
        ''AWS::IAM::Role'', ''AWS::Glue::Database'', ''AWS::LakeFormation::Permissions'', ''AWS::Glue::Crawler'',
        ''AWS::Glue::Job'', ''AWS::Glue::Workflow'', ''AWS::Glue::Trigger'', ''AWS::Glue::Trigger'',
        ''AWS::IAM::Role'', ''AWS::Events::Rule'']"
  by (simp add: firstcdk_stack_result app_main_def import_stack_class_def fixed_modules_def app_add_stack_def
                app_new_def app_synth_def synth_types)

text \<open>C29: With the import pointed at the stack class, both unit tests fail: the
  template has no SQS queue with VisibilityTimeout 300 (the only queue leaves it
  unset) and no SNS topic.\<close>

theorem unit_tests_fail:
  "test_sqs_queue_created fixed_modules lid =
     Inl (AssertionError ''Template has no resource of type AWS::SQS::Queue with the given properties'') \<and>
   test_sns_topic_created fixed_modules lid = Inl (AssertionError ''Expected 1 resource of type AWS::SNS::Topic'')"
  by (simp add: firstcdk_stack_result test_sqs_queue_created_def test_sns_topic_created_def
                import_stack_class_def fixed_modules_def app_add_stack_def app_new_def
                has_resource_properties_synth resource_count_is_synth assert_template_def glue_queue_def opt_prop_def)

lemma synth_intrinsics_resolve_witness:
  "lid_ok ((@) ''C'') \<and>
   cfn_eval_str \<lparr>account = ''123456789012'', region = ''eu-west-1'', physical = id\<rparr>
     (synth ((@) ''C'') (projr (firstcdk_stack ''FirstcdkStack''))) (token_json ((@) ''C'') (cr_role glue_crawler)) =
     Some ''arn:aws:iam::123456789012:role/cdkGlueRole''"
  using synth_intrinsics_resolve [OF lid_ok_prefix,
          of "\<lparr>account = ''123456789012'', region = ''eu-west-1'', physical = id\<rparr>"
             "projr (firstcdk_stack ''FirstcdkStack'')" "cr_role glue_crawler"]
  by (simp add: lid_ok_prefix firstcdk_stack_result glue_crawler_def role_arn_def glue_role_def)

lemma firstcdk_template_wf_witness:
  "lid_ok ((@) ''C'') \<and> (\<exists>s. firstcdk_stack ''FirstcdkStack'' = Inr s \<and> template_wf (synth ((@) ''C'') s))"
  using firstcdk_template_wf [OF lid_ok_prefix] lid_ok_prefix by blast

end
