(* ===== verification/Lifecycle.thy ===== *)
theory Lifecycle
  imports Deploy
begin

text \<open>
  What happens when the stack is created and deleted, beyond the wiring of theory
  \<open>Deploy\<close>.  Bucket names are global across all accounts and regions, role names
  are global within an account, and both must follow their service's naming rules;
  \<open>create_stack\<close> creates the resources in order against the names already taken
  (\<open>namespace\<close>) and stops at the first failure.  \<open>delete_failures\<close> deletes the
  resources in reverse order: a bucket whose removal policy is DESTROY is deleted,
  which S3 refuses while it holds objects unless \<open>auto_delete_objects\<close> installed the
  handler that empties it; a bucket without a removal policy is retained (CDK's
  default).  The naming rules are the documented ones of S3 (3 to 63 characters,
  lower-case letters, digits, dots and hyphens, starting and ending with a letter or
  digit, no two adjacent dots), IAM (1 to 64 characters of letters, digits and
  \<open>+=,.@_-\<close>) and EventBridge target ids (1 to 64 characters of letters, digits and
  \<open>.-_\<close>); an account id is twelve digits.
\<close>

definition is_digit :: "char \<Rightarrow> bool" where
  "is_digit c \<longleftrightarrow> (48::nat) \<le> of_char c \<and> of_char c \<le> (57::nat)"

definition is_lower :: "char \<Rightarrow> bool" where
  "is_lower c \<longleftrightarrow> (97::nat) \<le> of_char c \<and> of_char c \<le> (122::nat)"

definition is_upper :: "char \<Rightarrow> bool" where
  "is_upper c \<longleftrightarrow> (65::nat) \<le> of_char c \<and> of_char c \<le> (90::nat)"

definition account_id_ok :: "string \<Rightarrow> bool" where
  "account_id_ok a \<longleftrightarrow> length a = 12 \<and> list_all is_digit a"

fun adjacent_dots :: "string \<Rightarrow> bool" where
  "adjacent_dots (a # b # cs) = ((a = CHR ''.'' \<and> b = CHR ''.'') \<or> adjacent_dots (b # cs))"
| "adjacent_dots _ = False"

definition s3_bucket_name_ok :: "string \<Rightarrow> bool" where
  "s3_bucket_name_ok n \<longleftrightarrow>
     3 \<le> length n \<and> length n \<le> 63 \<and>
     list_all (\<lambda>c. is_lower c \<or> is_digit c \<or> c = CHR ''.'' \<or> c = CHR ''-'') n \<and>
     (is_lower (hd n) \<or> is_digit (hd n)) \<and> (is_lower (last n) \<or> is_digit (last n)) \<and>
     \<not> adjacent_dots n"

definition iam_name_ok :: "string \<Rightarrow> bool" where
  "iam_name_ok n \<longleftrightarrow>
     1 \<le> length n \<and> length n \<le> 64 \<and>
     list_all (\<lambda>c. is_lower c \<or> is_upper c \<or> is_digit c \<or> c \<in> set ''+=,.@_-'') n"

definition target_id_ok :: "string \<Rightarrow> bool" where
  "target_id_ok n \<longleftrightarrow>
     1 \<le> length n \<and> length n \<le> 64 \<and> list_all (\<lambda>c. is_lower c \<or> is_upper c \<or> is_digit c \<or> c \<in> set ''.-_'') n"

definition buckets_of :: "stack \<Rightarrow> (string \<times> bucket_props) list" where
  "buckets_of s = concat (map (\<lambda>(k, c). case c of Bucket b \<Rightarrow> [(k, b)] | _ \<Rightarrow> []) (children s))"

definition roles_of :: "stack \<Rightarrow> role_props list" where
  "roles_of s = concat (map (\<lambda>(k, c). case c of Role r \<Rightarrow> [r] | _ \<Rightarrow> []) (children s))"

text \<open>The names the stack's buckets get in an environment.\<close>

definition bucket_names :: "deploy_env \<Rightarrow> stack \<Rightarrow> string option list" where
  "bucket_names env s = map (\<lambda>(k, b). resolve env (children s) (Ref k)) (buckets_of s)"

subsection \<open>Creation against global names\<close>

datatype cfn_error = AlreadyExists string | InvalidName string | BucketNotEmpty string

record namespace =
  ns_buckets :: "string list"
  ns_roles :: "(string \<times> string) list"

fun create_resource ::
  "deploy_env \<Rightarrow> (string \<times> construct) list \<Rightarrow> namespace \<Rightarrow> string \<times> construct \<Rightarrow> cfn_error + namespace" where
  "create_resource env cs ns (k, Bucket b) =
     (case resolve env cs (Ref k) of
        None \<Rightarrow> Inl (InvalidName k)
      | Some n \<Rightarrow>
          (if \<not> s3_bucket_name_ok n then Inl (InvalidName n)
           else if n \<in> set (ns_buckets ns) then Inl (AlreadyExists n)
           else Inr (ns\<lparr>ns_buckets := n # ns_buckets ns\<rparr>)))"
| "create_resource env cs ns (k, Role r) =
     (if \<not> iam_name_ok (role_name r) then Inl (InvalidName (role_name r))
      else if (account env, role_name r) \<in> set (ns_roles ns) then Inl (AlreadyExists (role_name r))
      else Inr (ns\<lparr>ns_roles := (account env, role_name r) # ns_roles ns\<rparr>))"
| "create_resource env cs ns (k, c) = Inr ns"

fun create_all ::
  "deploy_env \<Rightarrow> (string \<times> construct) list \<Rightarrow> namespace \<Rightarrow> (string \<times> construct) list \<Rightarrow> cfn_error + namespace" where
  "create_all env cs ns [] = Inr ns"
| "create_all env cs ns (x # xs) = ebind (create_resource env cs ns x) (\<lambda>ns'. create_all env cs ns' xs)"

definition create_stack :: "deploy_env \<Rightarrow> stack \<Rightarrow> namespace \<Rightarrow> cfn_error + namespace" where
  "create_stack env s ns = create_all env (children s) ns (children s)"

definition empty_namespace :: namespace where
  "empty_namespace = \<lparr>ns_buckets = [], ns_roles = []\<rparr>"

subsection \<open>Deletion\<close>

fun delete_resource :: "(string \<Rightarrow> nat) \<Rightarrow> string \<times> construct \<Rightarrow> cfn_error + unit" where
  "delete_resource objs (k, Bucket b) =
     (if b_removal_policy b = Some DESTROY \<and> 0 < objs k \<and> \<not> b_auto_delete_objects b
      then Inl (BucketNotEmpty k) else Inr ())"
| "delete_resource objs (k, c) = Inr ()"

definition delete_failures :: "(string \<Rightarrow> nat) \<Rightarrow> stack \<Rightarrow> string list" where
  "delete_failures objs s =
     map fst (filter (\<lambda>x. is_raise (delete_resource objs x)) (rev (children s)))"

subsection \<open>Naming rules\<close>

lemma no_dots_adjacent: "list_all (\<lambda>c. c \<noteq> CHR ''.'') xs \<Longrightarrow> \<not> adjacent_dots xs"
  by (induction xs rule: adjacent_dots.induct) auto

lemma s3_name_prefix_account:
  assumes "account_id_ok a" "p \<noteq> []" "list_all (\<lambda>c. is_lower c \<or> c = CHR ''-'') p" "is_lower (hd p)"
    and "length p \<le> 51"
  shows "s3_bucket_name_ok (p @ a)"
proof -
  from assms(1) have a: "length a = 12" "list_all is_digit a" by (simp_all add: account_id_ok_def)
  then have "a \<noteq> []" by auto
  moreover have "list_all (\<lambda>c. c \<noteq> CHR ''.'') (p @ a)"
    using assms(3) a(2) by (auto simp: list_all_iff is_digit_def is_lower_def)
  ultimately show ?thesis
    using assms a by (auto simp: s3_bucket_name_ok_def list_all_iff no_dots_adjacent last_in_set)
qed

lemma account_target_id: "account_id_ok a \<Longrightarrow> target_id_ok a"
  by (auto simp: account_id_ok_def target_id_ok_def list_all_iff)

lemma firstcdk_names_ok:
  assumes "account_id_ok a"
  shows "s3_bucket_name_ok (''raw-cdk-bucket-'' @ a) \<and> s3_bucket_name_ok (''processed-cdk-bucket-'' @ a)"
proof
  show "s3_bucket_name_ok (''raw-cdk-bucket-'' @ a)"
    by (rule s3_name_prefix_account [OF assms]) (simp_all add: is_lower_def)
  show "s3_bucket_name_ok (''processed-cdk-bucket-'' @ a)"
    by (rule s3_name_prefix_account [OF assms]) (simp_all add: is_lower_def)
qed

lemmas create_defs = create_stack_def empty_namespace_def iam_name_ok_def is_lower_def is_upper_def
  raw_bucket_def output_bucket_def glue_role_def rule_role_def

lemma firstcdk_bucket_names:
  "\<exists>s. firstcdk_stack sid = Inr s \<and>
     bucket_names env s = [Some (''raw-cdk-bucket-'' @ account env), Some (''processed-cdk-bucket-'' @ account env)]"
  by (simp add: firstcdk_stack_result bucket_names_def buckets_of_def raw_bucket_def output_bucket_def)

subsection \<open>Names, creation and deletion of FirstcdkStack\<close>

text \<open>C30: In every account (a twelve-digit id), the names the stack gives its buckets, raw-cdk-bucket- and processed-cdk-bucket- followed by the account id, are valid S3 bucket names of at most 33 characters, its role names are valid IAM names, and the rule target id (the account id) is a valid EventBridge target id.\<close>

theorem firstcdk_names_bounded:
  assumes "account_id_ok (account env)"
  shows "\<exists>s. firstcdk_stack sid = Inr s \<and>
     bucket_names env s = [Some (''raw-cdk-bucket-'' @ account env), Some (''processed-cdk-bucket-'' @ account env)] \<and>
     list_all (\<lambda>n. case n of Some x \<Rightarrow> s3_bucket_name_ok x \<and> length x \<le> 33 | None \<Rightarrow> False) (bucket_names env s) \<and>
     list_all (iam_name_ok \<circ> role_name) (roles_of s) \<and>
     list_all (\<lambda>r. list_all (\<lambda>t. case resolve env (children s) (rt_id t) of Some x \<Rightarrow> target_id_ok x | None \<Rightarrow> False)
                     (rule_targets r)) (rules_of s)"
proof -
  have len: "length (account env) = 12" using assms by (simp add: account_id_ok_def)
  show ?thesis
    using firstcdk_names_ok [OF assms] firstcdk_bucket_names [of sid env] account_target_id [OF assms] len
    by (auto simp: firstcdk_stack_result roles_of_def rules_of_def glue_role_def rule_role_def rule_s3_glue_def
                   iam_name_ok_def is_lower_def is_upper_def)
qed

text \<open>C31: Bucket names are global and contain only the account id: after the stack is created in an account, creating it again in the same account fails with AlreadyExists on the raw bucket name, in any region.\<close>

theorem firstcdk_second_deployment_fails:
  assumes "account_id_ok (account e1)" and "account e2 = account e1"
  shows "\<exists>s ns. firstcdk_stack sid = Inr s \<and> create_stack e1 s empty_namespace = Inr ns \<and>
           create_stack e2 s ns = Inl (AlreadyExists (''raw-cdk-bucket-'' @ account e1))"
  using firstcdk_names_ok [OF assms(1)] assms(2)
  by (simp add: firstcdk_stack_result create_defs)

text \<open>C32: Deployments of the stack into two different accounts do not collide: both creations succeed, in either order of regions.\<close>

theorem firstcdk_accounts_independent:
  assumes "account_id_ok (account e1)" "account_id_ok (account e2)" and "account e2 \<noteq> account e1"
  shows "\<exists>s ns ns'. firstcdk_stack sid = Inr s \<and> create_stack e1 s empty_namespace = Inr ns \<and>
           create_stack e2 s ns = Inr ns'"
  using firstcdk_names_ok [OF assms(1)] firstcdk_names_ok [OF assms(2)] assms(3)
  by (simp add: firstcdk_stack_result create_defs)

text \<open>C34: Deleting the deployed stack fails exactly when the raw bucket holds objects, and then only on that bucket: its removal policy is DESTROY but auto_delete_objects is commented out, while the processed bucket is emptied by its auto-delete handler.\<close>

theorem firstcdk_delete_blocked:
  "\<exists>s. firstcdk_stack sid = Inr s \<and>
     (\<forall>objs. delete_failures objs s = (if 0 < objs ''raw_data'' then [''raw_data''] else []))"
  by (simp add: firstcdk_stack_result delete_failures_def raw_bucket_def output_bucket_def)

lemma firstcdk_names_bounded_witness:
  "account_id_ok (account \<lparr>account = ''123456789012'', region = ''eu-west-1'', physical = id\<rparr>) \<and>
   (\<exists>s. firstcdk_stack ''FirstcdkStack'' = Inr s \<and>
     bucket_names \<lparr>account = ''123456789012'', region = ''eu-west-1'', physical = id\<rparr> s = [Some ''raw-cdk-bucket-123456789012'', Some ''processed-cdk-bucket-123456789012''] \<and>
     list_all (\<lambda>n. case n of Some x \<Rightarrow> s3_bucket_name_ok x \<and> length x \<le> 33 | None \<Rightarrow> False) (bucket_names \<lparr>account = ''123456789012'', region = ''eu-west-1'', physical = id\<rparr> s) \<and>
     list_all (iam_name_ok \<circ> role_name) (roles_of s) \<and>
     list_all (\<lambda>r. list_all (\<lambda>t. case resolve \<lparr>account = ''123456789012'', region = ''eu-west-1'', physical = id\<rparr> (children s) (rt_id t) of Some x \<Rightarrow> target_id_ok x | None \<Rightarrow> False)
                     (rule_targets r)) (rules_of s))"
proof -
  have a: "account_id_ok (account \<lparr>account = ''123456789012'', region = ''eu-west-1'', physical = id\<rparr>)" by (simp add: account_id_ok_def is_digit_def)
  show ?thesis using firstcdk_names_bounded [OF a, of "''FirstcdkStack''"] a by simp
qed

lemma firstcdk_second_deployment_fails_witness:
  "account_id_ok (account \<lparr>account = ''123456789012'', region = ''eu-west-1'', physical = id\<rparr>) \<and> account \<lparr>account = ''123456789012'', region = ''us-east-1'', physical = id\<rparr> = account \<lparr>account = ''123456789012'', region = ''eu-west-1'', physical = id\<rparr> \<and>
   (\<exists>s ns. firstcdk_stack ''FirstcdkStack'' = Inr s \<and> create_stack \<lparr>account = ''123456789012'', region = ''eu-west-1'', physical = id\<rparr> s empty_namespace = Inr ns \<and>
      create_stack \<lparr>account = ''123456789012'', region = ''us-east-1'', physical = id\<rparr> s ns = Inl (AlreadyExists ''raw-cdk-bucket-123456789012''))"
proof -
  have a: "account_id_ok (account \<lparr>account = ''123456789012'', region = ''eu-west-1'', physical = id\<rparr>)" by (simp add: account_id_ok_def is_digit_def)
  have e: "account \<lparr>account = ''123456789012'', region = ''us-east-1'', physical = id\<rparr> = account \<lparr>account = ''123456789012'', region = ''eu-west-1'', physical = id\<rparr>" by simp
  show ?thesis using firstcdk_second_deployment_fails [OF a e, of "''FirstcdkStack''"] a by simp
qed

lemma firstcdk_accounts_independent_witness:
  "account_id_ok (account \<lparr>account = ''123456789012'', region = ''eu-west-1'', physical = id\<rparr>) \<and> account_id_ok (account \<lparr>account = ''210987654321'', region = ''eu-west-1'', physical = id\<rparr>) \<and> account \<lparr>account = ''210987654321'', region = ''eu-west-1'', physical = id\<rparr> \<noteq> account \<lparr>account = ''123456789012'', region = ''eu-west-1'', physical = id\<rparr> \<and>
   (\<exists>s ns ns'. firstcdk_stack ''FirstcdkStack'' = Inr s \<and> create_stack \<lparr>account = ''123456789012'', region = ''eu-west-1'', physical = id\<rparr> s empty_namespace = Inr ns \<and>
      create_stack \<lparr>account = ''210987654321'', region = ''eu-west-1'', physical = id\<rparr> s ns = Inr ns')"
proof -
  have a: "account_id_ok (account \<lparr>account = ''123456789012'', region = ''eu-west-1'', physical = id\<rparr>)" "account_id_ok (account \<lparr>account = ''210987654321'', region = ''eu-west-1'', physical = id\<rparr>)" by (simp_all add: account_id_ok_def is_digit_def)
  have e: "account \<lparr>account = ''210987654321'', region = ''eu-west-1'', physical = id\<rparr> \<noteq> account \<lparr>account = ''123456789012'', region = ''eu-west-1'', physical = id\<rparr>" by simp
  show ?thesis using firstcdk_accounts_independent [OF a e, of "''FirstcdkStack''"] a e by simp
qed

end
