(* ===== verification/Runs.thy ===== *)
theory Runs
  imports Workflow GlueService
begin

text \<open>
  Several runs of the workflow over one Glue service.  EventBridge starts a run of the
  workflow for every event the rule forwards (theory \<open>Events\<close>); the runs do not wait
  for each other.  Starting a run fires its EVENT triggers (\<open>wf_start\<close>), and every
  crawl action is a StartCrawler call on the shared service (theory \<open>GlueService\<close>):
  it is recorded RUNNING when the call succeeds and FAILED when it raises, as it does
  while the crawler is running or still stopping.  When a crawl that did start ends, the
  run records its final state and the crawler goes STOPPING (\<open>crawl_progress\<close>); it is
  READY again only after the service's own later step \<open>CrawlerStopped\<close>.  Within a run
  the other steps are those of \<open>wf_step\<close>.
\<close>

record runs_conf =
  rsvc :: glue_svc
  runs :: "wf_run list"

datatype runs_event = NewRun | RunCrawlEnds nat string run_state | CrawlerStopped string | RunStep nat wf_event

definition start_crawl :: "string \<Rightarrow> glue_svc \<Rightarrow> run_state \<times> glue_svc" where
  "start_crawl n g = (case svc_start_crawler n g of Inr g' \<Rightarrow> (RUNNING_R, g') | Inl _ \<Rightarrow> (FAILED_R, g))"

fun start_crawls :: "(string \<times> run_state) list \<Rightarrow> glue_svc \<Rightarrow> (string \<times> run_state) list \<times> glue_svc" where
  "start_crawls [] g = ([], g)"
| "start_crawls ((n, st) # cs) g =
     (let (st', g1) = start_crawl n g; (cs', g2) = start_crawls cs g1 in ((n, st') # cs', g2))"

definition run_start :: "stack \<Rightarrow> string \<Rightarrow> glue_svc \<Rightarrow> wf_run \<times> glue_svc" where
  "run_start s w g = (let r = wf_start s w; (cs, g') = start_crawls (crawls r) g in (r\<lparr>crawls := cs\<rparr>, g'))"

fun runs_step :: "stack \<Rightarrow> string \<Rightarrow> runs_conf \<Rightarrow> runs_event \<Rightarrow> runs_conf option" where
  "runs_step s w c NewRun =
     (let (r, g) = run_start s w (rsvc c) in Some (c\<lparr>rsvc := g, runs := runs c @ [r]\<rparr>))"
| "runs_step s w c (RunCrawlEnds i n st) =
     (if i < length (runs c) \<and> crawlers (rsvc c) n = Some RUNNING then
        map_option (\<lambda>r'. c\<lparr>rsvc := crawl_progress n (rsvc c), runs := (runs c)[i := r']\<rparr>)
          (wf_step s w (runs c ! i) (CrawlEnds n st))
      else None)"
| "runs_step s w c (CrawlerStopped n) =
     (if crawlers (rsvc c) n = Some STOPPING then Some (c\<lparr>rsvc := crawl_progress n (rsvc c)\<rparr>)
      else None)"
| "runs_step s w c (RunStep i e) =
     (if i < length (runs c) \<and> (case e of CrawlEnds _ _ \<Rightarrow> False | _ \<Rightarrow> True) then
        map_option (\<lambda>r'. c\<lparr>runs := (runs c)[i := r']\<rparr>) (wf_step s w (runs c ! i) e)
      else None)"

definition runs_init :: runs_conf where
  "runs_init = \<lparr>rsvc = healthy [''cdk_crawler'' \<mapsto> READY], runs = []\<rparr>"

inductive runs_reach :: "stack \<Rightarrow> runs_conf \<Rightarrow> bool" for s where
  init: "runs_reach s runs_init"
| step: "runs_reach s c \<Longrightarrow> runs_step s ''glue_workflow'' c e = Some c' \<Longrightarrow> runs_reach s c'"

definition crawling :: "wf_run \<Rightarrow> bool" where
  "crawling r \<longleftrightarrow> crawls r = [(''cdk_crawler'', RUNNING_R)]"

definition runs_inv :: "runs_conf \<Rightarrow> bool" where
  "runs_inv c \<longleftrightarrow>
     get_fault (rsvc c) = None \<and> start_fault (rsvc c) = None \<and>
     dom (crawlers (rsvc c)) = {''cdk_crawler''} \<and>
     list_all (\<lambda>r. (\<exists>st. crawls r = [(''cdk_crawler'', st)]) \<and> job_runs r = []) (runs c) \<and>
     length (filter crawling (runs c)) = (if crawlers (rsvc c) ''cdk_crawler'' = Some RUNNING then 1 else 0)"

subsection \<open>Invariant\<close>

lemma firstcdk_run_start:
  "firstcdk_stack sid = Inr s \<Longrightarrow>
     run_start s ''glue_workflow'' g =
       (\<lparr>crawls = [(''cdk_crawler'', fst (start_crawl ''cdk_crawler'' g))], job_runs = [],
         fired = [''glue_crawler_trigger'']\<rparr>, snd (start_crawl ''cdk_crawler'' g))"
  by (simp add: run_start_def firstcdk_wf_start_run split: prod.split)

lemma firstcdk_fire_none:
  assumes "firstcdk_stack sid = Inr s" and "crawls r = [(''cdk_crawler'', st)]"
  shows "wf_step s ''glue_workflow'' r (Fire tn) = None"
  using assms firstcdk_wf_triggers [OF assms(1)]
  by (auto simp: glue_crawler_trigger_def glue_job_trigger_def cond_holds_def)

lemma crawl_end_single:
  "end_first n st [(m, st0)] = Some cs \<longleftrightarrow> n = m \<and> st0 = RUNNING_R \<and> st \<noteq> RUNNING_R \<and> cs = [(n, st)]"
  by auto

lemma runs_inv_init: "runs_inv runs_init"
  by (simp add: runs_inv_def runs_init_def healthy_def)

lemma runs_inv_facts:
  assumes "runs_inv c"
  obtains cs where "get_fault (rsvc c) = None" "start_fault (rsvc c) = None"
    "dom (crawlers (rsvc c)) = {''cdk_crawler''}" "crawlers (rsvc c) ''cdk_crawler'' = Some cs"
    "list_all (\<lambda>r. (\<exists>st. crawls r = [(''cdk_crawler'', st)]) \<and> job_runs r = []) (runs c)"
    "length (filter crawling (runs c)) = (if cs = RUNNING then 1 else 0)"
proof -
  from assms have "''cdk_crawler'' \<in> dom (crawlers (rsvc c))" by (simp add: runs_inv_def)
  then obtain cs where "crawlers (rsvc c) ''cdk_crawler'' = Some cs" by blast
  with assms that show ?thesis by (simp add: runs_inv_def)
qed

lemma new_run_crawl:
  assumes "start_fault g = None" and "crawlers g ''cdk_crawler'' = Some cs"
  shows "start_crawl ''cdk_crawler'' g =
           (if cs = READY then (RUNNING_R, g\<lparr>crawlers := (crawlers g)(''cdk_crawler'' \<mapsto> RUNNING)\<rparr>)
            else (FAILED_R, g))"
  using assms by (cases cs) (simp_all add: start_crawl_def svc_start_crawler_def)

lemma runs_inv_step:
  assumes s: "firstcdk_stack sid = Inr s" and inv: "runs_inv c"
    and st: "runs_step s ''glue_workflow'' c e = Some c'"
  shows "runs_inv c'"
proof -
  from inv obtain cs where f: "get_fault (rsvc c) = None" "start_fault (rsvc c) = None"
    and d: "dom (crawlers (rsvc c)) = {''cdk_crawler''}"
    and cs: "crawlers (rsvc c) ''cdk_crawler'' = Some cs"
    and all: "list_all (\<lambda>r. (\<exists>st. crawls r = [(''cdk_crawler'', st)]) \<and> job_runs r = []) (runs c)"
    and cnt: "length (filter crawling (runs c)) = (if cs = RUNNING then 1 else 0)"
    by (rule runs_inv_facts)
  have only: "n = ''cdk_crawler''" if "crawlers (rsvc c) n = Some x" for n x
    using that d by blast
  show ?thesis
  proof (cases e)
    case NewRun
    let ?sc = "start_crawl ''cdk_crawler'' (rsvc c)"
    from st NewRun have c': "c' = c\<lparr>rsvc := snd ?sc,
        runs := runs c @ [\<lparr>crawls = [(''cdk_crawler'', fst ?sc)], job_runs = [], fired = [''glue_crawler_trigger'']\<rparr>]\<rparr>"
      by (simp add: firstcdk_run_start [OF s])
    show ?thesis
    proof (cases "cs = READY")
      case True
      then show ?thesis using f d cs cnt all
        by (simp add: c' new_run_crawl runs_inv_def crawling_def insert_absorb domI)
    next
      case False
      then show ?thesis using f d cs cnt all
        by (simp add: c' new_run_crawl runs_inv_def crawling_def)
    qed
  next
    case (RunCrawlEnds i n x)
    from st RunCrawlEnds obtain r' where i: "i < length (runs c)"
      and run: "crawlers (rsvc c) n = Some RUNNING"
      and ws: "wf_step s ''glue_workflow'' (runs c ! i) (CrawlEnds n x) = Some r'"
      and c': "c' = c\<lparr>rsvc := crawl_progress n (rsvc c), runs := (runs c)[i := r']\<rparr>"
      by (auto split: if_splits)
    have n: "n = ''cdk_crawler''" using only [OF run] .
    with run cs have r: "cs = RUNNING" by simp
    from all i have "(\<exists>st. crawls (runs c ! i) = [(''cdk_crawler'', st)]) \<and> job_runs (runs c ! i) = []"
      by (simp add: list_all_length)
    then obtain st0 where cr: "crawls (runs c ! i) = [(''cdk_crawler'', st0)]"
      and jr: "job_runs (runs c ! i) = []" by blast
    from ws cr n have was: "crawling (runs c ! i)" and now: "crawls r' = [(''cdk_crawler'', x)]" "x \<noteq> RUNNING_R"
      and jr': "job_runs r' = []"
      using jr by (auto simp: crawling_def split: if_splits)
    have "length (filter crawling ((runs c)[i := r'])) + 1 = length (filter crawling (runs c))"
      using length_filter_list_update [OF i, of crawling r'] was now by (simp add: crawling_def)
    with cnt r have cnt': "filter crawling ((runs c)[i := r']) = []" by simp
    have all': "list_all (\<lambda>r. (\<exists>st. crawls r = [(''cdk_crawler'', st)]) \<and> job_runs r = []) ((runs c)[i := r'])"
      using all now jr' by (auto simp: list_all_iff dest: set_list_update_cases)
    have "dom ((crawlers (rsvc c))(''cdk_crawler'' \<mapsto> STOPPING)) = {''cdk_crawler''}" using d by simp
    then show ?thesis using f cnt' all' n cs r by (simp add: c' runs_inv_def crawl_progress_def)
  next
    case (CrawlerStopped n)
    from st CrawlerStopped have stop: "crawlers (rsvc c) n = Some STOPPING"
      and c': "c' = c\<lparr>rsvc := crawl_progress n (rsvc c)\<rparr>"
      by (auto split: if_splits)
    have n: "n = ''cdk_crawler''" using only [OF stop] .
    with stop cs have "cs = STOPPING" by simp
    moreover have "dom ((crawlers (rsvc c))(''cdk_crawler'' \<mapsto> READY)) = {''cdk_crawler''}" using d by simp
    ultimately show ?thesis using f cnt all n cs by (simp add: c' runs_inv_def crawl_progress_def)
  next
    case (RunStep i ev)
    from st RunStep obtain r' where i: "i < length (runs c)"
      and ws: "wf_step s ''glue_workflow'' (runs c ! i) ev = Some r'"
      and nc: "\<forall>n x. ev \<noteq> CrawlEnds n x"
      by (auto split: if_splits wf_event.splits)
    from inv i have "(\<exists>st. crawls (runs c ! i) = [(''cdk_crawler'', st)]) \<and> job_runs (runs c ! i) = []"
      by (simp add: runs_inv_def list_all_length)
    then obtain st0 where cr: "crawls (runs c ! i) = [(''cdk_crawler'', st0)]"
      and jr: "job_runs (runs c ! i) = []" by blast
    from ws nc show ?thesis
      using firstcdk_fire_none [OF s cr] jr by (cases ev) auto
  qed
qed

lemma runs_reach_inv:
  assumes "firstcdk_stack sid = Inr s" and "runs_reach s c"
  shows "runs_inv c"
  using assms(2) by (induction rule: runs_reach.induct) (auto intro: runs_inv_init runs_inv_step [OF assms(1)])

lemma runs_first_start:
  "firstcdk_stack sid = Inr s \<Longrightarrow>
     runs_step s ''glue_workflow'' runs_init NewRun =
       Some \<lparr>rsvc = healthy [''cdk_crawler'' \<mapsto> RUNNING],
             runs = [\<lparr>crawls = [(''cdk_crawler'', RUNNING_R)], job_runs = [], fired = [''glue_crawler_trigger'']\<rparr>]\<rparr>"
  by (simp add: firstcdk_run_start runs_init_def start_crawl_def svc_start_crawler_def healthy_def)

lemma runs_new_run_step:
  assumes "firstcdk_stack sid = Inr s" and "runs_inv c"
  shows "runs_step s ''glue_workflow'' c NewRun =
    Some \<lparr>rsvc = (if crawlers (rsvc c) ''cdk_crawler'' = Some READY
                  then (rsvc c)\<lparr>crawlers := (crawlers (rsvc c))(''cdk_crawler'' \<mapsto> RUNNING)\<rparr> else rsvc c),
          runs = runs c @
            [\<lparr>crawls = [(''cdk_crawler'',
                          if crawlers (rsvc c) ''cdk_crawler'' = Some READY then RUNNING_R else FAILED_R)],
              job_runs = [], fired = [''glue_crawler_trigger'']\<rparr>]\<rparr>"
proof -
  from assms(2) obtain cs where "start_fault (rsvc c) = None" "crawlers (rsvc c) ''cdk_crawler'' = Some cs"
    by (rule runs_inv_facts)
  then show ?thesis by (simp add: firstcdk_run_start [OF assms(1)] new_run_crawl)
qed

subsection \<open>Runs of the deployed workflow\<close>

text \<open>C23: However many uploads start runs of the deployed workflow, and however their
  steps and the crawler's own progress interleave, exactly one run has its crawl of
  cdk_crawler running while the service reports the crawler RUNNING, and none otherwise;
  and an upload arriving in any reachable configuration makes a run crawl cdk_crawler
  unless the crawler is still STOPPING from an earlier crawl.\<close>

theorem runs_one_crawl_at_a_time:
  assumes "firstcdk_stack sid = Inr s" and "runs_reach s c"
  shows "length (filter crawling (runs c)) = (if crawlers (rsvc c) ''cdk_crawler'' = Some RUNNING then 1 else 0) \<and>
         length (filter crawling (runs (the (runs_step s ''glue_workflow'' c NewRun)))) =
           (if crawlers (rsvc c) ''cdk_crawler'' = Some STOPPING then 0 else 1)"
proof -
  have inv: "runs_inv c" by (rule runs_reach_inv [OF assms])
  then obtain cs where cs: "crawlers (rsvc c) ''cdk_crawler'' = Some cs"
    and cnt: "length (filter crawling (runs c)) = (if cs = RUNNING then 1 else 0)"
    by (rule runs_inv_facts)
  show ?thesis
    using cs cnt runs_new_run_step [OF assms(1) inv]
    by (cases cs) (simp_all add: crawling_def del: runs_step.simps)
qed

text \<open>C19: A run started while an earlier run's crawl is still going or stopping (a second
  upload within one crawl) records its crawl FAILED at once, since StartCrawler raises
  CrawlerRunningException, and leaves the crawler alone; a run started while the crawler
  is READY starts it.  Nothing in the stack batches or serialises the runs.\<close>

theorem runs_new_run_while_crawling:
  assumes "firstcdk_stack sid = Inr s" and "runs_reach s c"
    and "runs_step s ''glue_workflow'' c NewRun = Some c'"
  shows "runs c' = runs c @
           [\<lparr>crawls = [(''cdk_crawler'',
                         if crawlers (rsvc c) ''cdk_crawler'' = Some READY then RUNNING_R else FAILED_R)],
             job_runs = [], fired = [''glue_crawler_trigger'']\<rparr>] \<and>
         crawlers (rsvc c') ''cdk_crawler'' =
           (if crawlers (rsvc c) ''cdk_crawler'' = Some READY then Some RUNNING
            else crawlers (rsvc c) ''cdk_crawler'')"
  using assms(3) runs_new_run_step [OF assms(1) runs_reach_inv [OF assms(1,2)]] by auto

lemma runs_one_crawl_at_a_time_witness:
  "runs_reach (projr (firstcdk_stack ''FirstcdkStack''))
     \<lparr>rsvc = healthy [''cdk_crawler'' \<mapsto> RUNNING],
      runs = [\<lparr>crawls = [(''cdk_crawler'', RUNNING_R)], job_runs = [], fired = [''glue_crawler_trigger'']\<rparr>]\<rparr> \<and>
   length (filter crawling [\<lparr>crawls = [(''cdk_crawler'', RUNNING_R)], job_runs = [], fired = [''glue_crawler_trigger'']\<rparr>]) = 1 \<and>
   length (filter crawling (runs (the (runs_step (projr (firstcdk_stack ''FirstcdkStack'')) ''glue_workflow''
     \<lparr>rsvc = healthy [''cdk_crawler'' \<mapsto> RUNNING],
      runs = [\<lparr>crawls = [(''cdk_crawler'', RUNNING_R)], job_runs = [], fired = [''glue_crawler_trigger'']\<rparr>]\<rparr>
     NewRun)))) = 1"
proof -
  let ?s = "projr (firstcdk_stack ''FirstcdkStack'')"
  let ?r1 = "\<lparr>crawls = [(''cdk_crawler'', RUNNING_R)], job_runs = [], fired = [''glue_crawler_trigger'']\<rparr>"
  let ?c1 = "\<lparr>rsvc = healthy [''cdk_crawler'' \<mapsto> RUNNING], runs = [?r1]\<rparr>"
  have s: "firstcdk_stack ''FirstcdkStack'' = Inr ?s" by (simp add: firstcdk_stack_result)
  have r1: "runs_reach ?s ?c1" using runs_reach.init runs_first_start [OF s] by (rule runs_reach.step)
  from runs_one_crawl_at_a_time [OF s r1] r1 show ?thesis by (simp add: healthy_def)
qed

lemma runs_new_run_while_crawling_witness:
  "runs_reach (projr (firstcdk_stack ''FirstcdkStack''))
     \<lparr>rsvc = healthy [''cdk_crawler'' \<mapsto> RUNNING],
      runs = [\<lparr>crawls = [(''cdk_crawler'', RUNNING_R)], job_runs = [], fired = [''glue_crawler_trigger'']\<rparr>]\<rparr> \<and>
   runs_step (projr (firstcdk_stack ''FirstcdkStack'')) ''glue_workflow''
     \<lparr>rsvc = healthy [''cdk_crawler'' \<mapsto> RUNNING],
      runs = [\<lparr>crawls = [(''cdk_crawler'', RUNNING_R)], job_runs = [], fired = [''glue_crawler_trigger'']\<rparr>]\<rparr> NewRun =
     Some \<lparr>rsvc = healthy [''cdk_crawler'' \<mapsto> RUNNING],
      runs = [\<lparr>crawls = [(''cdk_crawler'', RUNNING_R)], job_runs = [], fired = [''glue_crawler_trigger'']\<rparr>,
              \<lparr>crawls = [(''cdk_crawler'', FAILED_R)], job_runs = [], fired = [''glue_crawler_trigger'']\<rparr>]\<rparr> \<and>
   crawls (last (runs \<lparr>rsvc = healthy [''cdk_crawler'' \<mapsto> RUNNING],
      runs = [\<lparr>crawls = [(''cdk_crawler'', RUNNING_R)], job_runs = [], fired = [''glue_crawler_trigger'']\<rparr>,
              \<lparr>crawls = [(''cdk_crawler'', FAILED_R)], job_runs = [], fired = [''glue_crawler_trigger'']\<rparr>]\<rparr>)) =
     [(''cdk_crawler'', FAILED_R)]"
proof -
  let ?s = "projr (firstcdk_stack ''FirstcdkStack'')"
  let ?r1 = "\<lparr>crawls = [(''cdk_crawler'', RUNNING_R)], job_runs = [], fired = [''glue_crawler_trigger'']\<rparr>"
  let ?c1 = "\<lparr>rsvc = healthy [''cdk_crawler'' \<mapsto> RUNNING], runs = [?r1]\<rparr>"
  let ?c2 = "\<lparr>rsvc = healthy [''cdk_crawler'' \<mapsto> RUNNING],
      runs = [?r1, \<lparr>crawls = [(''cdk_crawler'', FAILED_R)], job_runs = [], fired = [''glue_crawler_trigger'']\<rparr>]\<rparr>"
  have s: "firstcdk_stack ''FirstcdkStack'' = Inr ?s" by (simp add: firstcdk_stack_result)
  have r1: "runs_reach ?s ?c1" using runs_reach.init runs_first_start [OF s] by (rule runs_reach.step)
  have st: "runs_step ?s ''glue_workflow'' ?c1 NewRun = Some ?c2"
    by (simp add: firstcdk_run_start [OF s] start_crawl_def svc_start_crawler_def healthy_def)
  from runs_new_run_while_crawling [OF s r1 st] r1 st show ?thesis by (simp add: healthy_def)
qed

end
