(* ===== verification/Spec2Isabelle.thy ===== *)
theory Spec2Isabelle
  imports Concurrency Contract Workflow Events Iam Template Lifecycle Runs
begin

text \<open>
  \<^bold>\<open>A verification library for the repository geethzy/aws-dp-1.\<close>

  The repository declares a data-ingestion pipeline on AWS with the CDK and holds one
  piece of procedural code.  Its parts, and where each is modelled:
  \<^item> the crawler-trigger handler, \<open>src/lambda/lambda_handler.py\<close>,
    \<open>lambda_handler(event, context)\<close>: prints a line, asks Glue for the crawler
    \<open>test-lambda-crawler\<close>, starts it unless it is RUNNING, suppresses
    \<open>EntityNotFoundException\<close> from either call, prints a line and returns
    \<open>{statusCode: 200, body: json.dumps('Hello from Lambda!')}\<close>.
    Theory \<open>Handler\<close>: \<open>check_and_start\<close> (the try body), \<open>try_except\<close>,
    \<open>lambda_handler\<close>, over a world holding the Glue service state, the printed log
    and the API calls issued;
  \<^item> the handler's contract, from the design's description of it (ensure the named
    crawler runs, never start it when it already runs, suppress only the not-found
    signal): theory \<open>Contract\<close> states it as the relation \<open>ensure_running\<close> over
    the state of the named crawler (the abstraction \<open>abs_crawler\<close> of the service
    state), the outcome the platform observes (\<open>outcome_of\<close>) and the number of
    start commands (\<open>starts_issued\<close>);
  \<^item> the Glue client \<open>boto3.client('glue')\<close>, an external service: theory
    \<open>GlueService\<close> gives its interface (\<open>glue_client\<close>: \<open>get_crawler\<close>,
    \<open>start_crawler\<close> over any state) and one implementation \<open>glue_service\<close>
    following the documented GetCrawler/StartCrawler behaviour (unknown name:
    EntityNotFoundException; start of a crawler that is not READY:
    CrawlerRunningException), with injectable faults and the crawler's own lifecycle;
  \<^item> concurrent invocations: theory \<open>Concurrency\<close> splits an invocation at its two
    API calls (\<open>inv_check\<close>, \<open>inv_act\<close>, \<open>finish\<close>, from the same lines of the
    handler) and interleaves any number of them over one shared service
    (\<open>conc_step\<close>, \<open>conc_run\<close>, \<open>conc_reach\<close>), the crawler's run advancing as an
    environment event;
  \<^item> the stack \<open>FirstcdkStack\<close>, \<open>src/lambda/commenstack.py\<close> lines 71-233: theory
    \<open>Stack\<close> translates every construct call with its keyword arguments
    (\<open>raw_bucket\<close>, ..., \<open>rule_s3_glue\<close>) and the constructor as the list
    \<open>firstcdk_ops\<close> of operations in source order, run by \<open>apply_ops\<close>
    (\<open>add_child\<close> raises on a duplicate construct id, as CDK does; 
    \<open>add_event_notification\<close> changes the bucket already added); values known only
    at deployment are \<open>token\<close>s;
  \<^item> the deployed stack: theory \<open>Deploy\<close> resolves tokens in a deployment
    environment (account, region, generated physical names) and states the wiring the
    pipeline needs (references, event-mode crawler fed by its bucket's queue, rule
    targeting the workflow, names used by triggers);
  \<^item> the managed services the stack configures, modelled from their documentation
    as far as the stack uses them: theory \<open>Workflow\<close> runs a Glue workflow
    (\<open>wf_start\<close>, \<open>wf_step\<close>, reachability \<open>wf_reach\<close>: the EVENT trigger starts
    its crawls and jobs, CONDITIONAL triggers fire when their crawl or job conditions
    hold); theory \<open>Events\<close> matches EventBridge event patterns (\<open>ev_match\<close>) and
    says when a rule forwards an event (\<open>rule_forwards\<close>); theory \<open>Iam\<close> evaluates
    identity policies (\<open>role_allows\<close>: some ALLOW statement matches, no DENY does;
    glob patterns, \<open>glob\<close>, proved equal to the inductive \<open>glob_spec\<close>) and the
    trust of a role (\<open>principal_allows\<close>); theory \<open>Runs\<close> runs any number of workflow
    runs concurrently over the shared Glue service (\<open>runs_step\<close>, \<open>runs_reach\<close>);
  \<^item> the CDK app \<open>src/app.py\<close> and the unit tests
    \<open>src/tests/unit/test_firstcdk_stack.py\<close>: theory \<open>Template\<close> models the import of
    the stack class through a module table (\<open>import_stack_class\<close>), \<open>App()\<close>, adding
    the stack and \<open>app.synth()\<close> (\<open>app_main\<close>), and both tests
    (\<open>test_sqs_queue_created\<close>, \<open>test_sns_topic_created\<close>) with the assertions of
    \<open>aws_cdk.assertions\<close>; below them, CDK synthesis of each construct into a
    CloudFormation resource (\<open>synth\<close>, \<open>resource_of\<close>, tokens as intrinsic
    functions by \<open>token_json\<close>) and CloudFormation's evaluation of intrinsic
    functions (\<open>cfn_eval_str\<close>);
  \<^item> creation and deletion of the deployed stack: theory \<open>Lifecycle\<close> checks the
    naming rules of S3, IAM and EventBridge, creates the resources against the names
    already taken (\<open>create_stack\<close>: bucket names are global, role names per account)
    and deletes them under their removal policies (\<open>delete_failures\<close>);
  \<^item> shared vocabulary: \<open>Prelude\<close> (exceptions as sums, list-update lemmas) and
    \<open>Json\<close> (JSON values, \<open>json.dumps\<close> on strings and the string case of
    \<open>json.loads\<close>, \<open>json_loads_str\<close>).

  What the lemmas show, by group:
  \<^item> Handler, C1-C7, C9, C11, C14: the result, log, calls and service state of the
    handler on every branch (not RUNNING and started, RUNNING, not found, other error,
    error from the start call), for every client; at most one start per invocation,
    exactly when GetCrawler answered a crawler that is not RUNNING; the fixed response
    on every returning path; the service changed only by a successful start; repeated
    invocations from RUNNING never start it, from READY start it exactly once.  The
    splitting lemmas \<open>handler_check_finished\<close> and \<open>handler_check_act\<close> relate the
    sequential handler to the two steps of \<open>Concurrency\<close>.
  \<^item> Concurrency, C10, C12, C13: in every interleaving while the crawler runs no
    start is issued; from READY at most one invocation starts it (invariant
    \<open>ready_inv\<close> by rule induction over \<open>conc_reach\<close>); and for any number of
    invocations the schedule in which all check before any acts (\<open>race_all\<close>) makes
    every invocation but the first raise CrawlerRunningException to the platform.
    The plain lemmas \<open>conc_handler_steps_bounded\<close> and \<open>conc_progress\<close> show that
    every schedule has at most two steps per invocation and some schedule ends them all.
  \<^item> Contract, C8, C33: the design's contract \<open>ensure_running\<close>; on every Glue
    service whose not-found signal means an unknown crawler (\<open>not_found_faithful\<close>)
    the handler refines it, issuing no start when the crawler is RUNNING or unknown
    whatever the outcome, and leaves the other crawlers alone;
    \<open>start_not_found_violates_contract\<close> shows the hypothesis is needed (a crawler
    deleted between the two calls yields the success response while nothing runs); a
    STOPPING crawler makes the handler raise instead of returning the promised response.
  \<^item> Stack and Deploy, C15-C18, C20: the constructor never raises and builds the
    fourteen constructs with distinct ids (\<open>apply_ops_distinct_ids\<close>: any operation
    sequence keeps ids distinct); every reference names a construct of the right kind;
    the crawler's event mode is wired to the queue its bucket notifies; and two defects
    (below).
  \<^item> End to end, C21 (this theory, \<open>notified_queues\<close>, \<open>eventbridge_events\<close>,
    \<open>upload_workflows\<close>): an object created in the raw bucket reaches glue_queue and,
    since the bucket enables EventBridge delivery, through the rule, its target ARN and
    its authorised role, starts glue_workflow, whose runs crawl cdk_crawler and never
    start the job; objects of other buckets do neither.  The theorem composes lemmas of
    \<open>Deploy\<close>, \<open>Events\<close>, \<open>Iam\<close> and \<open>Workflow\<close>.
  \<^item> Across components, C22: the crawler the handler manages is not declared by the
    stack.
  \<^item> Workflow, C24: in no reachable run does the job trigger fire or a job run exist
    (invariant \<open>no_job_inv\<close> by rule induction over \<open>wf_reach\<close>); with the condition
    naming cdk_crawler the job does run (\<open>intended_workflow_runs_job\<close>).
  \<^item> Runs, C19 and C23: concurrent runs of the workflow share the crawler through the
    Glue service model, whose crawler goes RUNNING, STOPPING and READY again; exactly
    one run crawls while the service reports RUNNING and none otherwise (invariant
    \<open>runs_inv\<close> by rule induction over \<open>runs_reach\<close>), an upload makes a run crawl
    unless the crawler is STOPPING, and a run started during a crawl records its
    crawl FAILED.
  \<^item> Events, C25: the rule forwards an event to the workflow exactly when it is an
    Object Created event of the raw bucket, in every account and region.
  \<^item> Iam, C26-C27: the Glue role allows exactly the actions of seven services on every
    resource; the crawler, the job and the rule target run under roles their service
    may assume that allow the actions they perform.
  \<^item> Json: \<open>json_loads_dumps\<close> and \<open>handler_body_roundtrip\<close>: the \<open>json.loads\<close>
    model inverts the \<open>json.dumps\<close> model on every string.
  \<^item> Template, C28-C29: app.py and the tests fail on the missing module; with the
    import fixed both tests fail their assertions.  Supporting lemmas: evaluating the
    synthesised intrinsic function of a token equals resolving it on the construct tree
    (\<open>synth_intrinsics_resolve\<close>), the template passes CloudFormation's reference check
    (\<open>firstcdk_template_wf\<close>), and the app renders one resource per construct
    (\<open>app_synthesises_firstcdk\<close>; CDK's own additional resources are not rendered).
  \<^item> Lifecycle, C30-C32, C34: the resolved names obey the services' length and
    character bounds in every account; a second creation in the same account fails in
    any region, creations in different accounts do not collide; deleting the stack
    fails exactly when the raw bucket holds objects.

  Findings the theorems prove: the job trigger waits for a crawler named
  \<open>glue_crawler\<close> that does not exist (C18), so the job never runs from the workflow
  (C24); the job reads \<open>glue_job.py\<close> at the bucket root while the deployment writes
  under \<open>scripts/\<close> (C20); the race's losers raise CrawlerRunningException to the
  platform instead of being harmless (C13), as does any invocation that finds the
  crawler STOPPING (C8); the handler's crawler only exists in commented-out code (C22);
  the Glue role, described as giving access to S3, allows every IAM and CloudTrail
  action (C26); app.py and the tests import a module that does not exist (C28), and the
  tests assert a queue and a topic the stack never declares (C29); the raw bucket cannot
  be deleted with objects although the comment on its removal policy says it can (C34);
  the stack can be created only once per account (C31); an upload during a crawl starts
  a workflow run whose crawl fails (C19).

  Bounds and fuel: no loop of the code needs fuel.  Account ids are twelve digits,
  which bounds the bucket names at 33 characters (C30).  The interleaving model is
  parametric in the number of invocations; its termination measure \<open>pending\<close> counts
  two steps per invocation not yet started and one per invocation about to start.

  Not modelled: \<open>print\<close> is modelled as appending to the invocation's log and nothing
  more; the client creation \<open>boto3.client('glue')\<close> is the parameter \<open>c\<close> (its own
  failures, such as a missing region, are not modelled); the resources the CDK
  library adds on its own (custom resources, queue and bucket policies, the deployment
  Lambda), the asset properties of the deployment and CDK's hash-based logical ids
  (any injective allocation stands for them); the existence of the asset directory
  \<open>./assets/\<close> of the deployment (it is not under \<open>src/\<close>; CDK raises at synthesis
  when it is missing, so C15 and C29 assume it is present); the commented-out code (lines 1-2 of
  the handler, 1-51 of the stack file).  Of the services: IAM resource policies,
  conditions and boundaries, EventBridge pattern operators other than exact match,
  the timeouts, batching and retries of Glue workflows, and CloudFormation's rollback
  after a failed creation.  Characters stand for code points below 256, so
  \<open>json.loads\<close> escapes above that are rejected.
\<close>

definition deployed_glue :: "stack \<Rightarrow> crawler_state \<Rightarrow> glue_svc" where
  "deployed_glue s st = healthy (map_of (map (\<lambda>n. (n, st)) (crawler_names s)))"

text \<open>What an object created in the bucket named \<open>n\<close> sets in motion, across the
  services the stack wires together: the queues the bucket's notifications deliver
  the event to (S3 notifications, theory \<open>Stack\<close>), and the workflows EventBridge
  starts for the event S3 sends (theory \<open>Events\<close>): every rule whose pattern matches
  notifies each of its targets whose ARN resolves (theory \<open>Deploy\<close>) through a role
  EventBridge may assume and that allows glue:notifyEvent on it (theory \<open>Iam\<close>).\<close>

definition notified_queues :: "deploy_env \<Rightarrow> stack \<Rightarrow> string \<Rightarrow> string list" where
  "notified_queues env s n =
     concat (map (\<lambda>(k, b).
       if resolve env (children s) (Ref k) = Some n
       then concat (map (\<lambda>nd. case nd of (OBJECT_CREATED, SqsDestination q) \<Rightarrow> [q] | _ \<Rightarrow> []) (b_notifications b))
       else []) (buckets_of s))"

definition started_workflows :: "deploy_env \<Rightarrow> stack \<Rightarrow> json \<Rightarrow> string list" where
  "started_workflows env s ev =
     concat (map (\<lambda>r.
       if rule_forwards env s r ev then
         concat (map (\<lambda>t. case resolve env (children s) (rt_arn t) of
                           Some a \<Rightarrow>
                             if principal_allows (children s) ''events.amazonaws.com'' (rt_role_arn t) ''glue:notifyEvent'' a
                             then filter (\<lambda>w. workflow_arn env w = a) (workflow_names s) else []
                         | None \<Rightarrow> []) (rule_targets r))
       else []) (rules_of s))"

text \<open>S3 sends an event to EventBridge for an object created in a bucket only when the
  bucket has EventBridge notifications switched on (\<open>event_bridge_enabled\<close>); the event
  names the bucket and the key.  \<open>upload_workflows\<close> is what an upload sets in motion
  through EventBridge: the workflows started by the events S3 sends for it.\<close>

definition eventbridge_events :: "deploy_env \<Rightarrow> stack \<Rightarrow> string \<Rightarrow> string \<Rightarrow> json list" where
  "eventbridge_events env s n k =
     concat (map (\<lambda>(kid, b).
       if resolve env (children s) (Ref kid) = Some n \<and> b_event_bridge_enabled b
       then [s3_object_event (account env) (region env) ''Object Created'' n k]
       else []) (buckets_of s))"

definition upload_workflows :: "deploy_env \<Rightarrow> stack \<Rightarrow> string \<Rightarrow> string \<Rightarrow> string list" where
  "upload_workflows env s n k = concat (map (started_workflows env s) (eventbridge_events env s n k))"

text \<open>C22: The handler manages the crawler 'test-lambda-crawler', which the stack does not
  declare (it only exists in the commented-out earlier stack).  On a Glue service holding
  exactly the stack's crawlers, in any state, every invocation takes the not-found branch:
  it succeeds and never starts a crawler.\<close>

theorem handler_crawler_not_in_stack:
  "\<exists>s. firstcdk_stack sid = Inr s \<and> crawler_name \<notin> set (crawler_names s) \<and>
     (\<forall>st. lambda_handler glue_service ev ctx (fresh_world (deployed_glue s st)) =
        (Inr hello_response,
         \<lparr>svc = deployed_glue s st,
          stdout = [''lambda1 invoked - cdk'', msg_not_found, ''lambda1 finished - cdk''],
          api_calls = [GetCrawler crawler_name]\<rparr>))"
  by (simp add: firstcdk_stack_result deploy_defs glue_crawler_def crawler_name_def deployed_glue_def
                lambda_handler_unfold fresh_world_def glue_service_simps)

text \<open>C21: End to end, in every account and region: an object created in the raw
  bucket, whatever its key, is delivered to glue_queue (the queue the event-mode crawler
  reads) and, sent to EventBridge because the bucket enables it, starts the workflow
  glue_workflow through the EventBridge rule, whose target role may notify it; an object created in any other bucket does neither.  Every
  run of that workflow starts by crawling cdk_crawler, and no reachable run ever starts
  a job run: the pipeline ingests but never transforms.\<close>

theorem upload_pipeline:
  "\<exists>s. firstcdk_stack sid = Inr s \<and>
     (\<forall>env n k.
        notified_queues env s n = (if n = ''raw-cdk-bucket-'' @ account env then [''glue_queue''] else []) \<and>
        upload_workflows env s n k =
          (if n = ''raw-cdk-bucket-'' @ account env then [''glue_workflow''] else [])) \<and>
     wf_start s ''glue_workflow'' =
       \<lparr>crawls = [(''cdk_crawler'', RUNNING_R)], job_runs = [], fired = [''glue_crawler_trigger'']\<rparr> \<and>
     (\<forall>r. wf_reach s ''glue_workflow'' r \<longrightarrow> job_runs r = [])"
proof -
  let ?s = "projr (firstcdk_stack sid)"
  have s: "firstcdk_stack sid = Inr ?s" by (simp add: firstcdk_stack_result)
  have q: "notified_queues env ?s n = (if n = ''raw-cdk-bucket-'' @ account env then [''glue_queue''] else [])"
    for env n
    by (auto simp: notified_queues_def buckets_of_def firstcdk_stack_result raw_bucket_def output_bucket_def)
  have w: "started_workflows env ?s (s3_object_event (account env) (region env) ''Object Created'' n k) =
             (if n = ''raw-cdk-bucket-'' @ account env then [''glue_workflow''] else [])" for env n k
    using firstcdk_rule_routing [OF s, of env] firstcdk_rule_forwards_iff [OF s, of env]
          firstcdk_rule_role_notify [OF s]
    by (simp add: started_workflows_def)
  have e: "eventbridge_events env ?s n k =
             (if n = ''raw-cdk-bucket-'' @ account env
              then [s3_object_event (account env) (region env) ''Object Created'' n k] else [])" for env n k
    by (auto simp: eventbridge_events_def buckets_of_def firstcdk_stack_result raw_bucket_def output_bucket_def)
  have u: "upload_workflows env ?s n k =
             (if n = ''raw-cdk-bucket-'' @ account env then [''glue_workflow''] else [])" for env n k
    unfolding upload_workflows_def e by (simp add: w)
  have "job_runs r = []" if "wf_reach ?s ''glue_workflow'' r" for r
    using firstcdk_reach_no_job [OF s that] by (simp add: no_job_inv_def)
  with s q u firstcdk_wf_start_run [OF s] show ?thesis by blast
qed

lemma upload_pipeline_witness:
  "wf_reach (projr (firstcdk_stack ''FirstcdkStack'')) ''glue_workflow''
     (wf_start (projr (firstcdk_stack ''FirstcdkStack'')) ''glue_workflow'') \<and>
   job_runs (wf_start (projr (firstcdk_stack ''FirstcdkStack'')) ''glue_workflow'') = [] \<and>
   upload_workflows \<lparr>account = ''123456789012'', region = ''eu-west-1'', physical = id\<rparr>
     (projr (firstcdk_stack ''FirstcdkStack'')) ''raw-cdk-bucket-123456789012'' ''data.csv'' =
     [''glue_workflow'']"
proof -
  let ?s = "projr (firstcdk_stack ''FirstcdkStack'')"
  let ?env = "\<lparr>account = ''123456789012'', region = ''eu-west-1'', physical = id\<rparr>"
  have s: "firstcdk_stack ''FirstcdkStack'' = Inr ?s" by (simp add: firstcdk_stack_result)
  have r: "wf_reach ?s ''glue_workflow'' (wf_start ?s ''glue_workflow'')" by (rule wf_reach.start)
  from upload_pipeline [of "''FirstcdkStack''"] s obtain
    "\<forall>env n k. upload_workflows env ?s n k =
          (if n = ''raw-cdk-bucket-'' @ account env then [''glue_workflow''] else [])"
    "\<forall>r. wf_reach ?s ''glue_workflow'' r \<longrightarrow> job_runs r = []"
    by auto
  then show ?thesis using r by (auto dest: spec [of _ ?env])
qed

end
